theory Spec2Isabelle
  imports Main "HOL-Library.Sublist"
begin

section \<open>The image information extractor (build/src/utils/image-info-extractor.ts)\<close>

text \<open>
  A shallow embedding of the extractor. Every function of the source is a HOL function of
  the same name. The source is asynchronous but strictly sequential (every call is
  awaited), so an effectful function is a state transformer over the list of events the
  run has produced so far, returning either the thrown value or the result.

  Strings are lists of 8-bit characters: the model covers ASCII text, which is what the
  commands, sentinels and names of the source are written in.
\<close>

subsection \<open>JavaScript string operations used by the source\<close>

text \<open>\<^verbatim>\<open>String.prototype.trim\<close> on ASCII text: tab, line feed, vertical tab, form feed,
  carriage return and space are removed from both ends.\<close>

definition js_whitespace :: "char \<Rightarrow> bool" where
  "js_whitespace c = (c \<in> set [CHR 0x09, CHR 0x0A, CHR 0x0B, CHR 0x0C, CHR 0x0D, CHR 0x20])"

definition js_trim :: "string \<Rightarrow> string" where
  "js_trim s = rev (dropWhile js_whitespace (rev (dropWhile js_whitespace s)))"

text \<open>\<^verbatim>\<open>s.split(sep)\<close> for a separator of one character: always at least one part.\<close>

fun js_split :: "char \<Rightarrow> string \<Rightarrow> string list" where
  "js_split sep [] = [[]]"
| "js_split sep (c # cs) =
     (if c = sep then [] # js_split sep cs
      else (case js_split sep cs of
              [] \<Rightarrow> [[c]]
            | p # ps \<Rightarrow> (c # p) # ps))"

text \<open>\<^verbatim>\<open>s.indexOf(p)\<close>: the first position at which \<open>p\<close> occurs in \<open>s\<close>, or \<open>-1\<close>.\<close>

fun js_indexOf :: "string \<Rightarrow> string \<Rightarrow> int" where
  "js_indexOf [] p = (if p = [] then 0 else -1)"
| "js_indexOf (c # cs) p =
     (if prefix p (c # cs) then 0
      else (let r = js_indexOf cs p in if r < 0 then -1 else r + 1))"

text \<open>\<^verbatim>\<open>s.substring(a, b)\<close>: both arguments are clamped to \<open>[0, length s]\<close> and swapped
  when the first exceeds the second.\<close>

definition js_substring :: "string \<Rightarrow> int \<Rightarrow> int \<Rightarrow> string" where
  "js_substring s a b =
     (let n = int (length s);
          a' = min (max a 0) n;
          b' = min (max b 0) n;
          lo = min a' b';
          hi = max a' b'
      in take (nat (hi - lo)) (drop (nat lo) s))"

text \<open>\<^verbatim>\<open>s.replace(/c/g, r)\<close> for a pattern that is one literal character and a replacement
  without \<^verbatim>\<open>$\<close>: every occurrence of the character is replaced.\<close>

definition js_replace_all_char :: "char \<Rightarrow> string \<Rightarrow> string \<Rightarrow> string" where
  "js_replace_all_char c r s = concat (map (\<lambda>x. if x = c then r else [x]) s)"

text \<open>\<^verbatim>\<open>s.replace(pattern, replacement)\<close> for a string pattern: only the first occurrence is
  replaced, and the replacement is a template in which \<^verbatim>\<open>$$\<close>, \<^verbatim>\<open>$&\<close>, \<^verbatim>\<open>$`\<close> and
  \<^verbatim>\<open>$'\<close> are expanded (there are no capture groups, so \<^verbatim>\<open>$1\<close> stays as it is).\<close>

fun getSubstitution :: "string \<Rightarrow> string \<Rightarrow> string \<Rightarrow> string \<Rightarrow> string" where
  "getSubstitution matched preceding following [] = []"
| "getSubstitution matched preceding following [c] = [c]"
| "getSubstitution matched preceding following (c # d # rest) =
     (if c = CHR ''$'' \<and> d = CHR ''$'' then CHR ''$'' # getSubstitution matched preceding following rest
      else if c = CHR ''$'' \<and> d = CHR ''&'' then matched @ getSubstitution matched preceding following rest
      else if c = CHR ''$'' \<and> d = CHR 0x60 then preceding @ getSubstitution matched preceding following rest
      else if c = CHR ''$'' \<and> d = CHR 0x27 then following @ getSubstitution matched preceding following rest
      else c # getSubstitution matched preceding following (d # rest))"

fun js_replace_from :: "string \<Rightarrow> string \<Rightarrow> string \<Rightarrow> string \<Rightarrow> string" where
  "js_replace_from pat repl preceding [] =
     (if pat = [] then getSubstitution pat preceding [] repl else [])"
| "js_replace_from pat repl preceding (c # cs) =
     (if prefix pat (c # cs)
      then getSubstitution pat preceding (drop (length pat) (c # cs)) repl @ drop (length pat) (c # cs)
      else c # js_replace_from pat repl (preceding @ [c]) cs)"

definition js_replace_first :: "string \<Rightarrow> string \<Rightarrow> string \<Rightarrow> string" where
  "js_replace_first pat repl s = js_replace_from pat repl [] s"

text \<open>Characters that a string literal of the theory cannot hold.\<close>

definition backslash :: char where
  "backslash = CHR 0x5C"

definition dquote :: char where
  "dquote = CHR 0x22"

definition squote :: char where
  "squote = CHR 0x27"

definition newline :: char where
  "newline = CHR 0x0A"

text \<open>A number written in decimal, as a template literal prints it.\<close>

fun string_of_nat :: "nat \<Rightarrow> string" where
  "string_of_nat n =
     (if n < 10 then [char_of (48 + n)]
      else string_of_nat (n div 10) @ [char_of (48 + n mod 10)])"

declare string_of_nat.simps [simp del]

text \<open>Truthiness of a value that is a string or \<^verbatim>\<open>undefined\<close>/\<^verbatim>\<open>null\<close>: the empty
  string is falsy.\<close>

fun truthy :: "string option \<Rightarrow> bool" where
  "truthy None = False"
| "truthy (Some s) = (s \<noteq> [])"

subsection \<open>Errors, events and sequential effects\<close>

text \<open>The values the source throws or lets propagate. \<open>SpawnError\<close> is the rejection of
  \<^verbatim>\<open>asyncUtils.spawn\<close>; it carries the captured output, which the source reads as
  \<^verbatim>\<open>err.result\<close>. \<open>TypeError\<close> and \<open>SyntaxError\<close> are the runtime's own errors (reading
  a property of \<^verbatim>\<open>undefined\<close>, a malformed JSON text or regular expression).\<close>

datatype error =
    Error string
  | SpawnError string
  | TypeError
  | SyntaxError

text \<open>What a run does to the outside: the processes it spawns (command and arguments) and
  the lines it writes with \<^verbatim>\<open>console.log\<close>.\<close>

datatype event =
    Spawn string "string list"
  | Log string

type_synonym 'a io = "event list \<Rightarrow> (error + 'a) \<times> event list"

definition io_return :: "'a \<Rightarrow> 'a io" where
  "io_return x = (\<lambda>tr. (Inr x, tr))"

definition io_throw :: "error \<Rightarrow> 'a io" where
  "io_throw e = (\<lambda>tr. (Inl e, tr))"

definition io_bind :: "'a io \<Rightarrow> ('a \<Rightarrow> 'b io) \<Rightarrow> 'b io" where
  "io_bind m f = (\<lambda>tr. case m tr of
                         (Inl e, tr') \<Rightarrow> (Inl e, tr')
                       | (Inr x, tr') \<Rightarrow> f x tr')"

text \<open>\<^verbatim>\<open>try { m } catch (e) { h e }\<close>\<close>

definition io_try_catch :: "'a io \<Rightarrow> (error \<Rightarrow> 'a io) \<Rightarrow> 'a io" where
  "io_try_catch m h = (\<lambda>tr. case m tr of
                              (Inl e, tr') \<Rightarrow> h e tr'
                            | (Inr x, tr') \<Rightarrow> (Inr x, tr'))"

definition console_log :: "string \<Rightarrow> unit io" where
  "console_log s = (\<lambda>tr. (Inr (), tr @ [Log s]))"

text \<open>A loop whose body may throw: the bodies run in order, and the first throw ends the
  loop (\<^verbatim>\<open>map\<close>, \<^verbatim>\<open>forEach\<close> and \<^verbatim>\<open>for ... in\<close> with an accumulated list).\<close>

fun io_map :: "('a \<Rightarrow> 'b io) \<Rightarrow> 'a list \<Rightarrow> 'b list io" where
  "io_map f [] = io_return []"
| "io_map f (x # xs) =
     io_bind (f x) (\<lambda>y. io_bind (io_map f xs) (\<lambda>ys. io_return (y # ys)))"

subsection \<open>Values parsed from JSON\<close>

text \<open>What \<^verbatim>\<open>JSON.parse\<close> returns, and \<^verbatim>\<open>undefined\<close>. A number is kept as the text
  \<^verbatim>\<open>String(n)\<close> gives for it: the source never computes with one. An object lists its own
  properties in the order in which they were created, each name once. \<open>JBuiltin b\<close> is an
  object or function of the runtime itself, which a read reaches as an inherited member
  (\<^verbatim>\<open>constructor\<close>, \<^verbatim>\<open>toString\<close>): a member of \<^verbatim>\<open>Object.prototype\<close> carries its property
  name, and \<open>JBuiltin ''__proto__''\<close> is \<^verbatim>\<open>Object.prototype\<close> itself. No parsed value
  contains one.\<close>

datatype jsval =
    JUndefined
  | JNull
  | JBool bool
  | JNum string
  | JStr string
  | JArr "jsval list"
  | JObj "(string \<times> jsval) list"
  | JBuiltin string

fun js_truthy :: "jsval \<Rightarrow> bool" where
  "js_truthy JUndefined = False"
| "js_truthy JNull = False"
| "js_truthy (JBool b) = b"
| "js_truthy (JNum n) = (n \<noteq> ''0'' \<and> n \<noteq> ''NaN'')"
| "js_truthy (JStr s) = (s \<noteq> [])"
| "js_truthy (JArr xs) = True"
| "js_truthy (JObj ps) = True"
| "js_truthy (JBuiltin b) = True"

text \<open>A string or \<^verbatim>\<open>undefined\<close>, as a value.\<close>

fun js_of_string_option :: "string option \<Rightarrow> jsval" where
  "js_of_string_option None = JUndefined"
| "js_of_string_option (Some s) = JStr s"

subsection \<open>Objects used as dictionaries\<close>

definition is_digit :: "char \<Rightarrow> bool" where
  "is_digit c = (48 \<le> (of_char c :: nat) \<and> (of_char c :: nat) \<le> 57)"

text \<open>The array index a property name denotes: the name is the decimal form, without a
  leading zero, of a number below \<open>2^32 - 1\<close>.\<close>

definition decimal_value :: "string \<Rightarrow> nat" where
  "decimal_value k = foldl (\<lambda>n c. 10 * n + (of_char c - 48)) 0 k"

definition array_index :: "string \<Rightarrow> nat option" where
  "array_index k =
     (if k \<noteq> [] \<and> list_all is_digit k \<and> (k = ''0'' \<or> hd k \<noteq> CHR ''0'')
         \<and> decimal_value k < 4294967295
      then Some (decimal_value k)
      else None)"

text \<open>An object used as a dictionary (\<^verbatim>\<open>Lookup<T>\<close>): its own properties in the order in
  which they were created, each name once.\<close>

type_synonym 'v lookup = "(string \<times> 'v) list"

text \<open>\<^verbatim>\<open>obj[k] = v\<close> where the write creates or updates an own property: an existing
  property keeps its place, a new one goes last.\<close>

fun lookup_set :: "'v lookup \<Rightarrow> string \<Rightarrow> 'v \<Rightarrow> 'v lookup" where
  "lookup_set [] k v = [(k, v)]"
| "lookup_set ((k', v') # ps) k v =
     (if k' = k then (k, v) # ps else (k', v') # lookup_set ps k v)"

text \<open>The order in which \<^verbatim>\<open>for (k in obj)\<close> visits the own properties of an object: the
  names that are array indices first, in ascending numeric order, then the other names in
  the order of their creation.\<close>

definition index_of_entry :: "string \<times> 'v \<Rightarrow> nat" where
  "index_of_entry entry = (case array_index (fst entry) of None \<Rightarrow> 0 | Some i \<Rightarrow> i)"

definition for_in :: "'v lookup \<Rightarrow> 'v lookup" where
  "for_in ps =
     sort_key index_of_entry (filter (\<lambda>entry. array_index (fst entry) \<noteq> None) ps)
       @ filter (\<lambda>entry. array_index (fst entry) = None) ps"

text \<open>\<^verbatim>\<open>merged[k] = v\<close> for a value that is a string or \<^verbatim>\<open>null\<close>, on an object that has
  \<^verbatim>\<open>Object.prototype\<close> as its prototype. The name \<^verbatim>\<open>__proto__\<close> is an accessor there: unless
  the object has an own property of that name, the write goes to the setter, which ignores
  a string and, given \<^verbatim>\<open>null\<close>, removes the prototype; in both cases no own property
  appears, which is all a later \<^verbatim>\<open>for ... in\<close> and the reads of the names it visits can
  observe.\<close>

definition js_assign :: "'v lookup \<Rightarrow> string \<Rightarrow> 'v \<Rightarrow> 'v lookup" where
  "js_assign obj k v =
     (if k = ''__proto__'' \<and> map_of obj k = None then obj else lookup_set obj k v)"

text \<open>\<^verbatim>\<open>for (let k in src) { merged[k] = src[k]; }\<close>\<close>

definition lookup_merge :: "'v lookup \<Rightarrow> 'v lookup \<Rightarrow> 'v lookup" where
  "lookup_merge merged src = foldl (\<lambda>m (k, v). js_assign m k v) merged (for_in src)"

subsection \<open>The world outside the source file\<close>

text \<open>Parameters of a pattern lookup for one package manager (\<^verbatim>\<open>LinuxPackageInfoExtractorParams\<close>,
  declared in \<^verbatim>\<open>./config\<close>).\<close>

record LinuxPackageInfoExtractorParams =
  listCommand :: string
  getUriCommand :: string
  lineRegEx :: string
  poolUriMatchRegEx :: string

text \<open>An entry of a Linux package list: a name, or extraction settings with a name
  (\<^verbatim>\<open>string | DependencyInfoExtractionSettings\<close>).\<close>

record DependencyInfoExtractionSettings =
  dep_name :: string
  dep_annotation :: "string option"
  dep_cgIgnore :: "bool option"
  dep_markdownIgnore :: "bool option"

datatype package_entry =
    PackageName string
  | PackageSettings DependencyInfoExtractionSettings

text \<open>Settings of an "other" component (\<^verbatim>\<open>OtherDependencyInfoExtractionSettings\<close>); an
  absent property is \<open>None\<close>.\<close>

record OtherDependencyInfoExtractionSettings =
  versionCommand :: "string option"
  downloadUrl :: "string option"
  other_path :: "string option"
  other_annotation :: "string option"
  other_cgIgnore :: "bool option"
  other_markdownIgnore :: "bool option"

text \<open>
  Everything the source file takes from outside itself:
  \<^item> \<open>spawn_result\<close>: what \<^verbatim>\<open>asyncUtils.spawn(command, args, ...)\<close> gives, resolved with the
    captured output (\<open>Inr\<close>) or rejected (\<open>Inl\<close>). It may depend on everything the run did
    before, so the same command can answer differently the second time;
  \<^item> \<open>dateNow\<close>: the value of \<^verbatim>\<open>Date.now()\<close>;
  \<^item> the functions imported from \<^verbatim>\<open>./config\<close>, which is not part of the sources at hand.
    \<^verbatim>\<open>getDefaultDependencies\<close> returns \<^verbatim>\<open>any\<close>; it appears once for each type at which
    the source uses its result, keyed by the same string. The source writes the caller's
    entries into the object that \<^verbatim>\<open>getDefaultDependencies\<close> returned; whether that object
    is shared between calls is decided in \<^verbatim>\<open>./config\<close>, so each call is modelled on the
    value of the table;
  \<^item> \<open>regexp_exec pattern flags s\<close>: \<^verbatim>\<open>new RegExp(pattern, flags).exec(s)\<close>, for the patterns
    that come from the configuration or are built from package names: a \<open>SyntaxError\<close>
    for a malformed pattern, \<open>None\<close> for \<^verbatim>\<open>null\<close>, or the match and its groups (a group
    that took no part is \<open>None\<close>);
  \<^item> \<open>runtime_member v k\<close>: what the prototypes of the runtime other than
    \<^verbatim>\<open>Object.prototype\<close> give for the name \<open>k\<close> read on \<open>v\<close> (the members of
    \<^verbatim>\<open>Array.prototype\<close> for an array, of \<^verbatim>\<open>String.prototype\<close> for a string, and so on),
    which differ between versions of the runtime; and \<open>runtime_to_string b\<close>, the text
    \<^verbatim>\<open>String\<close> gives for the object or function \<open>b\<close> of the runtime.
\<close>

record world =
  spawn_result :: "event list \<Rightarrow> string \<Rightarrow> string list \<Rightarrow> error + string"
  dateNow :: nat
  getFallbackPoolUrl :: "string \<Rightarrow> string option"
  getPoolKeyForPoolUrl :: "string \<Rightarrow> string option"
  snakeCaseToCamelCase :: "string \<Rightarrow> string"
  getLinuxPackageManagerForDistro :: "string option \<Rightarrow> string"
  getPackageInfoExtractorParams :: "string \<Rightarrow> LinuxPackageInfoExtractorParams"
  getDefaultDependencies_packages :: "string \<Rightarrow> package_entry list option"
  getDefaultDependencies_names :: "string \<Rightarrow> string list option"
  getDefaultDependencies_lookup :: "string \<Rightarrow> string option lookup option"
  getDefaultDependencies_other ::
    "string \<Rightarrow> OtherDependencyInfoExtractionSettings option lookup option"
  otherDependencyDefaultSettings :: "OtherDependencyInfoExtractionSettings lookup option"
  regexp_exec :: "string \<Rightarrow> string \<Rightarrow> string \<Rightarrow> error + string option list option"
  json_parse :: "string \<Rightarrow> jsval option"
  runtime_member :: "jsval \<Rightarrow> string \<Rightarrow> jsval option"
  runtime_to_string :: "string \<Rightarrow> string"

text \<open>\<^verbatim>\<open>await asyncUtils.spawn(command, args, ...)\<close>: the process is recorded, and its result
  is the world's.\<close>

definition spawn :: "world \<Rightarrow> string \<Rightarrow> string list \<Rightarrow> string io" where
  "spawn w command args = (\<lambda>tr. (spawn_result w tr command args, tr @ [Spawn command args]))"

subsection \<open>Property reads\<close>

text \<open>The names every object inherits from \<^verbatim>\<open>Object.prototype\<close>.\<close>

definition object_prototype_names :: "string list" where
  "object_prototype_names =
     [''constructor'', ''__defineGetter__'', ''__defineSetter__'', ''hasOwnProperty'',
      ''__lookupGetter__'', ''__lookupSetter__'', ''isPrototypeOf'', ''propertyIsEnumerable'',
      ''toString'', ''valueOf'', ''__proto__'', ''toLocaleString'']"

text \<open>The own properties of a value: those of a parsed object, the elements and the length
  of an array, the characters and the length of a string.\<close>

fun own_property :: "jsval \<Rightarrow> string \<Rightarrow> jsval option" where
  "own_property (JObj ps) k = map_of ps k"
| "own_property (JArr xs) k =
     (if k = ''length'' then Some (JNum (string_of_nat (length xs)))
      else (case array_index k of
              None \<Rightarrow> None
            | Some i \<Rightarrow> if i < length xs then Some (xs ! i) else None))"
| "own_property (JStr s) k =
     (if k = ''length'' then Some (JNum (string_of_nat (length s)))
      else (case array_index k of
              None \<Rightarrow> None
            | Some i \<Rightarrow> if i < length s then Some (JStr [s ! i]) else None))"
| "own_property v k = None"

text \<open>\<^verbatim>\<open>v[k]\<close>: a \<open>TypeError\<close> on \<^verbatim>\<open>undefined\<close> and \<^verbatim>\<open>null\<close>; otherwise the own property,
  else what the prototypes between the value and \<^verbatim>\<open>Object.prototype\<close> give (none for a
  parsed object), else the member of \<^verbatim>\<open>Object.prototype\<close>, else \<^verbatim>\<open>undefined\<close>.\<close>

definition js_get :: "world \<Rightarrow> jsval \<Rightarrow> string \<Rightarrow> error + jsval" where
  "js_get w v k =
     (if v = JUndefined \<or> v = JNull then Inl TypeError
      else Inr (case own_property v k of
                  Some x \<Rightarrow> x
                | None \<Rightarrow>
                    (case (case v of JObj ps \<Rightarrow> None | _ \<Rightarrow> runtime_member w v k) of
                       Some x \<Rightarrow> x
                     | None \<Rightarrow>
                         if k \<in> set object_prototype_names then JBuiltin k else JUndefined)))"

text \<open>The names \<^verbatim>\<open>for (k in v)\<close> visits.\<close>

fun js_keys :: "jsval \<Rightarrow> string list" where
  "js_keys (JObj ps) = map fst (for_in ps)"
| "js_keys (JArr xs) = map string_of_nat [0..<length xs]"
| "js_keys (JStr s) = map string_of_nat [0..<length s]"
| "js_keys v = []"

text \<open>\<^verbatim>\<open>String(v)\<close>, which is how a value becomes a property name. A parsed object with an
  own property \<^verbatim>\<open>toString\<close> has nothing callable under that name, and the inherited
  \<^verbatim>\<open>valueOf\<close> returns the object itself: a \<open>TypeError\<close>.\<close>

fun join_comma :: "string list \<Rightarrow> string" where
  "join_comma [] = []"
| "join_comma [s] = s"
| "join_comma (s # t # ss) = s @ '','' @ join_comma (t # ss)"

text \<open>The results of a list of steps that may fail: all the values, or the first error.\<close>

fun all_results :: "(error + 'a) list \<Rightarrow> error + 'a list" where
  "all_results [] = Inr []"
| "all_results (Inl e # rs) = Inl e"
| "all_results (Inr x # rs) = (case all_results rs of Inl e \<Rightarrow> Inl e | Inr xs \<Rightarrow> Inr (x # xs))"

fun js_to_string :: "world \<Rightarrow> jsval \<Rightarrow> error + string" where
  "js_to_string w JUndefined = Inr ''undefined''"
| "js_to_string w JNull = Inr ''null''"
| "js_to_string w (JBool b) = Inr (if b then ''true'' else ''false'')"
| "js_to_string w (JNum n) = Inr n"
| "js_to_string w (JStr s) = Inr s"
| "js_to_string w (JArr xs) =
     (case all_results (map (\<lambda>x. if x = JUndefined \<or> x = JNull then Inr [] else js_to_string w x) xs) of
        Inl e \<Rightarrow> Inl e
      | Inr parts \<Rightarrow> Inr (join_comma parts))"
| "js_to_string w (JObj ps) =
     (if map_of ps ''toString'' = None then Inr ''[object Object]'' else Inl TypeError)"
| "js_to_string w (JBuiltin b) = Inr (runtime_to_string w b)"

text \<open>An object that the source fills by assignment and reads by name, with its prototype:
  \<^verbatim>\<open>Object.prototype\<close> at creation; none, or a value, after a write to \<^verbatim>\<open>__proto__\<close>.\<close>

datatype prototype =
    ObjectPrototype
  | NoPrototype
  | PrototypeValue jsval

record js_object =
  own_properties :: "jsval lookup"
  prototype_of :: prototype

definition empty_object :: js_object where
  "empty_object = \<lparr> own_properties = [], prototype_of = ObjectPrototype \<rparr>"

fun is_object :: "jsval \<Rightarrow> bool" where
  "is_object (JObj ps) = True"
| "is_object (JArr xs) = True"
| "is_object (JBuiltin b) = True"
| "is_object v = False"

text \<open>Whether a write to \<^verbatim>\<open>__proto__\<close> reaches the accessor of \<^verbatim>\<open>Object.prototype\<close>: not when
  there is no prototype, nor when the prototype is a parsed object with an own property
  of that name.\<close>

fun reaches_proto_setter :: "prototype \<Rightarrow> bool" where
  "reaches_proto_setter ObjectPrototype = True"
| "reaches_proto_setter NoPrototype = False"
| "reaches_proto_setter (PrototypeValue p) = (own_property p ''__proto__'' = None)"

text \<open>\<^verbatim>\<open>obj[k] = v\<close>. A write to \<^verbatim>\<open>__proto__\<close> that reaches the accessor changes the
  prototype when the value is an object or \<^verbatim>\<open>null\<close> and does nothing otherwise; every other
  write creates or updates an own property.\<close>

definition js_object_set :: "js_object \<Rightarrow> string \<Rightarrow> jsval \<Rightarrow> js_object" where
  "js_object_set obj k v =
     (if k = ''__proto__'' \<and> map_of (own_properties obj) k = None
         \<and> reaches_proto_setter (prototype_of obj)
      then (if is_object v then obj \<lparr> prototype_of := PrototypeValue v \<rparr>
            else if v = JNull then obj \<lparr> prototype_of := NoPrototype \<rparr>
            else obj)
      else obj \<lparr> own_properties := lookup_set (own_properties obj) k v \<rparr>)"

text \<open>\<^verbatim>\<open>obj[k]\<close>: the own property, else what the prototype gives. Read through the accessor,
  \<^verbatim>\<open>__proto__\<close> is the prototype itself.\<close>

definition js_object_get :: "world \<Rightarrow> js_object \<Rightarrow> string \<Rightarrow> jsval" where
  "js_object_get w obj k =
     (case map_of (own_properties obj) k of
        Some v \<Rightarrow> v
      | None \<Rightarrow>
          (case prototype_of obj of
             ObjectPrototype \<Rightarrow> if k \<in> set object_prototype_names then JBuiltin k else JUndefined
           | NoPrototype \<Rightarrow> JUndefined
           | PrototypeValue p \<Rightarrow>
               if k = ''__proto__'' \<and> own_property p k = None then p
               else (case js_get w p k of Inl e \<Rightarrow> JUndefined | Inr x \<Rightarrow> x)))"

subsection \<open>The command runner\<close>

definition isContainerName :: "string \<Rightarrow> bool" where
  "isContainerName imageTagOrContainerName =
     (js_indexOf imageTagOrContainerName ''vscdc--extract--'' = 0)"

definition runArgs :: "string \<Rightarrow> bool \<Rightarrow> string list" where
  "runArgs imageTagOrContainerName forceRoot =
     (if isContainerName imageTagOrContainerName
      then [''exec''] @ (if forceRoot then [''-u'', ''root''] else [])
      else [''run'', ''--init'', ''--privileged'', ''--rm'']
             @ (if forceRoot then [''-u'', ''root''] else []))"

definition wrappedCommand :: "string \<Rightarrow> string" where
  "wrappedCommand command =
     ''bash -c '' @ [dquote] @ ''set -e && echo ~~~BEGIN~~~ && '' @ command
       @ '' && echo && echo ~~~END~~~'' @ [dquote]"

definition filteredResult :: "string \<Rightarrow> string" where
  "filteredResult result =
     js_substring result (js_indexOf result ''~~~BEGIN~~~'' + 11) (js_indexOf result ''~~~END~~~'')"

definition getCommandOutputFromContainer :: "world \<Rightarrow> string \<Rightarrow> string \<Rightarrow> bool \<Rightarrow> string io" where
  "getCommandOutputFromContainer w imageTagOrContainerName command forceRoot =
     io_bind
       (spawn w ''docker''
          (runArgs imageTagOrContainerName forceRoot
             @ [imageTagOrContainerName, wrappedCommand command]))
       (\<lambda>result. io_return (js_trim (filteredResult result)))"

subsection \<open>The records the extractor produces\<close>

text \<open>\<open>version\<close> is declared a string, but it holds whatever the extractor found: a string
  taken from a command's output, a value of a parsed JSON text, \<^verbatim>\<open>undefined\<close>, or a member
  that the map of installed pip packages inherits.\<close>

record PackageInfo =
  name :: string
  version :: jsval
  url :: "string option"
  path :: "string option"
  annotation :: "string option"
  poolUrl :: "string option"
  poolKeyUrl :: "string option"
  commitHash :: "string option"
  cgIgnore :: "bool option"
  markdownIgnore :: "bool option"

type_synonym DistroInfo = "string lookup"

type_synonym CgComponent = jsval

text \<open>The dependencies of one image (\<^verbatim>\<open>DependencyInfoExtractionSettingsGroup\<close>). \<open>dep_linux\<close>
  is the read \<^verbatim>\<open>dependencies[key]\<close> for the id of a distribution or the name of a package
  manager; a property that is not there is \<open>None\<close>.\<close>

record DependencyInfoExtractionSettingsGroup =
  dep_linux :: "string \<Rightarrow> package_entry list option"
  dep_npm :: "string list option"
  dep_pip :: "string list option"
  dep_pipx :: "string list option"
  dep_gem :: "string list option"
  dep_cargo :: "string option lookup option"
  dep_go :: "string option lookup option"
  dep_git :: "string option lookup option"
  dep_other :: "OtherDependencyInfoExtractionSettings option lookup option"
  dep_languages :: "OtherDependencyInfoExtractionSettings option lookup option"
  dep_manual :: "CgComponent list"

text \<open>A package record with a name and nothing else.\<close>

definition packageInfo :: "string \<Rightarrow> jsval \<Rightarrow> PackageInfo" where
  "packageInfo n v =
     \<lparr> name = n, version = v, url = None, path = None, annotation = None, poolUrl = None,
       poolKeyUrl = None, commitHash = None, cgIgnore = None, markdownIgnore = None \<rparr>"

text \<open>\<^verbatim>\<open>new RegExp(pattern, flags).exec(s)\<close> and \<^verbatim>\<open>JSON.parse(s)\<close> as steps of a run.\<close>

definition io_of :: "error + 'a \<Rightarrow> 'a io" where
  "io_of r = (\<lambda>tr. (r, tr))"

definition regexp :: "world \<Rightarrow> string \<Rightarrow> string \<Rightarrow> string \<Rightarrow> string option list option io" where
  "regexp w pattern flags s = io_of (regexp_exec w pattern flags s)"

definition parse_json :: "world \<Rightarrow> string \<Rightarrow> jsval io" where
  "parse_json w s = (case json_parse w s of None \<Rightarrow> io_throw SyntaxError | Some v \<Rightarrow> io_return v)"

text \<open>\<^verbatim>\<open>groups[i]\<close> of a match: \<^verbatim>\<open>undefined\<close> past the end and for a group that took no
  part.\<close>

definition group :: "string option list \<Rightarrow> nat \<Rightarrow> string option" where
  "group gs i = (if i < length gs then gs ! i else None)"

subsection \<open>The distro identity reader\<close>

text \<open>The body of \<^verbatim>\<open>osInfoLines.forEach\<close>: one line of \<^verbatim>\<open>/etc/os-release\<close>.\<close>

definition distroInfoLine :: "world \<Rightarrow> DistroInfo \<Rightarrow> string \<Rightarrow> DistroInfo" where
  "distroInfoLine w info infoLine =
     (let infoLineParts = js_split (CHR ''='') infoLine in
      if length infoLineParts = 2
      then lookup_set info
             (snakeCaseToCamelCase w (js_trim (infoLineParts ! 0)))
             (js_trim (js_replace_all_char dquote [] (infoLineParts ! 1)))
      else info)"

definition getLinuxDistroInfo :: "world \<Rightarrow> string \<Rightarrow> DistroInfo io" where
  "getLinuxDistroInfo w imageTagOrContainerName =
     io_bind (getCommandOutputFromContainer w imageTagOrContainerName ''cat /etc/os-release'' True)
       (\<lambda>osInfoCommandOutput.
          io_return (foldl (distroInfoLine w) [] (js_split newline osInfoCommandOutput)))"

subsection \<open>Linux packages\<close>

fun entry_name :: "package_entry \<Rightarrow> string" where
  "entry_name (PackageName n) = n"
| "entry_name (PackageSettings s) = dep_name s"

fun entry_settings :: "package_entry \<Rightarrow> DependencyInfoExtractionSettings" where
  "entry_settings (PackageName n) =
     \<lparr> dep_name = n, dep_annotation = None, dep_cgIgnore = None, dep_markdownIgnore = None \<rparr>"
| "entry_settings (PackageSettings s) = s"

text \<open>The settings object and the command part, the two \<^verbatim>\<open>packageList.reduce\<close> calls.
  The settings object is read in one place, \<^verbatim>\<open>settings[packageName] || {}\<close>, and only the
  properties \<^verbatim>\<open>cgIgnore\<close>, \<^verbatim>\<open>annotation\<close> and \<^verbatim>\<open>markdownIgnore\<close> of the result are used.
  A write under the name \<^verbatim>\<open>__proto__\<close> makes the entry the prototype of the object, and the
  read of that name returns it, as the read of an own property would. A name that was not
  written reads as a member of \<^verbatim>\<open>Object.prototype\<close> or of such a prototype, or as
  \<^verbatim>\<open>undefined\<close>; a member is a function, the prototype object, or a string or boolean of
  an entry, none of which has one of the three properties, so the read is as good as the
  empty object, which is what \<open>None\<close> stands for below.\<close>

definition linuxSettings :: "package_entry list \<Rightarrow> DependencyInfoExtractionSettings lookup" where
  "linuxSettings packageList =
     foldl (\<lambda>obj current. lookup_set obj (entry_name current) (entry_settings current)) [] packageList"

definition packageListCommandPart :: "package_entry list \<Rightarrow> string" where
  "packageListCommandPart packageList =
     foldl (\<lambda>prev current. prev @ '' '' @ entry_name current) [] packageList"

definition sanitizedPackage :: "string \<Rightarrow> string" where
  "sanitizedPackage packageName =
     js_replace_all_char (CHR ''.'') [backslash, CHR ''.'']
       (js_replace_all_char (CHR ''+'') [backslash, CHR ''+''] packageName)"

definition sanitizedVersion :: "string \<Rightarrow> string" where
  "sanitizedVersion ver =
     js_replace_all_char (CHR '':'') ''%3a''
       (js_replace_all_char (CHR ''.'') [backslash, CHR ''.'']
          (js_replace_all_char (CHR ''+'') [backslash, CHR ''+''] ver))"

definition poolUriPattern :: "LinuxPackageInfoExtractorParams \<Rightarrow> string \<Rightarrow> string \<Rightarrow> string" where
  "poolUriPattern config packageName ver =
     js_replace_first ''${VERSION}'' (sanitizedVersion ver)
       (js_replace_first ''${PACKAGE}'' (sanitizedPackage packageName) (poolUriMatchRegEx config))"

definition getPoolUrlFromPackageVersionListOutput ::
  "world \<Rightarrow> string \<Rightarrow> LinuxPackageInfoExtractorParams \<Rightarrow> string \<Rightarrow> string \<Rightarrow> string option io" where
  "getPoolUrlFromPackageVersionListOutput w packageUriCommandOutput config packageName ver =
     io_bind (regexp w (poolUriPattern config packageName ver) ''m'' packageUriCommandOutput)
       (\<lambda>uriCaptureGroup.
          case uriCaptureGroup of
            None \<Rightarrow>
              (let fallbackPoolUrl = getFallbackPoolUrl w packageName in
               if truthy fallbackPoolUrl then io_return fallbackPoolUrl
               else io_bind
                      (console_log (''(!) No URI found for '' @ packageName @ '' '' @ ver @ ''.''))
                      (\<lambda>_. io_return None))
          | Some groups \<Rightarrow> io_return (group groups 1))"

text \<open>The body of \<^verbatim>\<open>packageVersionList.forEach\<close>: one line of the version list gives a
  record, or nothing. \<^verbatim>\<open>settings[packageName] || {}\<close> is \<open>None\<close> for the empty object. When
  the match has no first or second group, the first thing that fails is
  \<^verbatim>\<open>packageName.replace\<close> (or \<^verbatim>\<open>version.replace\<close>) in
  \<^verbatim>\<open>getPoolUrlFromPackageVersionListOutput\<close>, a \<open>TypeError\<close>.\<close>

definition linuxPackageVersionLine ::
  "world \<Rightarrow> LinuxPackageInfoExtractorParams \<Rightarrow> DependencyInfoExtractionSettings lookup
     \<Rightarrow> string \<Rightarrow> string \<Rightarrow> PackageInfo option io" where
  "linuxPackageVersionLine w params settings packageUriCommandOutput line =
     (let packageVersion = js_trim line in
      if packageVersion = [] then io_return None
      else
        io_bind (regexp w (lineRegEx params) [] packageVersion)
          (\<lambda>versionCaptureGroup.
             case versionCaptureGroup of
               None \<Rightarrow>
                 io_bind
                   (console_log
                      (if packageVersion = ''Some packages were not found.''
                       then ''(!) Warning: Some specified packages were not found.''
                       else ''(!) Warning: Unable to parse output '' @ [dquote] @ packageVersion
                              @ [dquote] @ '' - skipping.''))
                   (\<lambda>_. io_return None)
             | Some groups \<Rightarrow>
                 (case (group groups 1, group groups 2) of
                    (Some packageName, Some ver) \<Rightarrow>
                      (let extractionSettings = map_of settings packageName;
                           cgIgnore = (case Option.bind extractionSettings dep_cgIgnore of
                                         None \<Rightarrow> True
                                       | Some b \<Rightarrow> b)
                       in io_bind
                            (getPoolUrlFromPackageVersionListOutput w packageUriCommandOutput
                               params packageName ver)
                            (\<lambda>poolUrl.
                               let poolKey = (case poolUrl of
                                                None \<Rightarrow> None
                                              | Some u \<Rightarrow> if u \<noteq> [] then getPoolKeyForPoolUrl w u
                                                          else None)
                               in if \<not> truthy poolUrl \<and> \<not> cgIgnore
                                  then io_throw (Error ''(!) No pool URL found to register package!'')
                                  else io_return
                                         (Some \<lparr> name = packageName,
                                                 version = JStr ver,
                                                 url = None,
                                                 path = None,
                                                 annotation = Option.bind extractionSettings dep_annotation,
                                                 poolUrl = poolUrl,
                                                 poolKeyUrl = poolKey,
                                                 commitHash = None,
                                                 cgIgnore = Some cgIgnore,
                                                 markdownIgnore =
                                                   Option.bind extractionSettings dep_markdownIgnore \<rparr>)))
                  | _ \<Rightarrow> io_throw TypeError)))"

text \<open>\<^verbatim>\<open>linuxDistroInfo\<close> is always passed, and its \<^verbatim>\<open>id\<close> is read in the first statement,
  so the later \<^verbatim>\<open>if (!linuxDistroInfo)\<close> never fires.\<close>

definition getLinuxPackageInfo ::
  "world \<Rightarrow> string \<Rightarrow> package_entry list \<Rightarrow> DistroInfo \<Rightarrow> PackageInfo list io" where
  "getLinuxPackageInfo w imageTagOrContainerName packageList0 linuxDistroInfo =
     (let packageManager = getLinuxPackageManagerForDistro w (map_of linuxDistroInfo ''id'');
          defaultPackages = (case getDefaultDependencies_packages w packageManager of
                               None \<Rightarrow> []
                             | Some d \<Rightarrow> d);
          packageList = defaultPackages @ packageList0
      in if length packageList = 0 then io_return []
         else
           (let settings = linuxSettings packageList;
                commandPart = packageListCommandPart packageList;
                params = getPackageInfoExtractorParams w packageManager;
                notFound = '' || echo '' @ [squote] @ ''Some packages were not found.'' @ [squote]
            in io_bind (console_log ''(*) Gathering information about Linux package versions...'')
                 (\<lambda>_. io_bind
                   (getCommandOutputFromContainer w imageTagOrContainerName
                      (listCommand params @ commandPart @ notFound) True)
                 (\<lambda>packageVersionListOutput. io_bind
                   (console_log ''(*) Gathering information about Linux package download URLs...'')
                 (\<lambda>_. io_bind
                   (getCommandOutputFromContainer w imageTagOrContainerName
                      (getUriCommand params @ commandPart @ notFound) True)
                 (\<lambda>packageUriCommandOutput. io_bind
                   (io_map (linuxPackageVersionLine w params settings packageUriCommandOutput)
                      (js_split newline packageVersionListOutput))
                 (\<lambda>packageInfoList. io_return (List.map_filter id packageInfoList))))))))"

subsection \<open>npm\<close>

text \<open>The \<^verbatim>\<open>for ... in\<close> loop over the top-level packages: \<open>packageJson\<close> is what the last
  read gave, and the loop ends at the first truthy one.\<close>

fun npmNestedSearch ::
  "world \<Rightarrow> jsval \<Rightarrow> string \<Rightarrow> string list \<Rightarrow> jsval \<Rightarrow> error + jsval" where
  "npmNestedSearch w dependencies packageName [] packageJson = Inr packageJson"
| "npmNestedSearch w dependencies packageName (packageInNpmOutput # rest) packageJson =
     (case js_get w dependencies packageInNpmOutput of
        Inl e \<Rightarrow> Inl e
      | Inr topLevel \<Rightarrow>
          (case js_get w topLevel ''dependencies'' of
             Inl e \<Rightarrow> Inl e
           | Inr packageDependencies \<Rightarrow>
               if js_truthy packageDependencies
               then (case js_get w packageDependencies packageName of
                       Inl e \<Rightarrow> Inl e
                     | Inr found \<Rightarrow>
                         if js_truthy found then Inr found
                         else npmNestedSearch w dependencies packageName rest found)
               else npmNestedSearch w dependencies packageName rest packageJson))"

definition npmFindPackageJson :: "world \<Rightarrow> jsval \<Rightarrow> string \<Rightarrow> error + jsval" where
  "npmFindPackageJson w npmOutput packageName =
     (case js_get w npmOutput ''dependencies'' of
        Inl e \<Rightarrow> Inl e
      | Inr dependencies \<Rightarrow>
          (case js_get w dependencies packageName of
             Inl e \<Rightarrow> Inl e
           | Inr packageJson \<Rightarrow>
               if \<not> js_truthy packageJson
               then npmNestedSearch w dependencies packageName (js_keys dependencies) packageJson
               else Inr packageJson))"

text \<open>The body of \<^verbatim>\<open>packageNameList.map\<close>.\<close>

definition npmPackage :: "world \<Rightarrow> jsval \<Rightarrow> string \<Rightarrow> string \<Rightarrow> error + PackageInfo" where
  "npmPackage w npmOutput npmOutputRaw packageName =
     (let failure = Error (''Unable to parse version for '' @ packageName
                            @ '' from npm ls output: '' @ npmOutputRaw)
      in case npmFindPackageJson w npmOutput packageName of
           Inl e \<Rightarrow> Inl e
         | Inr packageJson \<Rightarrow>
             if \<not> js_truthy packageJson then Inl failure
             else (case js_get w packageJson ''version'' of
                     Inl e \<Rightarrow> Inl e
                   | Inr v \<Rightarrow>
                       if \<not> js_truthy v then Inl failure
                       else Inr (packageInfo packageName v)))"

definition getNpmGlobalPackageInfo :: "world \<Rightarrow> string \<Rightarrow> string list option \<Rightarrow> PackageInfo list io" where
  "getNpmGlobalPackageInfo w imageTagOrContainerName packageNameList0 =
     (let defaultPackages = (case getDefaultDependencies_names w ''npm'' of
                               None \<Rightarrow> []
                             | Some d \<Rightarrow> d);
          packageNameList = defaultPackages @ (case packageNameList0 of None \<Rightarrow> [] | Some l \<Rightarrow> l)
      in if length packageNameList = 0 then io_return []
         else
           io_bind (console_log ''(*) Gathering information about globally installed npm packages...'')
             (\<lambda>_. let packageListString = foldl (\<lambda>prev current. prev @ '' '' @ current) [] packageNameList
                  in io_bind
                       (getCommandOutputFromContainer w imageTagOrContainerName
                          (''bash -l -c '' @ [squote] @ ''set -e && npm ls --global --depth 1 --json ''
                             @ packageListString @ [squote] @ '' 2>/dev/null'')
                          False)
                       (\<lambda>npmOutputRaw. io_bind (parse_json w npmOutputRaw)
                       (\<lambda>npmOutput.
                          io_map (\<lambda>packageName. io_of (npmPackage w npmOutput npmOutputRaw packageName))
                            packageNameList))))"

subsection \<open>pip and pipx\<close>

text \<open>The body of \<^verbatim>\<open>packageVersionList.reduce\<close>: \<^verbatim>\<open>prev[current.name] = current.version\<close>.\<close>

definition pipVersionEntry :: "world \<Rightarrow> js_object \<Rightarrow> jsval \<Rightarrow> error + js_object" where
  "pipVersionEntry w prev current =
     (case js_get w current ''name'' of
        Inl e \<Rightarrow> Inl e
      | Inr n \<Rightarrow>
          (case js_get w current ''version'' of
             Inl e \<Rightarrow> Inl e
           | Inr v \<Rightarrow>
               (case js_to_string w n of
                  Inl e \<Rightarrow> Inl e
                | Inr k \<Rightarrow> Inr (js_object_set prev k v))))"

fun pipVersionEntries :: "world \<Rightarrow> js_object \<Rightarrow> jsval list \<Rightarrow> error + js_object" where
  "pipVersionEntries w prev [] = Inr prev"
| "pipVersionEntries w prev (current # rest) =
     (case pipVersionEntry w prev current of
        Inl e \<Rightarrow> Inl e
      | Inr prev' \<Rightarrow> pipVersionEntries w prev' rest)"

text \<open>A parsed value that is not an array has no \<^verbatim>\<open>reduce\<close> to call: a \<open>TypeError\<close>.\<close>

definition getPipVersionLookup :: "world \<Rightarrow> string \<Rightarrow> js_object io" where
  "getPipVersionLookup w imageTagOrContainerName =
     io_bind (getCommandOutputFromContainer w imageTagOrContainerName ''pip list --format json'' False)
       (\<lambda>packageVersionListOutput. io_bind (parse_json w packageVersionListOutput)
       (\<lambda>packageVersionList.
          case packageVersionList of
            JArr entries \<Rightarrow> io_of (pipVersionEntries w empty_object entries)
          | _ \<Rightarrow> io_throw TypeError))"

definition pipxLinePattern :: string where
  "pipxLinePattern = ''package'' @ [backslash] @ ''s(.+)'' @ [backslash] @ ''s(.+),''"

text \<open>The body of the \<^verbatim>\<open>reduce\<close> over the lines of \<^verbatim>\<open>pipx list\<close>. A group that took
  no part gives the property name \<^verbatim>\<open>undefined\<close>.\<close>

definition pipxVersionLine :: "world \<Rightarrow> js_object \<Rightarrow> string \<Rightarrow> error + js_object" where
  "pipxVersionLine w prev current =
     (case regexp_exec w pipxLinePattern [] current of
        Inl e \<Rightarrow> Inl e
      | Inr None \<Rightarrow> Inr prev
      | Inr (Some groups) \<Rightarrow>
          Inr (js_object_set prev
                 (case group groups 1 of None \<Rightarrow> ''undefined'' | Some k \<Rightarrow> k)
                 (js_of_string_option (group groups 2))))"

fun pipxVersionLines :: "world \<Rightarrow> js_object \<Rightarrow> string list \<Rightarrow> error + js_object" where
  "pipxVersionLines w prev [] = Inr prev"
| "pipxVersionLines w prev (current # rest) =
     (case pipxVersionLine w prev current of
        Inl e \<Rightarrow> Inl e
      | Inr prev' \<Rightarrow> pipxVersionLines w prev' rest)"

definition getPipxVersionLookup :: "world \<Rightarrow> string \<Rightarrow> js_object io" where
  "getPipxVersionLookup w imageTagOrContainerName =
     io_bind (getCommandOutputFromContainer w imageTagOrContainerName ''pipx list'' False)
       (\<lambda>packageVersionListOutput.
          io_of (pipxVersionLines w empty_object (js_split newline packageVersionListOutput)))"

definition getPipPackageInfo ::
  "world \<Rightarrow> string \<Rightarrow> string list option \<Rightarrow> bool \<Rightarrow> PackageInfo list io" where
  "getPipPackageInfo w imageTagOrContainerName packageNameList0 usePipx =
     (let defaultPackages = (case getDefaultDependencies_names w (if usePipx then ''pipx'' else ''pip'') of
                               None \<Rightarrow> []
                             | Some d \<Rightarrow> d);
          packageNameList = defaultPackages @ (case packageNameList0 of None \<Rightarrow> [] | Some l \<Rightarrow> l)
      in if length packageNameList = 0 then io_return []
         else
           io_bind (console_log ''(*) Gathering information about pip packages...'')
             (\<lambda>_. io_bind
                (if usePipx then getPipxVersionLookup w imageTagOrContainerName
                 else getPipVersionLookup w imageTagOrContainerName)
             (\<lambda>versionLookup.
                io_return (map (\<lambda>packageName.
                                  packageInfo packageName (js_object_get w versionLookup packageName))
                             packageNameList))))"

subsection \<open>Ruby gems\<close>

definition gemPattern :: "string \<Rightarrow> string" where
  "gemPattern gem =
     ''^'' @ gem @ [backslash] @ ''s'' @ [backslash] @ ''(([^'' @ [backslash] @ ''),]+)''"

text \<open>The body of \<^verbatim>\<open>packageList.map\<close>.\<close>

definition gemPackage :: "world \<Rightarrow> string \<Rightarrow> string \<Rightarrow> error + PackageInfo" where
  "gemPackage w gemListOutput gem =
     (case regexp_exec w (gemPattern gem) ''m'' gemListOutput of
        Inl e \<Rightarrow> Inl e
      | Inr None \<Rightarrow> Inl (Error (''Could not extract information about gem '' @ gem))
      | Inr (Some groups) \<Rightarrow> Inr (packageInfo gem (js_of_string_option (group groups 1))))"

definition getGemPackageInfo :: "world \<Rightarrow> string \<Rightarrow> string list option \<Rightarrow> PackageInfo list io" where
  "getGemPackageInfo w imageTagOrContainerName packageList0 =
     (let defaultPackages = (case getDefaultDependencies_names w ''gem'' of
                               None \<Rightarrow> []
                             | Some d \<Rightarrow> d);
          packageList = defaultPackages @ (case packageList0 of None \<Rightarrow> [] | Some l \<Rightarrow> l)
      in if length packageList = 0 then io_return []
         else
           io_bind (console_log ''(*) Gathering information about gems...'')
             (\<lambda>_. io_bind
                (getCommandOutputFromContainer w imageTagOrContainerName
                   (''bash -l -c '' @ [squote] @ ''set -e && gem list -d --local'' @ [squote]
                      @ '' 2>/dev/null'')
                   False)
             (\<lambda>gemListOutput.
                io_map (\<lambda>gem. io_of (gemPackage w gemListOutput gem)) packageList)))"

subsection \<open>Cargo\<close>

text \<open>\<^verbatim>\<open>new RegExp('[0-9]+\\.[0-9]+\\.[0-9]+', 'm').exec(s)\<close>, the one pattern of the source
  that is a constant without groups. At a given start the first two runs of digits must be
  followed by a dot, so each run is the longest one (a shorter run is followed by a digit),
  and the match is the leftmost start at which three such runs stand.\<close>

definition semverAt :: "string \<Rightarrow> string option" where
  "semverAt s =
     (let major = takeWhile is_digit s in
      if major = [] then None
      else (case dropWhile is_digit s of
              [] \<Rightarrow> None
            | c # r1 \<Rightarrow>
                if c \<noteq> CHR ''.'' then None
                else (let minor = takeWhile is_digit r1 in
                      if minor = [] then None
                      else (case dropWhile is_digit r1 of
                              [] \<Rightarrow> None
                            | d # r2 \<Rightarrow>
                                if d \<noteq> CHR ''.'' then None
                                else (let patch = takeWhile is_digit r2 in
                                      if patch = [] then None
                                      else Some (major @ ''.'' @ minor @ ''.'' @ patch))))))"

fun semverExec :: "string \<Rightarrow> string option" where
  "semverExec [] = None"
| "semverExec (c # cs) =
     (case semverAt (c # cs) of
        Some m \<Rightarrow> Some m
      | None \<Rightarrow> semverExec cs)"

text \<open>\<^verbatim>\<open>for (let k in src) { merged[k] = src[k]; }\<close> into the defaults when there are any.
  The argument is \<open>None\<close> when the caller passes \<^verbatim>\<open>undefined\<close>, which the parameter's
  default turns into the empty object; so the value is an object in every case, and the
  source's later test \<^verbatim>\<open>if (!packages) return []\<close> never fires. The result lists the own
  properties of the merged object; the loops that follow visit them in the order \<open>for_in\<close>.
  One run is not covered: the components called "other" hold settings objects, and a
  settings object written under \<^verbatim>\<open>__proto__\<close> into defaults without an own property of
  that name becomes the prototype of the merged object, whose loop then also visits the
  properties of that settings object. The statements about these components leave that
  request out.\<close>

definition mergeDefaults :: "'v lookup option \<Rightarrow> 'v lookup option \<Rightarrow> 'v lookup" where
  "mergeDefaults defaultPackages packages0 =
     (let packages = (case packages0 of None \<Rightarrow> [] | Some l \<Rightarrow> l) in
      case defaultPackages of
        None \<Rightarrow> packages
      | Some merged \<Rightarrow> lookup_merge merged packages)"

text \<open>The body of \<^verbatim>\<open>for (let crate in cargoPackages)\<close>.\<close>

definition cargoCrate :: "world \<Rightarrow> string \<Rightarrow> string \<times> string option \<Rightarrow> PackageInfo io" where
  "cargoCrate w imageTagOrContainerName entry =
     (let crate = fst entry;
          versionCommand = (case snd entry of
                              None \<Rightarrow> crate @ '' --version''
                            | Some c \<Rightarrow> if c \<noteq> [] then c else crate @ '' --version'')
      in io_bind (console_log (''(*) Getting version for '' @ crate @ ''...''))
           (\<lambda>_. io_bind (getCommandOutputFromContainer w imageTagOrContainerName versionCommand False)
           (\<lambda>versionOutput.
              case semverExec versionOutput of
                None \<Rightarrow> io_throw (Error (''Could not extract information about crate '' @ crate))
              | Some v \<Rightarrow> io_return (packageInfo crate (JStr v)))))"

definition getCargoPackageInfo ::
  "world \<Rightarrow> string \<Rightarrow> string option lookup option \<Rightarrow> PackageInfo list io" where
  "getCargoPackageInfo w imageTagOrContainerName cargoPackages0 =
     (let cargoPackages = mergeDefaults (getDefaultDependencies_lookup w ''go'') cargoPackages0
      in io_bind (console_log ''(*) Gathering information about cargo packages...'')
           (\<lambda>_. io_map (cargoCrate w imageTagOrContainerName) (for_in cargoPackages)))"

subsection \<open>Go\<close>

definition goPattern :: "string \<Rightarrow> string" where
  "goPattern packageName =
     ''downloading'' @ [backslash] @ ''s*'' @ packageName @ [backslash] @ ''s*v([0-9]+''
       @ [backslash] @ ''.[0-9]+'' @ [backslash] @ ''.[0-9]+.*)'' @ [backslash] @ ''n''"

text \<open>The body of \<^verbatim>\<open>for (let packageName in goPackages)\<close>.\<close>

definition goPackage :: "world \<Rightarrow> string \<Rightarrow> string \<Rightarrow> string \<times> string option \<Rightarrow> PackageInfo io" where
  "goPackage w imageTagOrContainerName packageInstallOutput entry =
     (let packageName = fst entry;
          versionCommand = snd entry
      in if truthy versionCommand
         then io_bind
                (getCommandOutputFromContainer w imageTagOrContainerName
                   (case versionCommand of None \<Rightarrow> [] | Some c \<Rightarrow> c) False)
                (\<lambda>v. io_return (packageInfo packageName (JStr v)))
         else io_bind (regexp w (goPattern packageName) [] packageInstallOutput)
                (\<lambda>versionCaptureGroup.
                   case versionCaptureGroup of
                     None \<Rightarrow> io_return (packageInfo packageName (JStr ''latest''))
                   | Some groups \<Rightarrow>
                       io_return (packageInfo packageName (js_of_string_option (group groups 1)))))"

definition getGoPackageInfo ::
  "world \<Rightarrow> string \<Rightarrow> string option lookup option \<Rightarrow> PackageInfo list io" where
  "getGoPackageInfo w imageTagOrContainerName goPackages0 =
     (let goPackages = mergeDefaults (getDefaultDependencies_lookup w ''go'') goPackages0
      in io_bind (console_log ''(*) Gathering information about go modules and packages...'')
           (\<lambda>_. io_bind
              (getCommandOutputFromContainer w imageTagOrContainerName
                 ''cat /usr/local/etc/vscode-dev-containers/go.log'' False)
           (\<lambda>packageInstallOutput.
              io_map (goPackage w imageTagOrContainerName packageInstallOutput)
                (for_in goPackages))))"

subsection \<open>Git repositories\<close>

definition gitCommand :: "string \<Rightarrow> string" where
  "gitCommand repoPath =
     ''cd '' @ [backslash, dquote] @ repoPath @ [backslash, dquote] @ '' && if [ -f ''
       @ [backslash, dquote] @ ''.git-remote-and-commit'' @ [backslash, dquote]
       @ '' ]; then cat .git-remote-and-commit; else git remote get-url origin && ''
       @ ''git log -n 1 --pretty=format:%H -- . | tee /dev/null; fi''"

text \<open>The body of \<^verbatim>\<open>for (let repoName in gitRepos)\<close>: an entry whose value is not a string
  is passed over. The record has no \<^verbatim>\<open>version\<close>.\<close>

definition gitRepository :: "world \<Rightarrow> string \<Rightarrow> string \<times> string option \<Rightarrow> PackageInfo option io" where
  "gitRepository w imageTagOrContainerName entry =
     (let repoName = fst entry in
      case snd entry of
        None \<Rightarrow> io_return None
      | Some repoPath \<Rightarrow>
          io_bind
            (console_log (''(*) Getting remote and commit for '' @ repoName @ '' at '' @ repoPath
                            @ ''...''))
            (\<lambda>_. io_bind
               (getCommandOutputFromContainer w imageTagOrContainerName (gitCommand repoPath) True)
            (\<lambda>remoteAndCommitOutput.
               let parts = js_split newline remoteAndCommitOutput;
                   gitRemote = group (map Some parts) 0;
                   gitCommit = group (map Some parts) 1
               in if \<not> truthy gitRemote \<or> \<not> truthy gitCommit
                  then io_throw (Error (''Unable to determine git remote or commit for '' @ repoName
                                         @ ''.''))
                  else io_return
                         (Some ((packageInfo repoName JUndefined)
                                  \<lparr> path := Some repoPath, url := gitRemote, commitHash := gitCommit \<rparr>)))))"

definition getGitRepositoryInfo ::
  "world \<Rightarrow> string \<Rightarrow> string option lookup option \<Rightarrow> PackageInfo list io" where
  "getGitRepositoryInfo w imageTagOrContainerName gitRepos0 =
     (let gitRepos = mergeDefaults (getDefaultDependencies_lookup w ''git'') gitRepos0
      in io_bind (io_map (gitRepository w imageTagOrContainerName) (for_in gitRepos))
           (\<lambda>packageInfoList. io_return (List.map_filter id packageInfoList)))"

subsection \<open>Other components and languages\<close>

text \<open>\<^verbatim>\<open>for (let settingName in dependency) merged[settingName] = dependency[settingName]\<close>,
  property by property: what the dependency has replaces the default.\<close>

definition override :: "'a option \<Rightarrow> 'a option \<Rightarrow> 'a option" where
  "override defaultValue given = (case given of None \<Rightarrow> defaultValue | Some v \<Rightarrow> Some v)"

definition mergeSettings ::
  "OtherDependencyInfoExtractionSettings \<Rightarrow> OtherDependencyInfoExtractionSettings
     \<Rightarrow> OtherDependencyInfoExtractionSettings" where
  "mergeSettings mergedSettings dependency =
     \<lparr> versionCommand = override (versionCommand mergedSettings) (versionCommand dependency),
       downloadUrl = override (downloadUrl mergedSettings) (downloadUrl dependency),
       other_path = override (other_path mergedSettings) (other_path dependency),
       other_annotation = override (other_annotation mergedSettings) (other_annotation dependency),
       other_cgIgnore = override (other_cgIgnore mergedSettings) (other_cgIgnore dependency),
       other_markdownIgnore =
         override (other_markdownIgnore mergedSettings) (other_markdownIgnore dependency) \<rparr>"

text \<open>What \<^verbatim>\<open>Object.assign({}, v)\<close> copies from a function or from \<^verbatim>\<open>Object.prototype\<close>:
  nothing.\<close>

definition no_settings :: OtherDependencyInfoExtractionSettings where
  "no_settings =
     \<lparr> versionCommand = None, downloadUrl = None, other_path = None, other_annotation = None,
       other_cgIgnore = None, other_markdownIgnore = None \<rparr>"

text \<open>\<^verbatim>\<open>otherDefaultSettings[otherName]\<close>: the entry of the table, or, for a name that the
  table inherits from \<^verbatim>\<open>Object.prototype\<close>, the inherited member, which is truthy and of
  which the copy made by \<^verbatim>\<open>Object.assign\<close> has no properties.\<close>

definition otherDefaultSettingsFor ::
  "world \<Rightarrow> string \<Rightarrow> OtherDependencyInfoExtractionSettings option" where
  "otherDefaultSettingsFor w otherName =
     (case otherDependencyDefaultSettings w of
        None \<Rightarrow> None
      | Some table \<Rightarrow>
          (case map_of table otherName of
             Some defaultSettings \<Rightarrow> Some defaultSettings
           | None \<Rightarrow> if otherName \<in> set object_prototype_names then Some no_settings else None))"

definition mergeOtherDefaultSettings ::
  "world \<Rightarrow> string \<Rightarrow> OtherDependencyInfoExtractionSettings option
     \<Rightarrow> error + OtherDependencyInfoExtractionSettings" where
  "mergeOtherDefaultSettings w otherName dependency =
     (case otherDefaultSettingsFor w otherName of
        None \<Rightarrow>
          (case dependency of
             None \<Rightarrow> Inl (Error (''No extraction settings found for '' @ otherName @ ''.''))
           | Some d \<Rightarrow> Inr d)
      | Some defaultSettings \<Rightarrow>
          (case dependency of
             None \<Rightarrow> Inr defaultSettings
           | Some d \<Rightarrow> Inr (mergeSettings defaultSettings d)))"

text \<open>The body of \<^verbatim>\<open>for (let otherName in otherDependencyList)\<close>.\<close>

definition otherDependency ::
  "world \<Rightarrow> string \<Rightarrow> string \<times> OtherDependencyInfoExtractionSettings option \<Rightarrow> PackageInfo io" where
  "otherDependency w imageTagOrContainerName entry =
     (let otherName = fst entry in
      io_bind (io_of (mergeOtherDefaultSettings w otherName (snd entry)))
        (\<lambda>otherSettings. io_bind (console_log (''(*) Getting version for '' @ otherName @ ''...''))
        (\<lambda>_. case versionCommand otherSettings of
               None \<Rightarrow> io_throw (Error (''Missing versionCommand for '' @ otherName @ ''.''))
             | Some command \<Rightarrow>
                 if command = []
                 then io_throw (Error (''Missing versionCommand for '' @ otherName @ ''.''))
                 else io_bind (getCommandOutputFromContainer w imageTagOrContainerName command False)
                        (\<lambda>otherVersion.
                           io_return
                             \<lparr> name = otherName,
                               version = JStr otherVersion,
                               url = downloadUrl otherSettings,
                               path = other_path otherSettings,
                               annotation = other_annotation otherSettings,
                               poolUrl = None,
                               poolKeyUrl = None,
                               commitHash = None,
                               cgIgnore = other_cgIgnore otherSettings,
                               markdownIgnore = other_markdownIgnore otherSettings \<rparr>))))"

definition getOtherDependencyInfo ::
  "world \<Rightarrow> string \<Rightarrow> OtherDependencyInfoExtractionSettings option lookup option \<Rightarrow> string
     \<Rightarrow> PackageInfo list io" where
  "getOtherDependencyInfo w imageTagOrContainerName otherDependencyList0 otherType =
     (let otherDependencyList =
            mergeDefaults (getDefaultDependencies_other w otherType) otherDependencyList0
      in io_bind
           (console_log (''(*) Gathering information about '' @ [dquote] @ ''other'' @ [dquote]
                           @ '' components...''))
           (\<lambda>_. io_map (otherDependency w imageTagOrContainerName) (for_in otherDependencyList)))"

subsection \<open>Image information\<close>

record ImageInfo =
  image_name :: string
  digest :: "string option"
  user :: string

text \<open>\<^verbatim>\<open>err.result.indexOf('Template parsing error') > 0\<close> in the handler: a thrown value
  without \<^verbatim>\<open>result\<close> makes the handler itself fail with a \<open>TypeError\<close>.\<close>

definition getImageInfo :: "world \<Rightarrow> string \<Rightarrow> ImageInfo io" where
  "getImageInfo w imageTagOrContainerName =
     io_bind
       (if isContainerName imageTagOrContainerName
        then spawn w ''docker''
               [''inspect'', ''--format='' @ [squote] @ ''{{.Image}}'' @ [squote],
                js_trim imageTagOrContainerName]
        else io_return imageTagOrContainerName)
       (\<lambda>imageId. io_bind
          (io_try_catch
             (io_bind
                (spawn w ''docker''
                   [''inspect'', ''--format='' @ [squote] @ ''{{index .RepoDigests 0}}'' @ [squote],
                    imageId])
                (\<lambda>imageNameAndDigest.
                   let parts = js_split (CHR ''@'') (js_trim imageNameAndDigest)
                   in io_return (parts ! 0, group (map Some parts) 1)))
             (\<lambda>err. case err of
                      SpawnError result \<Rightarrow>
                        if js_indexOf result ''Template parsing error'' > 0
                        then io_return (''N/A'', Some ''N/A'')
                        else io_throw err
                    | _ \<Rightarrow> io_throw TypeError))
       (\<lambda>nameAndDigest. io_bind
          (getCommandOutputFromContainer w imageTagOrContainerName ''id -un 1000'' True)
       (\<lambda>nonRootUser.
          io_return \<lparr> image_name = fst nameAndDigest, digest = snd nameAndDigest,
                      user = nonRootUser \<rparr>)))"

subsection \<open>The helper container and the whole extraction\<close>

definition containerNameFor :: "world \<Rightarrow> string" where
  "containerNameFor w = ''vscdc--extract--'' @ string_of_nat (dateNow w)"

definition startContainerForProcessing :: "world \<Rightarrow> string \<Rightarrow> string io" where
  "startContainerForProcessing w imageTag =
     (let containerName = containerNameFor w in
      io_bind
        (spawn w ''docker''
           [''run'', ''-d'', ''--rm'', ''--init'', ''--privileged'', ''--name'', containerName, imageTag,
            ''sh -c '' @ [dquote] @ ''while sleep 1000; do :; done'' @ [dquote]])
        (\<lambda>_. io_return containerName))"

definition removeProcessingContainer :: "world \<Rightarrow> string \<Rightarrow> unit io" where
  "removeProcessingContainer w containerName =
     io_bind (spawn w ''docker'' [''rm'', ''-f'', containerName]) (\<lambda>_. io_return ())"

text \<open>\<^verbatim>\<open>dependencies[distroInfo.id]\<close>: an \<^verbatim>\<open>id\<close> that is not there reads the property named
  \<^verbatim>\<open>undefined\<close>.\<close>

definition getLinuxPackageManagerDependencies ::
  "world \<Rightarrow> DependencyInfoExtractionSettingsGroup \<Rightarrow> DistroInfo \<Rightarrow> package_entry list" where
  "getLinuxPackageManagerDependencies w dependencies distroInfo =
     (let distroId = map_of distroInfo ''id'' in
      case dep_linux dependencies (case distroId of None \<Rightarrow> ''undefined'' | Some i \<Rightarrow> i) of
        Some l \<Rightarrow> l
      | None \<Rightarrow>
          (case dep_linux dependencies (getLinuxPackageManagerForDistro w distroId) of
             Some l \<Rightarrow> l
           | None \<Rightarrow> []))"

record ExtractedInfo =
  image :: ImageInfo
  distro :: DistroInfo
  linux :: "PackageInfo list"
  npm :: "PackageInfo list"
  pip :: "PackageInfo list"
  pipx :: "PackageInfo list"
  gem :: "PackageInfo list"
  cargo :: "PackageInfo list"
  go :: "PackageInfo list"
  git :: "PackageInfo list"
  other :: "PackageInfo list"
  languages :: "PackageInfo list"
  manual :: "CgComponent list"

text \<open>The object literal of \<^verbatim>\<open>getAllContentInfo\<close>: the reads in the order of the source.\<close>

definition extractContents ::
  "world \<Rightarrow> string \<Rightarrow> DependencyInfoExtractionSettingsGroup \<Rightarrow> ExtractedInfo io" where
  "extractContents w containerName dependencies =
     io_bind (getLinuxDistroInfo w containerName)
       (\<lambda>distroInfo. io_bind (getImageInfo w containerName)
       (\<lambda>imageInfo. io_bind
          (getLinuxPackageInfo w containerName
             (getLinuxPackageManagerDependencies w dependencies distroInfo) distroInfo)
       (\<lambda>linuxInfo. io_bind (getNpmGlobalPackageInfo w containerName (dep_npm dependencies))
       (\<lambda>npmInfo. io_bind (getPipPackageInfo w containerName (dep_pip dependencies) False)
       (\<lambda>pipInfo. io_bind (getPipPackageInfo w containerName (dep_pipx dependencies) True)
       (\<lambda>pipxInfo. io_bind (getGemPackageInfo w containerName (dep_gem dependencies))
       (\<lambda>gemInfo. io_bind (getCargoPackageInfo w containerName (dep_cargo dependencies))
       (\<lambda>cargoInfo. io_bind (getGoPackageInfo w containerName (dep_go dependencies))
       (\<lambda>goInfo. io_bind (getGitRepositoryInfo w containerName (dep_git dependencies))
       (\<lambda>gitInfo. io_bind
          (getOtherDependencyInfo w containerName (dep_other dependencies) ''other'')
       (\<lambda>otherInfo. io_bind
          (getOtherDependencyInfo w containerName (dep_languages dependencies) ''languages'')
       (\<lambda>languagesInfo.
          io_return
            \<lparr> image = imageInfo, distro = distroInfo, linux = linuxInfo, npm = npmInfo,
              pip = pipInfo, pipx = pipxInfo, gem = gemInfo, cargo = cargoInfo, go = goInfo,
              git = gitInfo, other = otherInfo, languages = languagesInfo,
              manual = dep_manual dependencies \<rparr>))))))))))))"

definition getAllContentInfo ::
  "world \<Rightarrow> string \<Rightarrow> DependencyInfoExtractionSettingsGroup \<Rightarrow> ExtractedInfo io" where
  "getAllContentInfo w imageTag dependencies =
     io_bind (startContainerForProcessing w imageTag)
       (\<lambda>containerName.
          io_try_catch
            (io_bind (extractContents w containerName dependencies)
               (\<lambda>contents. io_bind (removeProcessingContainer w containerName)
               (\<lambda>_. io_return contents)))
            (\<lambda>e. io_bind (removeProcessingContainer w containerName)
               (\<lambda>_. io_throw e)))"

subsection \<open>Notions for the proofs\<close>

text \<open>\<open>emits_only P m\<close>: whatever \<open>m\<close> does, it only adds events, and every event it adds
  satisfies \<open>P\<close>. \<open>removal w\<close> is the process \<^verbatim>\<open>removeProcessingContainer\<close> spawns for the
  helper container of the run, and \<open>startEvent\<close> the arguments with which
  \<^verbatim>\<open>startContainerForProcessing\<close> starts it.\<close>

definition emits_only :: "(event \<Rightarrow> bool) \<Rightarrow> 'a io \<Rightarrow> bool" where
  "emits_only P m = (\<forall>tr. \<exists>evs. snd (m tr) = tr @ evs \<and> list_all P evs)"

definition not_removal :: "string \<Rightarrow> event \<Rightarrow> bool" where
  "not_removal containerName ev = (ev \<noteq> Spawn ''docker'' [''rm'', ''-f'', containerName])"

definition startEvent :: "world \<Rightarrow> string \<Rightarrow> string list" where
  "startEvent w imageTag =
     [''run'', ''-d'', ''--rm'', ''--init'', ''--privileged'', ''--name'', containerNameFor w, imageTag,
      ''sh -c '' @ [dquote] @ ''while sleep 1000; do :; done'' @ [dquote]]"

definition removal :: "world \<Rightarrow> event" where
  "removal w = Spawn ''docker'' [''rm'', ''-f'', containerNameFor w]"

subsection \<open>The specification's wording, for comparison\<close>

text \<open>The names of a merged request: the defaults of the ecosystem, then the caller's
  entries (\<^verbatim>\<open>defaultPackages.concat(packageList)\<close>).\<close>

definition merged_names :: "string list option \<Rightarrow> string list option \<Rightarrow> string list" where
  "merged_names defaultPackages requested =
     (case defaultPackages of None \<Rightarrow> [] | Some d \<Rightarrow> d)
       @ (case requested of None \<Rightarrow> [] | Some l \<Rightarrow> l)"

text \<open>The value of an os-release line as the specification words it: quotes that surround
  the right-hand side are stripped and whitespace is trimmed. A quote inside the value
  stays.\<close>

definition spec_strip_surrounding_quotes :: "string \<Rightarrow> string" where
  "spec_strip_surrounding_quotes s =
     (if 2 \<le> length s \<and> hd s = dquote \<and> last s = dquote then butlast (tl s) else s)"

definition spec_distro_value :: "string \<Rightarrow> string" where
  "spec_distro_value rhs = js_trim (spec_strip_surrounding_quotes (js_trim rhs))"










text \<open>The escaping of a package name and of a version by which the specification turns
  them into parts of the pool pattern, character by character.\<close>

definition spec_escaped_char :: "char \<Rightarrow> string" where
  "spec_escaped_char c =
     (if c = CHR ''+'' then [backslash, CHR ''+'']
      else if c = CHR ''.'' then [backslash, CHR ''.'']
      else [c])"

definition spec_escaped_package :: "string \<Rightarrow> string" where
  "spec_escaped_package n = concat (map spec_escaped_char n)"

definition spec_escaped_version :: "string \<Rightarrow> string" where
  "spec_escaped_version v =
     concat (map (\<lambda>c. if c = CHR '':'' then ''%3a'' else spec_escaped_char c) v)"

text \<open>A version of the shape the specification means by "semantic-version-shaped": three
  runs of decimal digits separated by dots.\<close>

definition digits :: "string \<Rightarrow> bool" where
  "digits s = (s \<noteq> [] \<and> list_all is_digit s)"

definition semver_shaped :: "string \<Rightarrow> bool" where
  "semver_shaped v = (\<exists>a b c. digits a \<and> digits b \<and> digits c \<and> v = a @ ''.'' @ b @ ''.'' @ c)"

subsection \<open>A world for worked examples\<close>

text \<open>A world with an empty configuration, in which every process behaves as \<open>sp\<close> says, no
  pattern matches any text, no text parses as JSON, and the prototypes of the runtime
  other than \<^verbatim>\<open>Object.prototype\<close> have no members.\<close>

definition quiet_world :: "(event list \<Rightarrow> string \<Rightarrow> string list \<Rightarrow> error + string) \<Rightarrow> world" where
  "quiet_world sp =
     \<lparr> spawn_result = sp,
       dateNow = 0,
       getFallbackPoolUrl = (\<lambda>_. None),
       getPoolKeyForPoolUrl = (\<lambda>_. None),
       snakeCaseToCamelCase = (\<lambda>s. s),
       getLinuxPackageManagerForDistro = (\<lambda>_. ''apt''),
       getPackageInfoExtractorParams =
         (\<lambda>_. \<lparr> listCommand = [], getUriCommand = [], lineRegEx = [], poolUriMatchRegEx = [] \<rparr>),
       getDefaultDependencies_packages = (\<lambda>_. None),
       getDefaultDependencies_names = (\<lambda>_. None),
       getDefaultDependencies_lookup = (\<lambda>_. None),
       getDefaultDependencies_other = (\<lambda>_. None),
       otherDependencyDefaultSettings = None,
       regexp_exec = (\<lambda>_ _ _. Inr None),
       json_parse = (\<lambda>_. None),
       runtime_member = (\<lambda>_ _. None),
       runtime_to_string = (\<lambda>b. ''function '' @ b @ ''() { [native code] }'') \<rparr>"

text \<open>No dependencies at all, and two ways for the container runtime to misbehave: every
  \<^verbatim>\<open>docker rm\<close> fails, or every \<^verbatim>\<open>docker exec\<close> fails.\<close>

definition no_dependencies :: DependencyInfoExtractionSettingsGroup where
  "no_dependencies =
     \<lparr> dep_linux = (\<lambda>_. None), dep_npm = None, dep_pip = None, dep_pipx = None, dep_gem = None,
       dep_cargo = None, dep_go = None, dep_git = None, dep_other = None, dep_languages = None,
       dep_manual = [] \<rparr>"

definition removal_fails :: "event list \<Rightarrow> string \<Rightarrow> string list \<Rightarrow> error + string" where
  "removal_fails tr command args =
     (if take 1 args = [''rm''] then Inl (SpawnError [])
      else Inr ''~~~BEGIN~~~ ~~~END~~~'')"

definition exec_fails :: "event list \<Rightarrow> string \<Rightarrow> string list \<Rightarrow> error + string" where
  "exec_fails tr command args =
     (if take 1 args = [''exec''] then Inl (SpawnError ''no such file'')
      else Inr ''~~~BEGIN~~~ ~~~END~~~'')"

text \<open>A world in which every command prints two lines, every pattern matches and every
  JSON text is the same small tree; and a world with one default for cargo and one for go.\<close>

definition sample_world :: world where
  "sample_world =
     (quiet_world
        (\<lambda>_ _ _. Inr (''~~~BEGIN~~~'' @ [newline] @ ''1.2.3'' @ [newline] @ ''abc'' @ [newline]
                         @ ''~~~END~~~'')))
       \<lparr> regexp_exec :=
           (\<lambda>_ flags s. if flags = ''m'' then Inr (Some [Some s, Some ''13.0.1''])
                        else Inr (Some [Some s, Some ''yarn'', Some ''1.22.5''])),
         json_parse :=
           (\<lambda>_. Some (JObj [(''dependencies'', JObj [(''a'', JObj [(''version'', JStr ''1.0.0'')])])])) \<rparr>"

definition cargo_and_go_defaults :: world where
  "cargo_and_go_defaults =
     (quiet_world (\<lambda>_ _ _. Inr ''~~~BEGIN~~~ 1.2.3 ~~~END~~~''))
       \<lparr> getDefaultDependencies_lookup :=
           (\<lambda>k. if k = ''cargo'' then Some [(''rustfmt'', None)]
                else if k = ''go'' then Some [(''gopls'', None)]
                else None) \<rparr>"

text \<open>A world in which reading the installer log gives two lines, every other command
  prints \<^verbatim>\<open>1.4.17-stable\<close>, the go pattern for \<^verbatim>\<open>golang.org/x/tools/gopls\<close> matches that
  log, and go has that one default.\<close>

definition go_log_world :: world where
  "go_log_world =
     (quiet_world
        (\<lambda>_ _ args.
           if last args = wrappedCommand ''cat /usr/local/etc/vscode-dev-containers/go.log''
           then Inr (''~~~BEGIN~~~'' @ [newline] @ ''downloading golang.org/x/tools/gopls v0.6.4''
                       @ [newline] @ ''done'' @ [newline] @ ''~~~END~~~'')
           else Inr ''~~~BEGIN~~~ 1.4.17-stable ~~~END~~~''))
       \<lparr> getDefaultDependencies_lookup :=
           (\<lambda>k. if k = ''go'' then Some [(''golang.org/x/tools/gopls'', None)] else None),
         regexp_exec :=
           (\<lambda>p flags s.
              if p = goPattern ''golang.org/x/tools/gopls''
                 \<and> s = ''downloading golang.org/x/tools/gopls v0.6.4'' @ [newline] @ ''done''
              then Inr (Some [Some (''downloading golang.org/x/tools/gopls v0.6.4'' @ [newline]),
                              Some ''0.6.4''])
              else Inr None) \<rparr>"




text \<open>A world with a Debian-like package manager: the list command prints two packages,
  the URI command prints the download URL of the second, and the two patterns match
  accordingly. There is no fallback URL.\<close>

definition linux_params :: LinuxPackageInfoExtractorParams where
  "linux_params =
     \<lparr> listCommand = ''list'', getUriCommand = ''uris'', lineRegEx = ''(.+) (.+)'',
       poolUriMatchRegEx = ''(.+)/pool/${PACKAGE}_${VERSION}'' \<rparr>"

definition linux_world :: world where
  "linux_world =
     (quiet_world
        (\<lambda>tr _ _.
           if length tr \<le> 1
           then Inr (''~~~BEGIN~~~'' @ [newline] @ ''yarn 1.22.5-1'' @ [newline] @ ''g++ 4:8.3.0-1''
                       @ [newline] @ ''~~~END~~~'')
           else Inr (''~~~BEGIN~~~'' @ [newline]
                       @ ''http://deb.debian.org/debian/pool/g++_4%3a8.3.0-1'' @ [newline]
                       @ ''~~~END~~~'')))
       \<lparr> getPackageInfoExtractorParams := (\<lambda>_. linux_params),
         regexp_exec :=
           (\<lambda>p flags s.
              if p = ''(.+) (.+)''
              then (if s = ''yarn 1.22.5-1'' then Inr (Some [Some s, Some ''yarn'', Some ''1.22.5-1''])
                    else if s = ''g++ 4:8.3.0-1''
                    then Inr (Some [Some s, Some ''g++'', Some ''4:8.3.0-1''])
                    else Inr None)
              else if p = ''(.+)/pool/g'' @ [backslash] @ ''+'' @ [backslash] @ ''+_4%3a8''
                            @ [backslash] @ ''.3'' @ [backslash] @ ''.0-1''
              then Inr (Some [Some ''http://deb.debian.org/debian/pool/g++_4%3a8.3.0-1'',
                              Some ''http://deb.debian.org/debian''])
              else Inr None) \<rparr>"

text \<open>A world in which \<^verbatim>\<open>pip list\<close> prints some text that parses as a list with one package.\<close>

definition pip_world :: world where
  "pip_world =
     (quiet_world (\<lambda>_ _ _. Inr ''~~~BEGIN~~~ [] ~~~END~~~''))
       \<lparr> json_parse :=
           (\<lambda>_. Some (JArr [JObj [(''name'', JStr ''pylint''), (''version'', JStr ''2.6.0'')]])) \<rparr>"

subsection \<open>Facts about the string operations\<close>

lemma js_indexOf_ge: "- 1 \<le> js_indexOf s p"
  by (induction s) (auto simp: Let_def)

lemma js_indexOf_zero_iff: "js_indexOf s p = 0 \<longleftrightarrow> prefix p s"
proof (cases s)
  case Nil
  then show ?thesis by simp
next
  case (Cons c cs)
  have "- 1 \<le> js_indexOf cs p" by (rule js_indexOf_ge)
  then show ?thesis using Cons by (auto simp: Let_def)
qed

lemma js_split_not_Nil: "js_split sep s \<noteq> []"
  by (induction s) (auto split: list.splits)

lemma js_split_no_sep: "sep \<notin> set s \<Longrightarrow> js_split sep s = [s]"
  by (induction s) (auto split: list.splits)

lemma js_split_unfold:
  "js_split sep s =
     takeWhile (\<lambda>c. c \<noteq> sep) s
       # (case dropWhile (\<lambda>c. c \<noteq> sep) s of [] \<Rightarrow> [] | _ # r \<Rightarrow> js_split sep r)"
  by (induction s) (auto split: list.splits simp: js_split_not_Nil)

lemma length_js_split: "length (js_split sep s) = Suc (count_list s sep)"
  by (induction s) (auto split: list.splits simp: js_split_not_Nil)

lemma count_list_dropWhile:
  "count_list (dropWhile (\<lambda>c. c \<noteq> sep) s) sep = count_list s sep"
  by (induction s) auto

lemma js_split_one_sep:
  assumes "count_list s sep = 1"
  shows "js_split sep s = [takeWhile (\<lambda>c. c \<noteq> sep) s, tl (dropWhile (\<lambda>c. c \<noteq> sep) s)]"
proof -
  have c: "count_list (dropWhile (\<lambda>c. c \<noteq> sep) s) sep = 1"
    using assms by (simp add: count_list_dropWhile)
  then obtain r where d: "dropWhile (\<lambda>c. c \<noteq> sep) s = sep # r"
    using hd_dropWhile [of "\<lambda>c. c \<noteq> sep" s]
    by (cases "dropWhile (\<lambda>c. c \<noteq> sep) s") (auto split: if_splits)
  with c have "count_list r sep = 0" by simp
  then have "sep \<notin> set r" by (simp add: count_list_0_iff)
  then have "js_split sep r = [r]" by (rule js_split_no_sep)
  then show ?thesis
    by (subst js_split_unfold) (simp add: d)
qed

lemma js_replace_all_char_Nil: "js_replace_all_char c [] s = filter (\<lambda>x. x \<noteq> c) s"
  by (induction s) (auto simp: js_replace_all_char_def)

lemma map_of_lookup_set: "map_of (lookup_set ps k v) k' = (if k' = k then Some v else map_of ps k')"
  by (induction ps) auto

lemma runner_result:
  "spawn_result w tr ''docker'' (runArgs t forceRoot @ [t, wrappedCommand command]) = Inr result \<Longrightarrow>
   getCommandOutputFromContainer w t command forceRoot tr =
     (Inr (js_trim (filteredResult result)),
      tr @ [Spawn ''docker'' (runArgs t forceRoot @ [t, wrappedCommand command])])"
  by (simp add: getCommandOutputFromContainer_def io_bind_def io_return_def spawn_def)

lemma runner_error:
  "spawn_result w tr ''docker'' (runArgs t forceRoot @ [t, wrappedCommand command]) = Inl e \<Longrightarrow>
   getCommandOutputFromContainer w t command forceRoot tr =
     (Inl e, tr @ [Spawn ''docker'' (runArgs t forceRoot @ [t, wrappedCommand command])])"
  by (simp add: getCommandOutputFromContainer_def io_bind_def io_return_def spawn_def)

subsection \<open>Facts about the version pattern and the cargo and go entries\<close>

lemma dot_not_digit: "\<not> is_digit (CHR ''.'')"
  by (simp add: is_digit_def)

lemma list_all_takeWhile: "list_all P (takeWhile P s)"
  by (induction s) auto

lemma semverAt_Some:
  assumes "semverAt s = Some v"
  shows "semver_shaped v \<and> prefix v s"
proof -
  let ?P = is_digit
  from assms obtain r1 r2 where
    major: "takeWhile ?P s \<noteq> []" and d1: "dropWhile ?P s = CHR ''.'' # r1"
    and minor: "takeWhile ?P r1 \<noteq> []" and d2: "dropWhile ?P r1 = CHR ''.'' # r2"
    and patch: "takeWhile ?P r2 \<noteq> []"
    and v: "v = takeWhile ?P s @ ''.'' @ takeWhile ?P r1 @ ''.'' @ takeWhile ?P r2"
    by (auto simp: semverAt_def Let_def split: list.splits if_splits)
  have s: "s = takeWhile ?P s @ CHR ''.'' # takeWhile ?P r1 @ CHR ''.'' # takeWhile ?P r2 @ dropWhile ?P r2"
    using d1 d2 takeWhile_dropWhile_id [of ?P s] takeWhile_dropWhile_id [of ?P r1]
      takeWhile_dropWhile_id [of ?P r2] by simp
  have "semver_shaped v"
    unfolding semver_shaped_def digits_def using major minor patch v
    by (intro exI [of _ "takeWhile ?P s"] exI [of _ "takeWhile ?P r1"] exI [of _ "takeWhile ?P r2"])
       (simp add: list_all_takeWhile)
  moreover have "prefix v s"
    by (subst s) (simp add: v takeWhile_is_prefix)
  ultimately show ?thesis by simp
qed

lemma takeWhile_digits_dot:
  "digits a \<Longrightarrow> takeWhile is_digit (a @ CHR ''.'' # r) = a"
  by (simp add: digits_def list_all_iff takeWhile_append2 dot_not_digit)

lemma dropWhile_digits_dot:
  "digits a \<Longrightarrow> dropWhile is_digit (a @ CHR ''.'' # r) = CHR ''.'' # r"
  by (simp add: digits_def list_all_iff dropWhile_append2 dot_not_digit)

lemma semverAt_shaped:
  assumes "semver_shaped v"
  shows "semverAt (v @ post) \<noteq> None"
proof -
  from assms obtain a b c where a: "digits a" and b: "digits b" and c: "digits c"
    and v: "v = a @ ''.'' @ b @ ''.'' @ c"
    by (auto simp: semver_shaped_def)
  have c': "takeWhile is_digit (c @ post) \<noteq> []"
    using c by (cases c) (auto simp: digits_def)
  show ?thesis
    using a b c'
    by (simp add: v semverAt_def Let_def takeWhile_digits_dot dropWhile_digits_dot digits_def)
qed

lemma semverExec_Some:
  "semverExec s = Some v \<Longrightarrow>
   \<exists>pre post. s = pre @ post \<and> semverAt post = Some v
     \<and> (\<forall>i < length pre. semverAt (drop i s) = None)"
proof (induction s)
  case Nil
  then show ?case by simp
next
  case (Cons c cs)
  show ?case
  proof (cases "semverAt (c # cs)")
    case (Some m)
    with Cons.prems have "m = v" by simp
    with Some show ?thesis by (intro exI [of _ "[]"] exI [of _ "c # cs"]) simp
  next
    case None
    with Cons.prems have "semverExec cs = Some v" by simp
    from Cons.IH [OF this] obtain pre post where
      p: "cs = pre @ post" "semverAt post = Some v" "\<forall>i < length pre. semverAt (drop i cs) = None"
      by blast
    have "\<forall>i < length (c # pre). semverAt (drop i (c # cs)) = None"
    proof (intro allI impI)
      fix i assume "i < length (c # pre)"
      then show "semverAt (drop i (c # cs)) = None"
        using None p(3) by (cases i) auto
    qed
    with p show ?thesis by (intro exI [of _ "c # pre"] exI [of _ post]) simp
  qed
qed

lemma semverExec_None:
  "semverExec s = None \<Longrightarrow> semverAt (drop i s) = None"
proof (induction s arbitrary: i)
  case Nil
  then show ?case by (simp add: semverAt_def)
next
  case (Cons c cs)
  then show ?case by (cases i) (auto split: option.splits)
qed

lemma semverExec_first:
  assumes "semverExec s = Some v"
  shows "\<exists>pre post. s = pre @ v @ post \<and> semver_shaped v
           \<and> (\<forall>pre' v' post'. s = pre' @ v' @ post' \<and> semver_shaped v' \<longrightarrow> length pre \<le> length pre')"
proof -
  from semverExec_Some [OF assms] obtain pre rest where
    s: "s = pre @ rest" and at: "semverAt rest = Some v"
    and early: "\<forall>i < length pre. semverAt (drop i s) = None"
    by blast
  from semverAt_Some [OF at] obtain post where shaped: "semver_shaped v" and rest: "rest = v @ post"
    by (auto simp: prefix_def)
  have "length pre \<le> length pre'" if "s = pre' @ v' @ post'" "semver_shaped v'" for pre' v' post'
  proof (rule ccontr)
    assume "\<not> length pre \<le> length pre'"
    then have "semverAt (drop (length pre') s) = None" using early by simp
    moreover have "drop (length pre') s = v' @ post'" using that(1) by simp
    ultimately show False using semverAt_shaped [OF that(2), of post'] by simp
  qed
  then show ?thesis using s rest shaped by blast
qed

lemma semverExec_None_iff:
  "semverExec s = None \<longleftrightarrow> \<not> (\<exists>pre v post. s = pre @ v @ post \<and> semver_shaped v)"
proof
  assume none: "semverExec s = None"
  show "\<not> (\<exists>pre v post. s = pre @ v @ post \<and> semver_shaped v)"
  proof
    assume "\<exists>pre v post. s = pre @ v @ post \<and> semver_shaped v"
    then obtain pre v post where s: "s = pre @ v @ post" and v: "semver_shaped v" by blast
    have "semverAt (drop (length pre) s) = None" by (rule semverExec_None [OF none])
    then show False using semverAt_shaped [OF v, of post] s by simp
  qed
next
  assume no: "\<not> (\<exists>pre v post. s = pre @ v @ post \<and> semver_shaped v)"
  show "semverExec s = None"
  proof (cases "semverExec s")
    case None
    then show ?thesis .
  next
    case (Some v)
    from semverExec_first [OF this] no show ?thesis by blast
  qed
qed

lemma goPackage_probe:
  "c \<noteq> [] \<Longrightarrow>
   goPackage w t installLog (n, Some c) tr =
     (case getCommandOutputFromContainer w t c False tr of
        (Inl e, tr') \<Rightarrow> (Inl e, tr')
      | (Inr out, tr') \<Rightarrow> (Inr (packageInfo n (JStr out)), tr'))"
  by (simp add: goPackage_def io_bind_def io_return_def split: prod.splits sum.splits)

lemma goPackage_no_probe:
  "\<not> truthy cmd \<Longrightarrow>
   goPackage w t installLog (n, cmd) tr =
     (case regexp_exec w (goPattern n) [] installLog of
        Inl e \<Rightarrow> Inl e
      | Inr None \<Rightarrow> Inr (packageInfo n (JStr ''latest''))
      | Inr (Some groups) \<Rightarrow> Inr (packageInfo n (js_of_string_option (group groups 1))),
      tr)"
  by (simp add: goPackage_def io_bind_def io_return_def regexp_def io_of_def
      split: prod.splits sum.splits option.splits)

lemma cargoCrate_run:
  "cargoCrate w t (n, cmd) tr =
     (case getCommandOutputFromContainer w t
             (case cmd of None \<Rightarrow> n @ '' --version''
                        | Some c \<Rightarrow> if c \<noteq> [] then c else n @ '' --version'')
             False (tr @ [Log (''(*) Getting version for '' @ n @ ''...'')]) of
        (Inl e, tr') \<Rightarrow> (Inl e, tr')
      | (Inr out, tr') \<Rightarrow>
          (case semverExec out of
             None \<Rightarrow> Inl (Error (''Could not extract information about crate '' @ n))
           | Some v \<Rightarrow> Inr (packageInfo n (JStr v)),
           tr'))"
  by (simp add: cargoCrate_def io_bind_def io_return_def io_throw_def console_log_def Let_def
      split: prod.splits sum.splits option.splits)

subsection \<open>Facts about the events of a run\<close>

lemma emits_return: "emits_only P (io_return x)"
  by (simp add: emits_only_def io_return_def)

lemma emits_throw: "emits_only P (io_throw e)"
  by (simp add: emits_only_def io_throw_def)

lemma emits_of: "emits_only P (io_of r)"
  by (simp add: emits_only_def io_of_def)

lemma emits_log: "P (Log s) \<Longrightarrow> emits_only P (console_log s)"
  by (simp add: emits_only_def console_log_def)

lemma emits_spawn: "P (Spawn c args) \<Longrightarrow> emits_only P (spawn w c args)"
  by (simp add: emits_only_def spawn_def)

lemma emits_bind:
  assumes "emits_only P m" and "\<And>x. emits_only P (f x)"
  shows "emits_only P (io_bind m f)"
  unfolding emits_only_def
proof
  fix tr
  from assms(1) obtain evs where m: "snd (m tr) = tr @ evs" "list_all P evs"
    by (auto simp: emits_only_def)
  show "\<exists>evs. snd (io_bind m f tr) = tr @ evs \<and> list_all P evs"
  proof (cases "m tr")
    case (Pair r tr')
    with m have tr': "tr' = tr @ evs" by simp
    show ?thesis
    proof (cases r)
      case (Inl e)
      with Pair tr' m show ?thesis by (auto simp: io_bind_def)
    next
      case (Inr x)
      from assms(2) [of x] obtain evs' where f: "snd (f x tr') = tr' @ evs'" "list_all P evs'"
        by (auto simp: emits_only_def)
      with Pair Inr tr' m show ?thesis
        by (intro exI [of _ "evs @ evs'"]) (simp add: io_bind_def)
    qed
  qed
qed

lemma emits_try_catch:
  assumes "emits_only P m" and "\<And>e. emits_only P (h e)"
  shows "emits_only P (io_try_catch m h)"
  unfolding emits_only_def
proof
  fix tr
  from assms(1) obtain evs where m: "snd (m tr) = tr @ evs" "list_all P evs"
    by (auto simp: emits_only_def)
  show "\<exists>evs. snd (io_try_catch m h tr) = tr @ evs \<and> list_all P evs"
  proof (cases "m tr")
    case (Pair r tr')
    with m have tr': "tr' = tr @ evs" by simp
    show ?thesis
    proof (cases r)
      case (Inr x)
      with Pair tr' m show ?thesis by (auto simp: io_try_catch_def)
    next
      case (Inl e)
      from assms(2) [of e] obtain evs' where f: "snd (h e tr') = tr' @ evs'" "list_all P evs'"
        by (auto simp: emits_only_def)
      with Pair Inl tr' m show ?thesis
        by (intro exI [of _ "evs @ evs'"]) (simp add: io_try_catch_def)
    qed
  qed
qed

lemma emits_io_map:
  assumes "\<And>x. emits_only P (f x)"
  shows "emits_only P (io_map f xs)"
  by (induction xs) (auto intro!: emits_bind emits_return assms)

lemmas emits_intros = emits_return emits_throw emits_of emits_log emits_spawn emits_bind
  emits_try_catch emits_io_map

lemma not_removal_Log: "not_removal cn (Log s)"
  by (simp add: not_removal_def)

lemma not_removal_runner:
  "not_removal cn (Spawn ''docker'' (runArgs t forceRoot @ [t, wrappedCommand command]))"
  by (simp add: not_removal_def runArgs_def)

lemma emits_runner:
  "emits_only (not_removal cn) (getCommandOutputFromContainer w t command forceRoot)"
  unfolding getCommandOutputFromContainer_def
  by (intro emits_intros not_removal_runner)

lemma emits_regexp: "emits_only P (regexp w p f s)"
  by (simp add: regexp_def emits_of)

lemma emits_parse_json: "emits_only P (parse_json w s)"
  by (simp add: parse_json_def emits_return emits_throw split: option.splits)

lemmas emits_steps = emits_intros emits_runner emits_regexp emits_parse_json not_removal_Log

lemma emits_getLinuxDistroInfo: "emits_only (not_removal cn) (getLinuxDistroInfo w t)"
  unfolding getLinuxDistroInfo_def by (intro emits_steps)

lemma emits_getPoolUrl:
  "emits_only (not_removal cn) (getPoolUrlFromPackageVersionListOutput w out config p v)"
  unfolding getPoolUrlFromPackageVersionListOutput_def
  by (auto intro!: emits_steps simp: Let_def split: option.splits)

lemma emits_linuxPackageVersionLine:
  "emits_only (not_removal cn) (linuxPackageVersionLine w params settings out line)"
  unfolding linuxPackageVersionLine_def
  by (auto intro!: emits_steps emits_getPoolUrl simp: Let_def split: option.splits)

lemma emits_getLinuxPackageInfo:
  "emits_only (not_removal cn) (getLinuxPackageInfo w t l d)"
  unfolding getLinuxPackageInfo_def
  by (auto intro!: emits_steps emits_linuxPackageVersionLine simp: Let_def split: option.splits)

lemma emits_getNpmGlobalPackageInfo:
  "emits_only (not_removal cn) (getNpmGlobalPackageInfo w t l)"
  unfolding getNpmGlobalPackageInfo_def
  by (auto intro!: emits_steps simp: Let_def split: option.splits)

lemma emits_getPipPackageInfo:
  "emits_only (not_removal cn) (getPipPackageInfo w t l usePipx)"
  unfolding getPipPackageInfo_def getPipVersionLookup_def getPipxVersionLookup_def
  by (auto intro!: emits_steps simp: Let_def split: option.splits jsval.splits)

lemma emits_getGemPackageInfo:
  "emits_only (not_removal cn) (getGemPackageInfo w t l)"
  unfolding getGemPackageInfo_def
  by (auto intro!: emits_steps simp: Let_def split: option.splits)

lemma emits_cargoCrate: "emits_only (not_removal cn) (cargoCrate w t entry)"
  unfolding cargoCrate_def
  by (auto intro!: emits_steps simp: Let_def split: option.splits)

lemma emits_getCargoPackageInfo:
  "emits_only (not_removal cn) (getCargoPackageInfo w t l)"
  unfolding getCargoPackageInfo_def
  by (auto intro!: emits_steps emits_cargoCrate simp: Let_def)

lemma emits_goPackage: "emits_only (not_removal cn) (goPackage w t log entry)"
  unfolding goPackage_def
  by (auto intro!: emits_steps simp: Let_def split: option.splits)

lemma emits_getGoPackageInfo:
  "emits_only (not_removal cn) (getGoPackageInfo w t l)"
  unfolding getGoPackageInfo_def
  by (auto intro!: emits_steps emits_goPackage simp: Let_def)

lemma emits_gitRepository: "emits_only (not_removal cn) (gitRepository w t entry)"
  unfolding gitRepository_def
  by (auto intro!: emits_steps simp: Let_def split: option.splits)

lemma emits_getGitRepositoryInfo:
  "emits_only (not_removal cn) (getGitRepositoryInfo w t l)"
  unfolding getGitRepositoryInfo_def
  by (auto intro!: emits_steps emits_gitRepository simp: Let_def)

lemma emits_otherDependency: "emits_only (not_removal cn) (otherDependency w t entry)"
  unfolding otherDependency_def
  by (auto intro!: emits_steps simp: Let_def split: option.splits)

lemma emits_getOtherDependencyInfo:
  "emits_only (not_removal cn) (getOtherDependencyInfo w t l ty)"
  unfolding getOtherDependencyInfo_def
  by (auto intro!: emits_steps emits_otherDependency simp: Let_def)

lemma emits_getImageInfo: "emits_only (not_removal cn) (getImageInfo w t)"
  unfolding getImageInfo_def
  by (auto intro!: emits_steps simp: Let_def not_removal_def split: error.splits)

lemma emits_extractContents: "emits_only (not_removal cn) (extractContents w t deps)"
  unfolding extractContents_def
  by (intro emits_bind emits_return emits_getLinuxDistroInfo emits_getImageInfo
      emits_getLinuxPackageInfo emits_getNpmGlobalPackageInfo emits_getPipPackageInfo
      emits_getGemPackageInfo emits_getCargoPackageInfo emits_getGoPackageInfo
      emits_getGitRepositoryInfo emits_getOtherDependencyInfo)

lemma count_list_append: "count_list (xs @ ys) x = count_list xs x + count_list ys x"
  by (induction xs) auto

lemma count_list_zero: "list_all (\<lambda>y. y \<noteq> x) xs \<Longrightarrow> count_list xs x = 0"
  by (induction xs) auto

subsection \<open>Facts about the order of enumeration\<close>

lemma for_in_Nil: "for_in [] = []"
  by (simp add: for_in_def)

lemma set_for_in: "set (for_in ps) = set ps"
  by (auto simp: for_in_def)

lemma for_in_eq_Nil: "for_in ps = [] \<longleftrightarrow> ps = []"
  using set_for_in [of ps] by (metis set_empty)

lemma for_in_no_index:
  "list_all (\<lambda>entry. array_index (fst entry) = None) ps \<Longrightarrow> for_in ps = ps"
  by (simp add: for_in_def list_all_iff)



subsection \<open>Facts about loops\<close>

lemma io_map_Nil: "io_map f [] tr = (Inr [], tr)"
  by (simp add: io_return_def)

lemma io_map_Cons:
  "io_map f (x # xs) tr =
     (case f x tr of
        (Inl e, tr1) \<Rightarrow> (Inl e, tr1)
      | (Inr y, tr1) \<Rightarrow>
          (case io_map f xs tr1 of
             (Inl e, tr2) \<Rightarrow> (Inl e, tr2)
           | (Inr ys, tr2) \<Rightarrow> (Inr (y # ys), tr2)))"
  by (simp add: io_bind_def io_return_def split: prod.splits sum.splits)

lemma io_map_append:
  "io_map f xs tr = (Inr ys, tr1) \<Longrightarrow>
   io_map f (xs @ zs) tr =
     (case io_map f zs tr1 of
        (Inl e, tr2) \<Rightarrow> (Inl e, tr2)
      | (Inr ys', tr2) \<Rightarrow> (Inr (ys @ ys'), tr2))"
proof (induction xs arbitrary: tr ys)
  case Nil
  then show ?case by (auto simp: io_return_def split: prod.splits sum.splits)
next
  case (Cons x xs)
  from Cons.prems obtain y tra ys0 where
    fx: "f x tr = (Inr y, tra)" and rest: "io_map f xs tra = (Inr ys0, tr1)" and ys: "ys = y # ys0"
    by (auto simp: io_bind_def io_return_def split: prod.splits sum.splits)
  show ?case
    using Cons.IH [OF rest] fx ys
    by (simp add: io_bind_def io_return_def split: prod.splits sum.splits)
qed

lemma io_map_throws_at:
  "io_map f xs tr = (Inr ys, tr1) \<Longrightarrow> f x tr1 = (Inl e, tr2) \<Longrightarrow>
   io_map f (xs @ x # rest) tr = (Inl e, tr2)"
  by (simp add: io_map_append io_bind_def)

lemma io_map_all2:
  assumes "\<And>x tr y tr'. x \<in> set xs \<Longrightarrow> f x tr = (Inr y, tr') \<Longrightarrow> P x y"
    and "io_map f xs tr = (Inr ys, tr')"
  shows "list_all2 P xs ys"
  using assms
proof (induction xs arbitrary: tr ys)
  case Nil
  then show ?case by (simp add: io_return_def)
next
  case (Cons x xs)
  from Cons.prems(2) obtain y tra ys0 where
    fx: "f x tr = (Inr y, tra)" and rest: "io_map f xs tra = (Inr ys0, tr')" and ys: "ys = y # ys0"
    by (auto simp: io_bind_def io_return_def split: prod.splits sum.splits)
  have "P x y" using Cons.prems(1) fx by simp
  moreover have "list_all2 P xs ys0"
    using Cons.IH [OF _ rest] Cons.prems(1) by simp
  ultimately show ?case using ys by simp
qed

subsection \<open>Facts about the npm search\<close>
















subsection \<open>Facts about the Linux packages\<close>

lemma linuxSettings_snoc:
  "linuxSettings (packageList @ [current]) =
     lookup_set (linuxSettings packageList) (entry_name current) (entry_settings current)"
  by (simp add: linuxSettings_def)

lemma map_of_linuxSettings:
  "map_of (linuxSettings packageList) n =
     map_option entry_settings (find (\<lambda>entry. entry_name entry = n) (rev packageList))"
proof (induction packageList rule: rev_induct)
  case Nil
  then show ?case by (simp add: linuxSettings_def)
next
  case (snoc current packageList)
  then show ?case by (auto simp: linuxSettings_snoc map_of_lookup_set)
qed

lemma js_replace_all_char_Cons:
  "js_replace_all_char c r (x # s) = (if x = c then r else [x]) @ js_replace_all_char c r s"
  by (simp add: js_replace_all_char_def)

lemma js_replace_all_char_append:
  "js_replace_all_char c r (s @ s') = js_replace_all_char c r s @ js_replace_all_char c r s'"
  by (simp add: js_replace_all_char_def)

lemma js_replace_all_char_empty: "js_replace_all_char c r [] = []"
  by (simp add: js_replace_all_char_def)

lemma sanitizedPackage_spec: "sanitizedPackage n = spec_escaped_package n"
proof (induction n)
  case Nil
  then show ?case
    by (simp add: sanitizedPackage_def spec_escaped_package_def js_replace_all_char_empty)
next
  case (Cons c n)
  then show ?case
    by (simp add: sanitizedPackage_def spec_escaped_package_def spec_escaped_char_def
        js_replace_all_char_Cons js_replace_all_char_append js_replace_all_char_empty backslash_def)
qed

lemma sanitizedVersion_spec: "sanitizedVersion v = spec_escaped_version v"
proof (induction v)
  case Nil
  then show ?case
    by (simp add: sanitizedVersion_def spec_escaped_version_def js_replace_all_char_empty)
next
  case (Cons c v)
  then show ?case
    by (simp add: sanitizedVersion_def spec_escaped_version_def spec_escaped_char_def
        js_replace_all_char_Cons js_replace_all_char_append js_replace_all_char_empty backslash_def)
qed

lemma getSubstitution_plain:
  "CHR ''$'' \<notin> set r \<Longrightarrow> getSubstitution matched preceding following r = r"
  by (induction matched preceding following r rule: getSubstitution.induct) auto

lemma js_replace_from_skip:
  assumes "pat = c # rest" and "c \<notin> set pre"
  shows "js_replace_from pat r acc (pre @ pat @ post)
           = pre @ getSubstitution pat (acc @ pre) post r @ post"
  using assms(2)
proof (induction pre arbitrary: acc)
  case Nil
  then show ?case by (simp add: assms(1))
next
  case (Cons x pre)
  then have "\<not> prefix pat (x # pre @ pat @ post)" by (auto simp: assms(1))
  then show ?case using Cons by simp
qed

lemma js_replace_first_plain:
  assumes "pat = c # rest" and "c \<notin> set pre" and "CHR ''$'' \<notin> set r"
  shows "js_replace_first pat r (pre @ pat @ post) = pre @ r @ post"
  using js_replace_from_skip [OF assms(1,2), of r "[]" post] getSubstitution_plain [OF assms(3)]
  by (simp add: js_replace_first_def)

lemma escaped_package_no_dollar:
  "CHR ''$'' \<notin> set n \<Longrightarrow> CHR ''$'' \<notin> set (spec_escaped_package n)"
  by (induction n) (auto simp: spec_escaped_package_def spec_escaped_char_def backslash_def)

lemma escaped_version_no_dollar:
  "CHR ''$'' \<notin> set v \<Longrightarrow> CHR ''$'' \<notin> set (spec_escaped_version v)"
  by (induction v) (auto simp: spec_escaped_version_def spec_escaped_char_def backslash_def)

lemma poolUriPattern_spec:
  assumes "poolUriMatchRegEx params = pre @ ''${PACKAGE}'' @ mid @ ''${VERSION}'' @ post"
    and "CHR ''$'' \<notin> set pre" and "CHR ''$'' \<notin> set mid"
    and "CHR ''$'' \<notin> set n" and "CHR ''$'' \<notin> set v"
  shows "poolUriPattern params n v
           = pre @ spec_escaped_package n @ mid @ spec_escaped_version v @ post"
proof -
  have 1: "js_replace_first ''${PACKAGE}'' (spec_escaped_package n)
             (pre @ ''${PACKAGE}'' @ (mid @ ''${VERSION}'' @ post))
           = pre @ spec_escaped_package n @ (mid @ ''${VERSION}'' @ post)"
    by (rule js_replace_first_plain [OF _ assms(2) escaped_package_no_dollar [OF assms(4)]]) simp
  have 2: "js_replace_first ''${VERSION}'' (spec_escaped_version v)
             ((pre @ spec_escaped_package n @ mid) @ ''${VERSION}'' @ post)
           = (pre @ spec_escaped_package n @ mid) @ spec_escaped_version v @ post"
    by (rule js_replace_first_plain [OF _ _ escaped_version_no_dollar [OF assms(5)]])
       (use assms(2,3) escaped_package_no_dollar [OF assms(4)] in auto)
  show ?thesis
    using 1 2
    by (simp add: poolUriPattern_def sanitizedPackage_spec sanitizedVersion_spec assms(1))
qed

lemma pool_url_cases:
  "getPoolUrlFromPackageVersionListOutput w uris params n v tr =
     (case regexp_exec w (poolUriPattern params n v) ''m'' uris of
        Inl e \<Rightarrow> (Inl e, tr)
      | Inr None \<Rightarrow>
          if truthy (getFallbackPoolUrl w n) then (Inr (getFallbackPoolUrl w n), tr)
          else (Inr None, tr @ [Log (''(!) No URI found for '' @ n @ '' '' @ v @ ''.'')])
      | Inr (Some gs) \<Rightarrow> (Inr (group gs 1), tr))"
  by (simp add: getPoolUrlFromPackageVersionListOutput_def regexp_def io_of_def io_bind_def
      io_return_def console_log_def Let_def split: sum.splits option.splits)

lemma linux_line_matched:
  assumes "js_trim line \<noteq> []"
    and "regexp_exec w (lineRegEx params) [] (js_trim line) = Inr (Some groups)"
    and "group groups 1 = Some n"
    and "group groups 2 = Some v"
  shows "linuxPackageVersionLine w params settings uris line tr =
     (case getPoolUrlFromPackageVersionListOutput w uris params n v tr of
        (Inl e, tr') \<Rightarrow> (Inl e, tr')
      | (Inr pool, tr') \<Rightarrow>
          (if \<not> truthy pool \<and> Option.bind (map_of settings n) dep_cgIgnore = Some False
           then Inl (Error ''(!) No pool URL found to register package!'')
           else Inr (Some \<lparr> name = n, version = JStr v, url = None, path = None,
                             annotation = Option.bind (map_of settings n) dep_annotation,
                             poolUrl = pool,
                             poolKeyUrl = (case pool of
                                             None \<Rightarrow> None
                                           | Some u \<Rightarrow> if u \<noteq> [] then getPoolKeyForPoolUrl w u
                                                       else None),
                             commitHash = None,
                             cgIgnore = Some (Option.bind (map_of settings n) dep_cgIgnore
                                                \<noteq> Some False),
                             markdownIgnore = Option.bind (map_of settings n) dep_markdownIgnore \<rparr>),
           tr'))"
  using assms
  by (cases "Option.bind (map_of settings n) dep_cgIgnore")
     (auto simp: linuxPackageVersionLine_def regexp_def io_of_def io_bind_def
       io_return_def io_throw_def Let_def split: prod.splits sum.splits)

lemma linux_extractor:
  assumes "(case getDefaultDependencies_packages w
                   (getLinuxPackageManagerForDistro w (map_of distroInfo ''id'')) of
              None \<Rightarrow> [] | Some d \<Rightarrow> d) @ packageList = merged"
    and "merged \<noteq> []"
    and "getPackageInfoExtractorParams w (getLinuxPackageManagerForDistro w (map_of distroInfo ''id''))
           = params"
  shows "getLinuxPackageInfo w t packageList distroInfo tr =
     (case getCommandOutputFromContainer w t
             (listCommand params @ packageListCommandPart merged
                @ '' || echo '' @ [squote] @ ''Some packages were not found.'' @ [squote])
             True (tr @ [Log ''(*) Gathering information about Linux package versions...'']) of
        (Inl e, tr1) \<Rightarrow> (Inl e, tr1)
      | (Inr versions, tr1) \<Rightarrow>
          (case getCommandOutputFromContainer w t
                  (getUriCommand params @ packageListCommandPart merged
                     @ '' || echo '' @ [squote] @ ''Some packages were not found.'' @ [squote])
                  True
                  (tr1 @ [Log ''(*) Gathering information about Linux package download URLs...'']) of
             (Inl e, tr2) \<Rightarrow> (Inl e, tr2)
           | (Inr uris, tr2) \<Rightarrow>
               (case io_map (linuxPackageVersionLine w params (linuxSettings merged) uris)
                       (js_split newline versions) tr2 of
                  (Inl e, tr3) \<Rightarrow> (Inl e, tr3)
                | (Inr records, tr3) \<Rightarrow> (Inr (List.map_filter id records), tr3))))"
  unfolding getLinuxPackageInfo_def Let_def assms(1) assms(3)
  using assms(2)
  by (simp add: io_bind_def console_log_def io_return_def split: prod.splits sum.splits)

subsection \<open>Facts about the records of each extractor\<close>

lemma io_bind_Inr:
  "io_bind m f tr = (Inr y, tr') \<Longrightarrow> \<exists>x tr1. m tr = (Inr x, tr1) \<and> f x tr1 = (Inr y, tr')"
  by (auto simp: io_bind_def split: prod.splits sum.splits)

lemma io_map_filter_all2:
  assumes "\<And>x tr y tr'. f x tr = (Inr y, tr') \<Longrightarrow>
             (case y of None \<Rightarrow> \<not> keep x | Some r \<Rightarrow> keep x \<and> P x r)"
    and "io_map f xs tr = (Inr ys, tr')"
  shows "list_all2 P (filter keep xs) (List.map_filter id ys)"
  using assms(2)
proof (induction xs arbitrary: tr ys)
  case Nil
  then show ?case by (simp add: io_return_def List.map_filter_simps)
next
  case (Cons x xs)
  from Cons.prems obtain y tr1 zs where
    y: "f x tr = (Inr y, tr1)" and zs: "io_map f xs tr1 = (Inr zs, tr')" and ys: "ys = y # zs"
    by (auto simp: io_bind_def io_return_def split: prod.splits sum.splits)
  from Cons.IH [OF zs] assms(1) [OF y] ys show ?case
    by (cases y) (simp_all add: List.map_filter_simps)
qed

lemma npm_records:
  assumes "fst (getNpmGlobalPackageInfo w t l tr) = Inr rs"
  shows "list_all2 (\<lambda>n r. name r = n \<and> js_truthy (version r))
           (merged_names (getDefaultDependencies_names w ''npm'') l) rs"
proof (cases "merged_names (getDefaultDependencies_names w ''npm'') l = []")
  case True
  then show ?thesis using assms
    by (simp add: getNpmGlobalPackageInfo_def merged_names_def io_return_def)
next
  case False
  obtain tr' where run: "getNpmGlobalPackageInfo w t l tr = (Inr rs, tr')"
    using assms by (cases "getNpmGlobalPackageInfo w t l tr") simp
  have step: "\<And>js out x tr y tr'. io_of (npmPackage w js out x) tr = (Inr y, tr') \<Longrightarrow>
                name y = x \<and> js_truthy (version y)"
    by (auto simp: io_of_def npmPackage_def packageInfo_def Let_def split: sum.splits if_splits)
  from run False obtain js out tr1 where
    "io_map (\<lambda>packageName. io_of (npmPackage w js out packageName))
       (merged_names (getDefaultDependencies_names w ''npm'') l) tr1 = (Inr rs, tr')"
    unfolding getNpmGlobalPackageInfo_def merged_names_def Let_def
    by (auto dest!: io_bind_Inr split: if_splits)
  then show ?thesis
    by (rule io_map_all2 [OF _ _, rotated]) (erule step)
qed

lemma gem_records:
  assumes "fst (getGemPackageInfo w t l tr) = Inr rs"
  shows "\<exists>gemListOutput.
           list_all2 (\<lambda>n r. name r = n \<and>
                        (\<exists>groups. regexp_exec w (gemPattern n) ''m'' gemListOutput = Inr (Some groups)
                                   \<and> version r = js_of_string_option (group groups 1)))
             (merged_names (getDefaultDependencies_names w ''gem'') l) rs"
proof (cases "merged_names (getDefaultDependencies_names w ''gem'') l = []")
  case True
  then show ?thesis using assms
    by (simp add: getGemPackageInfo_def merged_names_def io_return_def)
next
  case False
  obtain tr' where run: "getGemPackageInfo w t l tr = (Inr rs, tr')"
    using assms by (cases "getGemPackageInfo w t l tr") simp
  have step: "\<And>out x tr y tr'. io_of (gemPackage w out x) tr = (Inr y, tr') \<Longrightarrow>
                name y = x \<and>
                (\<exists>groups. regexp_exec w (gemPattern x) ''m'' out = Inr (Some groups)
                           \<and> version y = js_of_string_option (group groups 1))"
    by (auto simp: io_of_def gemPackage_def packageInfo_def split: sum.splits option.splits)
  from run False obtain out tr1 where
    "io_map (\<lambda>g. io_of (gemPackage w out g))
       (merged_names (getDefaultDependencies_names w ''gem'') l) tr1 = (Inr rs, tr')"
    unfolding getGemPackageInfo_def merged_names_def Let_def
    by (auto dest!: io_bind_Inr split: if_splits)
  then have "list_all2 (\<lambda>n r. name r = n \<and>
                        (\<exists>groups. regexp_exec w (gemPattern n) ''m'' out = Inr (Some groups)
                                   \<and> version r = js_of_string_option (group groups 1)))
             (merged_names (getDefaultDependencies_names w ''gem'') l) rs"
    by (rule io_map_all2 [OF _ _, rotated]) (erule step)
  then show ?thesis by blast
qed

lemma pip_result:
  assumes "merged_names (getDefaultDependencies_names w (if usePipx then ''pipx'' else ''pip'')) l \<noteq> []"
    and "(if usePipx then getPipxVersionLookup w t else getPipVersionLookup w t)
           (tr @ [Log ''(*) Gathering information about pip packages...'']) = (Inr versionLookup, tr')"
  shows "getPipPackageInfo w t l usePipx tr =
           (Inr (map (\<lambda>packageName. packageInfo packageName (js_object_get w versionLookup packageName))
                   (merged_names (getDefaultDependencies_names w (if usePipx then ''pipx'' else ''pip'')) l)),
            tr')"
  using assms
  by (cases usePipx)
     (auto simp: getPipPackageInfo_def merged_names_def Let_def io_bind_def io_return_def
        console_log_def)

lemma pip_names:
  assumes "fst (getPipPackageInfo w t l usePipx tr) = Inr rs"
  shows "map name rs = merged_names (getDefaultDependencies_names w (if usePipx then ''pipx'' else ''pip'')) l"
proof (cases "merged_names (getDefaultDependencies_names w (if usePipx then ''pipx'' else ''pip'')) l = []")
  case True
  then show ?thesis using assms
    by (simp add: getPipPackageInfo_def merged_names_def io_return_def)
next
  case False
  obtain tr' where run: "getPipPackageInfo w t l usePipx tr = (Inr rs, tr')"
    using assms by (cases "getPipPackageInfo w t l usePipx tr") simp
  from run False show ?thesis
    unfolding getPipPackageInfo_def merged_names_def Let_def
    by (auto dest!: io_bind_Inr simp: io_return_def packageInfo_def comp_def split: if_splits)
qed

lemma string_option_not_object:
  "\<not> is_object (js_of_string_option x)" "js_of_string_option x \<noteq> JNull"
  by (cases x; simp)+

lemma pipx_line_prototype:
  "pipxVersionLine w prev current = Inr obj \<Longrightarrow> prototype_of prev = ObjectPrototype \<Longrightarrow>
   prototype_of obj = ObjectPrototype"
  by (auto simp: pipxVersionLine_def js_object_set_def string_option_not_object
      split: sum.splits option.splits if_splits)

lemma pipx_lines_prototype:
  "pipxVersionLines w prev ls = Inr obj \<Longrightarrow> prototype_of prev = ObjectPrototype \<Longrightarrow>
   prototype_of obj = ObjectPrototype"
proof (induction ls arbitrary: prev)
  case Nil
  then show ?case by simp
next
  case (Cons current ls)
  from Cons.prems(1) obtain mid where mid: "pipxVersionLine w prev current = Inr mid"
    "pipxVersionLines w mid ls = Inr obj"
    by (auto split: sum.splits)
  from pipx_line_prototype [OF mid(1) Cons.prems(2)] Cons.IH [OF mid(2)] show ?case by simp
qed

lemma pipx_prototype:
  assumes "getPipxVersionLookup w t tr = (Inr obj, tr')"
  shows "prototype_of obj = ObjectPrototype"
proof -
  from assms obtain out where "pipxVersionLines w empty_object (js_split newline out) = Inr obj"
    unfolding getPipxVersionLookup_def
    by (auto simp: io_of_def dest!: io_bind_Inr)
  then show ?thesis by (rule pipx_lines_prototype) (simp add: empty_object_def)
qed

lemma pip_entry_prototype:
  assumes "pipVersionEntry w prev current = Inr obj"
    and "prototype_of prev = ObjectPrototype"
    and "\<forall>n. js_get w current ''name'' = Inr n \<longrightarrow> js_to_string w n \<noteq> Inr ''__proto__''"
  shows "prototype_of obj = ObjectPrototype"
  using assms
  by (auto simp: pipVersionEntry_def js_object_set_def split: sum.splits if_splits)

lemma pip_entries_prototype:
  assumes "pipVersionEntries w prev entries = Inr obj"
    and "prototype_of prev = ObjectPrototype"
    and "\<forall>current \<in> set entries. \<forall>n. js_get w current ''name'' = Inr n \<longrightarrow>
           js_to_string w n \<noteq> Inr ''__proto__''"
  shows "prototype_of obj = ObjectPrototype"
  using assms
proof (induction entries arbitrary: prev)
  case Nil
  then show ?case by simp
next
  case (Cons current entries)
  from Cons.prems(1) obtain mid where mid: "pipVersionEntry w prev current = Inr mid"
    "pipVersionEntries w mid entries = Inr obj"
    by (auto split: sum.splits)
  have "prototype_of mid = ObjectPrototype"
    using pip_entry_prototype [OF mid(1) Cons.prems(2)] Cons.prems(3) by simp
  then show ?case using Cons.IH [OF mid(2)] Cons.prems(3) by simp
qed

lemma go_extractor:
  "getGoPackageInfo w t requested tr =
     (case getCommandOutputFromContainer w t
             ''cat /usr/local/etc/vscode-dev-containers/go.log'' False
             (tr @ [Log ''(*) Gathering information about go modules and packages...'']) of
        (Inl e, tr') \<Rightarrow> (Inl e, tr')
      | (Inr logText, tr') \<Rightarrow>
          io_map (goPackage w t logText)
            (for_in (mergeDefaults (getDefaultDependencies_lookup w ''go'') requested)) tr')"
  by (simp add: getGoPackageInfo_def io_bind_def console_log_def
      split: prod.splits sum.splits)

lemma cargo_extractor:
  "getCargoPackageInfo w t requested tr =
     io_map (cargoCrate w t)
       (for_in (mergeDefaults (getDefaultDependencies_lookup w ''go'') requested))
       (tr @ [Log ''(*) Gathering information about cargo packages...''])"
  by (simp add: getCargoPackageInfo_def io_bind_def console_log_def)

lemma cargo_records:
  assumes "fst (getCargoPackageInfo w t m tr) = Inr rs"
  shows "list_all2 (\<lambda>entry r. name r = fst entry \<and> (\<exists>v. version r = JStr v \<and> semver_shaped v))
           (for_in (mergeDefaults (getDefaultDependencies_lookup w ''go'') m)) rs"
proof -
  obtain tr' where run: "getCargoPackageInfo w t m tr = (Inr rs, tr')"
    using assms by (cases "getCargoPackageInfo w t m tr") simp
  have step: "\<And>x tr y tr'. cargoCrate w t x tr = (Inr y, tr') \<Longrightarrow>
                name y = fst x \<and> (\<exists>v. version y = JStr v \<and> semver_shaped v)"
  proof -
    fix x tr y tr'
    assume a: "cargoCrate w t x tr = (Inr y, tr')"
    obtain n cmd where x: "x = (n, cmd)" by (cases x)
    from a obtain out v where "semverExec out = Some v" "y = packageInfo n (JStr v)"
      unfolding x cargoCrate_run
      by (auto split: prod.splits sum.splits option.splits)
    then show "name y = fst x \<and> (\<exists>v. version y = JStr v \<and> semver_shaped v)"
      using semverExec_first [of out v] by (auto simp: x packageInfo_def)
  qed
  from run have "io_map (cargoCrate w t)
       (for_in (mergeDefaults (getDefaultDependencies_lookup w ''go'') m))
       (tr @ [Log ''(*) Gathering information about cargo packages...'']) = (Inr rs, tr')"
    by (simp add: cargo_extractor)
  then show ?thesis
    by (rule io_map_all2 [OF _ _, rotated]) (erule step)
qed

lemma go_records:
  assumes "fst (getGoPackageInfo w t m tr) = Inr rs"
  shows "\<exists>logText.
           list_all2 (\<lambda>entry r. name r = fst entry \<and>
                        (if truthy (snd entry) then (\<exists>out. version r = JStr out)
                         else (case regexp_exec w (goPattern (fst entry)) [] logText of
                                 Inl e \<Rightarrow> False
                               | Inr None \<Rightarrow> version r = JStr ''latest''
                               | Inr (Some groups) \<Rightarrow>
                                   version r = js_of_string_option (group groups 1))))
             (for_in (mergeDefaults (getDefaultDependencies_lookup w ''go'') m)) rs"
proof -
  obtain tr' where run: "getGoPackageInfo w t m tr = (Inr rs, tr')"
    using assms by (cases "getGoPackageInfo w t m tr") simp
  have step: "\<And>logText x tr y tr'. goPackage w t logText x tr = (Inr y, tr') \<Longrightarrow>
                name y = fst x \<and>
                (if truthy (snd x) then (\<exists>out. version y = JStr out)
                 else (case regexp_exec w (goPattern (fst x)) [] logText of
                         Inl e \<Rightarrow> False
                       | Inr None \<Rightarrow> version y = JStr ''latest''
                       | Inr (Some groups) \<Rightarrow> version y = js_of_string_option (group groups 1)))"
    by (auto simp: goPackage_def packageInfo_def Let_def io_return_def regexp_def io_of_def
        dest!: io_bind_Inr split: option.splits sum.splits if_splits)
  from run obtain logText tr1 where
    "io_map (goPackage w t logText)
       (for_in (mergeDefaults (getDefaultDependencies_lookup w ''go'') m)) tr1 = (Inr rs, tr')"
    unfolding go_extractor
    by (auto split: prod.splits sum.splits)
  then have "list_all2 (\<lambda>entry r. name r = fst entry \<and>
                        (if truthy (snd entry) then (\<exists>out. version r = JStr out)
                         else (case regexp_exec w (goPattern (fst entry)) [] logText of
                                 Inl e \<Rightarrow> False
                               | Inr None \<Rightarrow> version r = JStr ''latest''
                               | Inr (Some groups) \<Rightarrow>
                                   version r = js_of_string_option (group groups 1))))
             (for_in (mergeDefaults (getDefaultDependencies_lookup w ''go'') m)) rs"
    by (rule io_map_all2 [OF _ _, rotated]) (erule step)
  then show ?thesis by blast
qed

lemma git_records:
  assumes "fst (getGitRepositoryInfo w t m tr) = Inr rs"
  shows "list_all2 (\<lambda>entry r. name r = fst entry \<and> version r = JUndefined \<and> path r = snd entry
                       \<and> truthy (url r) \<and> truthy (commitHash r))
           (filter (\<lambda>entry. snd entry \<noteq> None)
              (for_in (mergeDefaults (getDefaultDependencies_lookup w ''git'') m))) rs"
proof -
  obtain tr' where run: "getGitRepositoryInfo w t m tr = (Inr rs, tr')"
    using assms by (cases "getGitRepositoryInfo w t m tr") simp
  have step: "\<And>x tr y tr'. gitRepository w t x tr = (Inr y, tr') \<Longrightarrow>
      (case y of None \<Rightarrow> \<not> snd x \<noteq> None
       | Some r \<Rightarrow> snd x \<noteq> None \<and> (name r = fst x \<and> version r = JUndefined \<and> path r = snd x
                     \<and> truthy (url r) \<and> truthy (commitHash r)))"
    by (auto simp: gitRepository_def packageInfo_def Let_def io_return_def io_throw_def
        dest!: io_bind_Inr split: option.splits if_splits)
  from run obtain ys tr1 where
    ys: "io_map (gitRepository w t)
           (for_in (mergeDefaults (getDefaultDependencies_lookup w ''git'') m)) tr
           = (Inr ys, tr1)" and rs: "rs = List.map_filter id ys"
    unfolding getGitRepositoryInfo_def Let_def
    by (auto simp: io_return_def dest!: io_bind_Inr)
  show ?thesis
    unfolding rs
    by (rule io_map_filter_all2 [OF _ ys]) (erule step)
qed

lemma other_records:
  assumes "fst (getOtherDependencyInfo w t m ty tr) = Inr rs"
  shows "list_all2 (\<lambda>entry r. name r = fst entry \<and> (\<exists>out. version r = JStr out))
           (for_in (mergeDefaults (getDefaultDependencies_other w ty) m)) rs"
proof -
  obtain tr' where run: "getOtherDependencyInfo w t m ty tr = (Inr rs, tr')"
    using assms by (cases "getOtherDependencyInfo w t m ty tr") simp
  have step: "\<And>x tr y tr'. otherDependency w t x tr = (Inr y, tr') \<Longrightarrow>
                name y = fst x \<and> (\<exists>out. version y = JStr out)"
    by (auto simp: otherDependency_def Let_def io_return_def io_throw_def
        dest!: io_bind_Inr split: option.splits if_splits)
  from run obtain tr1 where
    "io_map (otherDependency w t) (for_in (mergeDefaults (getDefaultDependencies_other w ty) m)) tr1
       = (Inr rs, tr')"
    unfolding getOtherDependencyInfo_def Let_def
    by (auto dest!: io_bind_Inr)
  then show ?thesis
    by (rule io_map_all2 [OF _ _, rotated]) (erule step)
qed

lemma io_map_some_set:
  assumes "\<And>x tr y tr'. f x tr = (Inr y, tr') \<Longrightarrow> (\<forall>r. y = Some r \<longrightarrow> Q x r)"
    and "io_map f xs tr = (Inr ys, tr')"
  shows "\<forall>r \<in> set (List.map_filter id ys). \<exists>x \<in> set xs. Q x r"
  using assms(2)
proof (induction xs arbitrary: tr ys)
  case Nil
  then show ?case by (simp add: io_return_def List.map_filter_simps)
next
  case (Cons x xs)
  from Cons.prems obtain y tr1 zs where
    y: "f x tr = (Inr y, tr1)" and zs: "io_map f xs tr1 = (Inr zs, tr')" and ys: "ys = y # zs"
    by (auto simp: io_bind_def io_return_def split: prod.splits sum.splits)
  from Cons.IH [OF zs] assms(1) [OF y] ys show ?case
    by (cases y) (auto simp: List.map_filter_simps)
qed

lemma linux_line_record:
  assumes "linuxPackageVersionLine w params settings out line tr = (Inr y, tr')"
  shows "\<forall>r. y = Some r \<longrightarrow>
           (\<exists>groups v. regexp_exec w (lineRegEx params) [] (js_trim line) = Inr (Some groups)
              \<and> group groups 1 = Some (name r) \<and> group groups 2 = Some v \<and> version r = JStr v)"
  using assms
  unfolding linuxPackageVersionLine_def Let_def
  by (auto simp: io_return_def io_throw_def regexp_def io_of_def console_log_def
      dest!: io_bind_Inr split: option.splits if_splits)

lemma linux_records:
  assumes "fst (getLinuxPackageInfo w t packageList distroInfo tr) = Inr rs"
  shows "\<exists>versions.
           \<forall>r \<in> set rs. \<exists>line \<in> set (js_split newline versions). \<exists>groups v.
              regexp_exec w
                (lineRegEx (getPackageInfoExtractorParams w
                              (getLinuxPackageManagerForDistro w (map_of distroInfo ''id''))))
                [] (js_trim line) = Inr (Some groups)
              \<and> group groups 1 = Some (name r) \<and> group groups 2 = Some v \<and> version r = JStr v"
proof -
  let ?merged = "(case getDefaultDependencies_packages w
                   (getLinuxPackageManagerForDistro w (map_of distroInfo ''id'')) of
              None \<Rightarrow> [] | Some d \<Rightarrow> d) @ packageList"
  let ?params = "getPackageInfoExtractorParams w
                   (getLinuxPackageManagerForDistro w (map_of distroInfo ''id''))"
  show ?thesis
  proof (cases "?merged = []")
    case True
    then have "rs = []" using assms
      by (simp add: getLinuxPackageInfo_def io_return_def)
    then show ?thesis by simp
  next
    case False
    obtain tr' where run: "getLinuxPackageInfo w t packageList distroInfo tr = (Inr rs, tr')"
      using assms by (cases "getLinuxPackageInfo w t packageList distroInfo tr") simp
    from run obtain versions uris ys tr2 where
      ys: "io_map (linuxPackageVersionLine w ?params (linuxSettings ?merged) uris)
             (js_split newline versions) tr2 = (Inr ys, tr')"
      and rs: "rs = List.map_filter id ys"
      unfolding linux_extractor [OF refl False refl]
      by (auto split: prod.splits sum.splits)
    have "\<forall>r \<in> set (List.map_filter id ys). \<exists>line \<in> set (js_split newline versions).
            \<exists>groups v. regexp_exec w (lineRegEx ?params) [] (js_trim line) = Inr (Some groups)
              \<and> group groups 1 = Some (name r) \<and> group groups 2 = Some v \<and> version r = JStr v"
      by (rule io_map_some_set [OF _ ys]) (erule linux_line_record)
    then show ?thesis unfolding rs by blast
  qed
qed

lemma pip_lookup_entries:
  assumes "getPipVersionLookup w t tr = (Inr versionLookup, tr')"
  shows "\<exists>out entries. json_parse w out = Some (JArr entries)
           \<and> pipVersionEntries w empty_object entries = Inr versionLookup"
proof -
  from assms obtain out entries where "json_parse w out = Some (JArr entries)"
    "pipVersionEntries w empty_object entries = Inr versionLookup"
    unfolding getPipVersionLookup_def parse_json_def
    by (auto simp: io_of_def io_throw_def io_return_def dest!: io_bind_Inr
        split: option.splits jsval.splits)
  then show ?thesis by blast
qed

lemma pip_lookup_prototype:
  assumes "pipVersionEntries w empty_object entries = Inr versionLookup"
    and "\<forall>current \<in> set entries. \<forall>n. js_get w current ''name'' = Inr n \<longrightarrow>
           js_to_string w n \<noteq> Inr ''__proto__''"
  shows "prototype_of versionLookup = ObjectPrototype"
  by (rule pip_entries_prototype [OF assms(1) _ assms(2)]) (simp add: empty_object_def)

subsection \<open>Facts about empty requests and about the defaults of cargo\<close>

lemma cargoCrate_defaults_irrelevant:
  "cargoCrate (w\<lparr>getDefaultDependencies_lookup := f\<rparr>) t = cargoCrate w t"
  by (rule ext)
     (simp add: cargoCrate_def getCommandOutputFromContainer_def spawn_def)

lemma empty_request_without_command:
  "merged_names (getDefaultDependencies_names w ''npm'') l = [] \<Longrightarrow>
     getNpmGlobalPackageInfo w t l tr = (Inr [], tr)"
  "merged_names (getDefaultDependencies_names w (if usePipx then ''pipx'' else ''pip'')) l = [] \<Longrightarrow>
     getPipPackageInfo w t l usePipx tr = (Inr [], tr)"
  "merged_names (getDefaultDependencies_names w ''gem'') l = [] \<Longrightarrow>
     getGemPackageInfo w t l tr = (Inr [], tr)"
  "merged_names (map_option (map entry_name)
                   (getDefaultDependencies_packages w
                      (getLinuxPackageManagerForDistro w (map_of distroInfo ''id''))))
     (Some (map entry_name packageList)) = [] \<Longrightarrow>
     getLinuxPackageInfo w t packageList distroInfo tr = (Inr [], tr)"
  "mergeDefaults (getDefaultDependencies_lookup w ''go'') m = [] \<Longrightarrow>
     getCargoPackageInfo w t m tr
       = (Inr [], tr @ [Log ''(*) Gathering information about cargo packages...''])"
  "mergeDefaults (getDefaultDependencies_lookup w ''git'') m = [] \<Longrightarrow>
     getGitRepositoryInfo w t m tr = (Inr [], tr)"
  "mergeDefaults (getDefaultDependencies_other w otherType) components = [] \<Longrightarrow>
     getOtherDependencyInfo w t components otherType tr
       = (Inr [], tr @ [Log (''(*) Gathering information about '' @ [dquote] @ ''other'' @ [dquote]
                              @ '' components...'')])"
  by (auto simp: merged_names_def getNpmGlobalPackageInfo_def getPipPackageInfo_def
      getGemPackageInfo_def getLinuxPackageInfo_def getCargoPackageInfo_def
      getGitRepositoryInfo_def getOtherDependencyInfo_def io_return_def io_bind_def
      console_log_def List.map_filter_simps for_in_Nil split: option.splits)

lemma go_empty_request_reads_log:
  "mergeDefaults (getDefaultDependencies_lookup w ''go'') m = [] \<Longrightarrow>
   snd (getGoPackageInfo w t m tr)
     = tr @ [Log ''(*) Gathering information about go modules and packages...'',
             Spawn ''docker''
               (runArgs t False
                  @ [t, wrappedCommand ''cat /usr/local/etc/vscode-dev-containers/go.log''])]"
  by (simp add: getGoPackageInfo_def getCommandOutputFromContainer_def spawn_def io_return_def
      io_bind_def console_log_def for_in_Nil split: sum.splits)

section \<open>Claims\<close>

text \<open>
  C10. For every target string passed to the command runner, \<^verbatim>\<open>docker exec\<close> is selected
  if and only if the string begins with the literal prefix \<^verbatim>\<open>vscdc--extract--\<close>; otherwise
  \<^verbatim>\<open>docker run --init --privileged --rm\<close> is used. The test looks at the string alone, so
  an image tag that itself starts with the prefix is run with \<^verbatim>\<open>exec\<close>, as if it were the
  helper container. The theorem gives the one process the runner spawns for any target,
  command and root flag.
\<close>

theorem C10_exec_iff_prefix:
  "(isContainerName t \<longleftrightarrow> prefix ''vscdc--extract--'' t)
   \<and> snd (getCommandOutputFromContainer w t command forceRoot tr) =
       tr @ [Spawn ''docker''
               ((if prefix ''vscdc--extract--'' t
                 then [''exec'']
                 else [''run'', ''--init'', ''--privileged'', ''--rm''])
                @ (if forceRoot then [''-u'', ''root''] else [])
                @ [t, wrappedCommand command])]"
  by (simp add: isContainerName_def js_indexOf_zero_iff getCommandOutputFromContainer_def
      io_bind_def io_return_def spawn_def runArgs_def split: sum.splits)

text \<open>
  C2 (as the source has it). The command runner has no test of its own for either sentinel.
  When \<^verbatim>\<open>asyncUtils.spawn\<close> rejects, which is how a failed process reaches this function,
  the caller receives that very error, whether or not the BEGIN sentinel was printed. When
  \<^verbatim>\<open>spawn\<close> resolves, the caller always receives text: the trimmed substring between the
  two positions. If the END sentinel is absent its position is \<open>-1\<close>, \<^verbatim>\<open>substring\<close> swaps
  its arguments, and the text is the start of the output up to and including the BEGIN
  sentinel (or its first ten characters when BEGIN is absent too).
\<close>

theorem C2_runner_outcome:
  "(spawn_result w tr ''docker'' (runArgs t forceRoot @ [t, wrappedCommand command]) = Inl e \<longrightarrow>
      fst (getCommandOutputFromContainer w t command forceRoot tr) = Inl e)
   \<and> (spawn_result w tr ''docker'' (runArgs t forceRoot @ [t, wrappedCommand command]) = Inr result \<longrightarrow>
        fst (getCommandOutputFromContainer w t command forceRoot tr)
          = Inr (js_trim (filteredResult result))
        \<and> (js_indexOf result ''~~~END~~~'' = - 1 \<longrightarrow>
             filteredResult result = take (nat (js_indexOf result ''~~~BEGIN~~~'' + 11)) result))"
proof -
  have "- 1 \<le> js_indexOf result ''~~~BEGIN~~~''" by (rule js_indexOf_ge)
  then have "js_indexOf result ''~~~END~~~'' = - 1 \<Longrightarrow>
      filteredResult result = take (nat (js_indexOf result ''~~~BEGIN~~~'' + 11)) result"
    by (auto simp: filteredResult_def js_substring_def Let_def min_def max_def)
  then show ?thesis
    by (simp add: getCommandOutputFromContainer_def io_bind_def io_return_def spawn_def)
qed

theorem C2_runner_outcome_witness:
  "fst (getCommandOutputFromContainer (quiet_world (\<lambda>_ _ _. Inl (SpawnError ''exit 1'')))
          ''debian'' ''false'' False []) = Inl (SpawnError ''exit 1'')
   \<and> fst (getCommandOutputFromContainer (quiet_world (\<lambda>_ _ _. Inr ''banner ~~~BEGIN~~~ text''))
            ''debian'' ''echo text; exit 0'' False []) = Inr ''banner ~~~BEGIN~~~''"
proof -
  have 1: "js_indexOf ''banner ~~~BEGIN~~~ text'' ''~~~END~~~'' = - 1" by simp
  have 2: "js_indexOf ''banner ~~~BEGIN~~~ text'' ''~~~BEGIN~~~'' = 7" by simp
  show ?thesis
    using C2_runner_outcome [of "quiet_world (\<lambda>_ _ _. Inl (SpawnError ''exit 1''))" "[]"
        "''debian''" False "''false''" "SpawnError ''exit 1''"]
      C2_runner_outcome [of "quiet_world (\<lambda>_ _ _. Inr ''banner ~~~BEGIN~~~ text'')" "[]"
        "''debian''" False "''echo text; exit 0''" _ "''banner ~~~BEGIN~~~ text''"]
    by (simp add: quiet_world_def 1 2 js_trim_def js_whitespace_def)
qed

text \<open>The claim as stated fails: a command that prints the BEGIN sentinel and then ends the
  shell with status 0 (\<^verbatim>\<open>exit 0\<close>) leaves no END sentinel, and the caller receives the
  text \<^verbatim>\<open>~~~BEGIN~~~\<close>, not an error.\<close>

theorem C2_missing_end_is_not_an_error:
  "js_indexOf (''~~~BEGIN~~~'' @ [newline]) ''~~~END~~~'' = - 1
   \<and> fst (getCommandOutputFromContainer (quiet_world (\<lambda>_ _ _. Inr (''~~~BEGIN~~~'' @ [newline])))
            ''debian'' ''exit 0'' False []) = Inr ''~~~BEGIN~~~''"
  by (simp add: getCommandOutputFromContainer_def io_bind_def io_return_def spawn_def
      quiet_world_def filteredResult_def js_substring_def js_trim_def js_whitespace_def newline_def)

text \<open>
  C8 (as the source has it). For every line of the os-release text: a line with exactly one
  \<^verbatim>\<open>=\<close> yields one entry. Its key is the text before the \<^verbatim>\<open>=\<close>, trimmed and passed
  through \<^verbatim>\<open>snakeCaseToCamelCase\<close>; its value is the text after the \<^verbatim>\<open>=\<close> with every
  double quote removed, wherever it stands, and then trimmed. A later line with the same key
  replaces the entry. A line with no \<^verbatim>\<open>=\<close> or with more than one leaves the mapping as it
  was, and no line can make the reader fail: once the command has answered, the result is
  the mapping built from its lines.
\<close>

theorem C8_distro_line:
  "(count_list infoLine (CHR ''='') = 1 \<longrightarrow>
      distroInfoLine w info infoLine =
        lookup_set info
          (snakeCaseToCamelCase w (js_trim (takeWhile (\<lambda>c. c \<noteq> CHR ''='') infoLine)))
          (js_trim (filter (\<lambda>c. c \<noteq> dquote) (tl (dropWhile (\<lambda>c. c \<noteq> CHR ''='') infoLine)))))
   \<and> (count_list infoLine (CHR ''='') \<noteq> 1 \<longrightarrow> distroInfoLine w info infoLine = info)
   \<and> map_of (lookup_set info k v) k' = (if k' = k then Some v else map_of info k')
   \<and> (spawn_result w tr ''docker'' (runArgs t True @ [t, wrappedCommand ''cat /etc/os-release''])
         = Inr result \<longrightarrow>
       fst (getLinuxDistroInfo w t tr)
         = Inr (foldl (distroInfoLine w) [] (js_split newline (js_trim (filteredResult result)))))"
proof (intro conjI impI)
  assume "count_list infoLine (CHR ''='') = 1"
  then show "distroInfoLine w info infoLine =
        lookup_set info
          (snakeCaseToCamelCase w (js_trim (takeWhile (\<lambda>c. c \<noteq> CHR ''='') infoLine)))
          (js_trim (filter (\<lambda>c. c \<noteq> dquote) (tl (dropWhile (\<lambda>c. c \<noteq> CHR ''='') infoLine))))"
    by (simp add: distroInfoLine_def js_split_one_sep js_replace_all_char_Nil)
next
  assume "count_list infoLine (CHR ''='') \<noteq> 1"
  then show "distroInfoLine w info infoLine = info"
    by (simp add: distroInfoLine_def length_js_split)
next
  show "map_of (lookup_set info k v) k' = (if k' = k then Some v else map_of info k')"
    by (rule map_of_lookup_set)
next
  assume "spawn_result w tr ''docker'' (runArgs t True @ [t, wrappedCommand ''cat /etc/os-release''])
            = Inr result"
  then show "fst (getLinuxDistroInfo w t tr)
        = Inr (foldl (distroInfoLine w) [] (js_split newline (js_trim (filteredResult result))))"
    by (simp add: getLinuxDistroInfo_def io_bind_def io_return_def runner_result)
qed

theorem C8_distro_line_witness:
  "distroInfoLine (quiet_world (\<lambda>_ _ _. Inr [])) [] (''ID= '' @ [dquote] @ ''debian'' @ [dquote])
     = [(''ID'', ''debian'')]
   \<and> distroInfoLine (quiet_world (\<lambda>_ _ _. Inr [])) [(''ID'', ''debian'')] ''A=B=C''
       = [(''ID'', ''debian'')]
   \<and> fst (getLinuxDistroInfo (quiet_world (\<lambda>_ _ _. Inr ''~~~BEGIN~~~ ID=debian ~~~END~~~''))
            ''debian'' []) = Inr [(''ID'', ''debian'')]"
proof -
  have 1: "distroInfoLine (quiet_world (\<lambda>_ _ _. Inr [])) []
             (''ID= '' @ [dquote] @ ''debian'' @ [dquote]) = [(''ID'', ''debian'')]"
    using C8_distro_line [of "''ID= '' @ [dquote] @ ''debian'' @ [dquote]"
        "quiet_world (\<lambda>_ _ _. Inr [])" "[]"]
    by (simp add: quiet_world_def dquote_def js_trim_def js_whitespace_def)
  have 2: "distroInfoLine (quiet_world (\<lambda>_ _ _. Inr [])) [(''ID'', ''debian'')] ''A=B=C''
             = [(''ID'', ''debian'')]"
    using C8_distro_line [of "''A=B=C''" "quiet_world (\<lambda>_ _ _. Inr [])" "[(''ID'', ''debian'')]"]
    by simp
  have 3: "fst (getLinuxDistroInfo (quiet_world (\<lambda>_ _ _. Inr ''~~~BEGIN~~~ ID=debian ~~~END~~~''))
                  ''debian'' [])
             = Inr (foldl (distroInfoLine (quiet_world (\<lambda>_ _ _. Inr ''~~~BEGIN~~~ ID=debian ~~~END~~~'')))
                      [] (js_split newline (js_trim (filteredResult ''~~~BEGIN~~~ ID=debian ~~~END~~~''))))"
    using C8_distro_line [of _ "quiet_world (\<lambda>_ _ _. Inr ''~~~BEGIN~~~ ID=debian ~~~END~~~'')" _ _ _ _
        "[]" "''debian''" "''~~~BEGIN~~~ ID=debian ~~~END~~~''"]
    by (simp add: quiet_world_def)
  have 4: "js_trim (filteredResult ''~~~BEGIN~~~ ID=debian ~~~END~~~'') = ''ID=debian''"
    by (simp add: filteredResult_def js_substring_def js_trim_def js_whitespace_def)
  have 5: "distroInfoLine (quiet_world (\<lambda>_ _ _. Inr ''~~~BEGIN~~~ ID=debian ~~~END~~~'')) []
             ''ID=debian'' = [(''ID'', ''debian'')]"
    using C8_distro_line [of "''ID=debian''"
        "quiet_world (\<lambda>_ _ _. Inr ''~~~BEGIN~~~ ID=debian ~~~END~~~'')" "[]"]
    by (simp add: quiet_world_def dquote_def js_trim_def js_whitespace_def)
  show ?thesis
    using 1 2 3 4 5 by (simp add: newline_def dquote_def)
qed

text \<open>The claim as stated fails on a value with a quote inside it: the line \<^verbatim>\<open>NAME=a"b\<close>
  has one \<^verbatim>\<open>=\<close>, stripping surrounding quotes and trimming leaves \<^verbatim>\<open>a"b\<close>, and the source
  stores \<^verbatim>\<open>ab\<close>.\<close>

theorem C8_inner_quote_is_removed:
  "count_list (''NAME=a'' @ [dquote] @ ''b'') (CHR ''='') = 1
   \<and> spec_distro_value (''a'' @ [dquote] @ ''b'') = ''a'' @ [dquote] @ ''b''
   \<and> map_of (distroInfoLine (quiet_world (\<lambda>_ _ _. Inr [])) [] (''NAME=a'' @ [dquote] @ ''b''))
        ''NAME'' = Some ''ab''"
  by (simp add: distroInfoLine_def quiet_world_def dquote_def js_trim_def js_whitespace_def
      js_replace_all_char_def spec_distro_value_def spec_strip_surrounding_quotes_def)

text \<open>
  C7. For a line of the version list that the line pattern matches with a name and a
  version, the pool pattern being the configured template with \<^verbatim>\<open>${PACKAGE}\<close> and
  \<^verbatim>\<open>${VERSION}\<close> replaced by the escaped name and version:
  \<^item> when the pool pattern finds nothing in the URI output and there is no fallback URL
    for the package, the warning "No URI found" is logged, and then an error is thrown if
    and only if the settings of that package have \<^verbatim>\<open>cgIgnore: false\<close>; with \<^verbatim>\<open>cgIgnore\<close> true
    or not given, the record is emitted with \<^verbatim>\<open>cgIgnore\<close> true and without a pool URL or
    pool key;
  \<^item> when the pool pattern finds nothing and there is a fallback URL, the record carries
    it and nothing is thrown or logged, whatever \<^verbatim>\<open>cgIgnore\<close> is;
  \<^item> when the pool pattern matches, its first group is the pool URL and the fallback is
    not consulted: if that group is empty or took no part in the match, nothing is
    logged, and again the error is thrown exactly when \<^verbatim>\<open>cgIgnore\<close> is false;
  \<^item> a pool pattern the engine rejects is an error.
  The settings of a package are those of the last entry of that name in the merged list
  (the defaults of the package manager, then the caller's entries). The escaping puts a
  backslash before every \<^verbatim>\<open>+\<close> and \<^verbatim>\<open>.\<close> and, in the version, writes \<^verbatim>\<open>%3a\<close> for every
  colon. The extractor logs, runs the list command and the URI command for the merged
  list, and handles the lines of the first output in order against the second output; the
  first line that throws ends the extraction with its error.
\<close>

theorem C7_no_pool_url:
  assumes line: "js_trim line \<noteq> []"
    and matched: "regexp_exec w (lineRegEx params) [] (js_trim line) = Inr (Some groups)"
    and g1: "group groups 1 = Some packageName"
    and g2: "group groups 2 = Some ver"
  shows "(regexp_exec w (poolUriPattern params packageName ver) ''m'' packageUriCommandOutput
            = Inr None
          \<and> \<not> truthy (getFallbackPoolUrl w packageName) \<longrightarrow>
          linuxPackageVersionLine w params settings packageUriCommandOutput line tr =
            (if Option.bind (map_of settings packageName) dep_cgIgnore = Some False
             then Inl (Error ''(!) No pool URL found to register package!'')
             else Inr (Some \<lparr> name = packageName, version = JStr ver, url = None, path = None,
                               annotation = Option.bind (map_of settings packageName) dep_annotation,
                               poolUrl = None, poolKeyUrl = None, commitHash = None,
                               cgIgnore = Some True,
                               markdownIgnore =
                                 Option.bind (map_of settings packageName) dep_markdownIgnore \<rparr>),
             tr @ [Log (''(!) No URI found for '' @ packageName @ '' '' @ ver @ ''.'')]))
     \<and> (regexp_exec w (poolUriPattern params packageName ver) ''m'' packageUriCommandOutput
            = Inr None
          \<and> truthy (getFallbackPoolUrl w packageName) \<longrightarrow>
          linuxPackageVersionLine w params settings packageUriCommandOutput line tr =
            (Inr (Some \<lparr> name = packageName, version = JStr ver, url = None, path = None,
                          annotation = Option.bind (map_of settings packageName) dep_annotation,
                          poolUrl = getFallbackPoolUrl w packageName,
                          poolKeyUrl = Option.bind (getFallbackPoolUrl w packageName)
                                         (getPoolKeyForPoolUrl w),
                          commitHash = None,
                          cgIgnore = Some (Option.bind (map_of settings packageName) dep_cgIgnore
                                             \<noteq> Some False),
                          markdownIgnore =
                            Option.bind (map_of settings packageName) dep_markdownIgnore \<rparr>),
             tr))
     \<and> (regexp_exec w (poolUriPattern params packageName ver) ''m'' packageUriCommandOutput
            = Inr (Some found) \<longrightarrow>
          linuxPackageVersionLine w params settings packageUriCommandOutput line tr =
            (if \<not> truthy (group found 1)
                \<and> Option.bind (map_of settings packageName) dep_cgIgnore = Some False
             then Inl (Error ''(!) No pool URL found to register package!'')
             else Inr (Some \<lparr> name = packageName, version = JStr ver, url = None, path = None,
                               annotation = Option.bind (map_of settings packageName) dep_annotation,
                               poolUrl = group found 1,
                               poolKeyUrl = (if truthy (group found 1)
                                             then Option.bind (group found 1) (getPoolKeyForPoolUrl w)
                                             else None),
                               commitHash = None,
                               cgIgnore = Some (Option.bind (map_of settings packageName) dep_cgIgnore
                                                  \<noteq> Some False),
                               markdownIgnore =
                                 Option.bind (map_of settings packageName) dep_markdownIgnore \<rparr>),
             tr))
     \<and> (regexp_exec w (poolUriPattern params packageName ver) ''m'' packageUriCommandOutput
            = Inl rejected \<longrightarrow>
          linuxPackageVersionLine w params settings packageUriCommandOutput line tr
            = (Inl rejected, tr))
     \<and> map_of (linuxSettings merged) packageName
          = map_option entry_settings (find (\<lambda>entry. entry_name entry = packageName) (rev merged))
     \<and> (poolUriMatchRegEx params = pre @ ''${PACKAGE}'' @ mid @ ''${VERSION}'' @ post
          \<and> CHR ''$'' \<notin> set pre \<and> CHR ''$'' \<notin> set mid
          \<and> CHR ''$'' \<notin> set packageName \<and> CHR ''$'' \<notin> set ver \<longrightarrow>
          poolUriPattern params packageName ver
            = pre @ spec_escaped_package packageName @ mid @ spec_escaped_version ver @ post)
     \<and> ((case getDefaultDependencies_packages w
                   (getLinuxPackageManagerForDistro w (map_of distroInfo ''id'')) of
              None \<Rightarrow> [] | Some d \<Rightarrow> d) @ requested = merged
          \<and> merged \<noteq> []
          \<and> getPackageInfoExtractorParams w
               (getLinuxPackageManagerForDistro w (map_of distroInfo ''id'')) = config \<longrightarrow>
          getLinuxPackageInfo w t requested distroInfo tr =
            (case getCommandOutputFromContainer w t
                    (listCommand config @ packageListCommandPart merged
                       @ '' || echo '' @ [squote] @ ''Some packages were not found.'' @ [squote])
                    True (tr @ [Log ''(*) Gathering information about Linux package versions...'']) of
               (Inl e, tr1) \<Rightarrow> (Inl e, tr1)
             | (Inr versions, tr1) \<Rightarrow>
                 (case getCommandOutputFromContainer w t
                         (getUriCommand config @ packageListCommandPart merged
                            @ '' || echo '' @ [squote] @ ''Some packages were not found.'' @ [squote])
                         True
                         (tr1 @ [Log ''(*) Gathering information about Linux package download URLs...'']) of
                    (Inl e, tr2) \<Rightarrow> (Inl e, tr2)
                  | (Inr uris, tr2) \<Rightarrow>
                      (case io_map (linuxPackageVersionLine w config (linuxSettings merged) uris)
                              (js_split newline versions) tr2 of
                         (Inl e, tr3) \<Rightarrow> (Inl e, tr3)
                       | (Inr records, tr3) \<Rightarrow> (Inr (List.map_filter id records), tr3)))))
     \<and> (io_map body earlier tr1 = (Inr results, tr2) \<and> body current tr2 = (Inl thrown, tr3) \<longrightarrow>
          io_map body (earlier @ current # later) tr1 = (Inl thrown, tr3))"
proof -
  note l = linux_line_matched [OF line matched g1 g2, where settings = settings
      and uris = packageUriCommandOutput and tr = tr]
  note p = pool_url_cases [where w = w and uris = packageUriCommandOutput and params = params
      and n = packageName and v = ver and tr = tr]
  show ?thesis
  proof (intro conjI impI)
    assume "regexp_exec w (poolUriPattern params packageName ver) ''m'' packageUriCommandOutput
              = Inr None \<and> \<not> truthy (getFallbackPoolUrl w packageName)"
    then show "linuxPackageVersionLine w params settings packageUriCommandOutput line tr =
            (if Option.bind (map_of settings packageName) dep_cgIgnore = Some False
             then Inl (Error ''(!) No pool URL found to register package!'')
             else Inr (Some \<lparr> name = packageName, version = JStr ver, url = None, path = None,
                               annotation = Option.bind (map_of settings packageName) dep_annotation,
                               poolUrl = None, poolKeyUrl = None, commitHash = None,
                               cgIgnore = Some True,
                               markdownIgnore =
                                 Option.bind (map_of settings packageName) dep_markdownIgnore \<rparr>),
             tr @ [Log (''(!) No URI found for '' @ packageName @ '' '' @ ver @ ''.'')])"
      by (simp add: l p)
  next
    assume "regexp_exec w (poolUriPattern params packageName ver) ''m'' packageUriCommandOutput
              = Inr None \<and> truthy (getFallbackPoolUrl w packageName)"
    then show "linuxPackageVersionLine w params settings packageUriCommandOutput line tr =
            (Inr (Some \<lparr> name = packageName, version = JStr ver, url = None, path = None,
                          annotation = Option.bind (map_of settings packageName) dep_annotation,
                          poolUrl = getFallbackPoolUrl w packageName,
                          poolKeyUrl = Option.bind (getFallbackPoolUrl w packageName)
                                         (getPoolKeyForPoolUrl w),
                          commitHash = None,
                          cgIgnore = Some (Option.bind (map_of settings packageName) dep_cgIgnore
                                             \<noteq> Some False),
                          markdownIgnore =
                            Option.bind (map_of settings packageName) dep_markdownIgnore \<rparr>),
             tr)"
      by (cases "getFallbackPoolUrl w packageName") (simp_all add: l p)
  next
    assume "regexp_exec w (poolUriPattern params packageName ver) ''m'' packageUriCommandOutput
              = Inr (Some found)"
    then show "linuxPackageVersionLine w params settings packageUriCommandOutput line tr =
            (if \<not> truthy (group found 1)
                \<and> Option.bind (map_of settings packageName) dep_cgIgnore = Some False
             then Inl (Error ''(!) No pool URL found to register package!'')
             else Inr (Some \<lparr> name = packageName, version = JStr ver, url = None, path = None,
                               annotation = Option.bind (map_of settings packageName) dep_annotation,
                               poolUrl = group found 1,
                               poolKeyUrl = (if truthy (group found 1)
                                             then Option.bind (group found 1) (getPoolKeyForPoolUrl w)
                                             else None),
                               commitHash = None,
                               cgIgnore = Some (Option.bind (map_of settings packageName) dep_cgIgnore
                                                  \<noteq> Some False),
                               markdownIgnore =
                                 Option.bind (map_of settings packageName) dep_markdownIgnore \<rparr>),
             tr)"
      by (cases "group found 1") (simp_all add: l p)
  next
    assume "regexp_exec w (poolUriPattern params packageName ver) ''m'' packageUriCommandOutput
              = Inl rejected"
    then show "linuxPackageVersionLine w params settings packageUriCommandOutput line tr
                 = (Inl rejected, tr)"
      by (simp add: l p)
  next
    show "map_of (linuxSettings merged) packageName
            = map_option entry_settings (find (\<lambda>entry. entry_name entry = packageName) (rev merged))"
      by (rule map_of_linuxSettings)
  next
    assume "poolUriMatchRegEx params = pre @ ''${PACKAGE}'' @ mid @ ''${VERSION}'' @ post
          \<and> CHR ''$'' \<notin> set pre \<and> CHR ''$'' \<notin> set mid
          \<and> CHR ''$'' \<notin> set packageName \<and> CHR ''$'' \<notin> set ver"
    then show "poolUriPattern params packageName ver
            = pre @ spec_escaped_package packageName @ mid @ spec_escaped_version ver @ post"
      by (simp add: poolUriPattern_spec)
  next
    assume a: "(case getDefaultDependencies_packages w
                   (getLinuxPackageManagerForDistro w (map_of distroInfo ''id'')) of
              None \<Rightarrow> [] | Some d \<Rightarrow> d) @ requested = merged
          \<and> merged \<noteq> []
          \<and> getPackageInfoExtractorParams w
               (getLinuxPackageManagerForDistro w (map_of distroInfo ''id'')) = config"
    show "getLinuxPackageInfo w t requested distroInfo tr =
            (case getCommandOutputFromContainer w t
                    (listCommand config @ packageListCommandPart merged
                       @ '' || echo '' @ [squote] @ ''Some packages were not found.'' @ [squote])
                    True (tr @ [Log ''(*) Gathering information about Linux package versions...'']) of
               (Inl e, tr1) \<Rightarrow> (Inl e, tr1)
             | (Inr versions, tr1) \<Rightarrow>
                 (case getCommandOutputFromContainer w t
                         (getUriCommand config @ packageListCommandPart merged
                            @ '' || echo '' @ [squote] @ ''Some packages were not found.'' @ [squote])
                         True
                         (tr1 @ [Log ''(*) Gathering information about Linux package download URLs...'']) of
                    (Inl e, tr2) \<Rightarrow> (Inl e, tr2)
                  | (Inr uris, tr2) \<Rightarrow>
                      (case io_map (linuxPackageVersionLine w config (linuxSettings merged) uris)
                              (js_split newline versions) tr2 of
                         (Inl e, tr3) \<Rightarrow> (Inl e, tr3)
                       | (Inr records, tr3) \<Rightarrow> (Inr (List.map_filter id records), tr3))))"
      by (rule linux_extractor [OF a [THEN conjunct1] a [THEN conjunct2, THEN conjunct1]
            a [THEN conjunct2, THEN conjunct2]])
  next
    assume a: "io_map body earlier tr1 = (Inr results, tr2) \<and> body current tr2 = (Inl thrown, tr3)"
    show "io_map body (earlier @ current # later) tr1 = (Inl thrown, tr3)"
      by (rule io_map_throws_at [OF a [THEN conjunct1] a [THEN conjunct2]])
  qed
qed

theorem C7_no_pool_url_witness:
  "linuxPackageVersionLine linux_world linux_params
     (linuxSettings
        [PackageSettings \<lparr> dep_name = ''yarn'', dep_annotation = None,
                            dep_cgIgnore = Some False, dep_markdownIgnore = None \<rparr>])
     [] ''yarn 1.22.5-1'' []
   = (Inl (Error ''(!) No pool URL found to register package!''),
      [Log ''(!) No URI found for yarn 1.22.5-1.''])
   \<and> linuxPackageVersionLine linux_world linux_params (linuxSettings [PackageName ''yarn''])
       [] ''yarn 1.22.5-1'' []
     = (Inr (Some ((packageInfo ''yarn'' (JStr ''1.22.5-1'')) \<lparr> cgIgnore := Some True \<rparr>)),
        [Log ''(!) No URI found for yarn 1.22.5-1.''])
   \<and> poolUriPattern linux_params ''g++'' ''4:8.3.0-1''
     = ''(.+)/pool/g'' @ [backslash] @ ''+'' @ [backslash] @ ''+_4%3a8'' @ [backslash] @ ''.3''
         @ [backslash] @ ''.0-1''
   \<and> getLinuxPackageInfo linux_world ''img'' [PackageName ''yarn'', PackageName ''g++'']
       [(''id'', ''debian'')] []
     = (Inr [(packageInfo ''yarn'' (JStr ''1.22.5-1'')) \<lparr> cgIgnore := Some True \<rparr>,
             (packageInfo ''g++'' (JStr ''4:8.3.0-1''))
               \<lparr> poolUrl := Some ''http://deb.debian.org/debian'', cgIgnore := Some True \<rparr>],
        [Log ''(*) Gathering information about Linux package versions...'',
         Spawn ''docker''
           [''run'', ''--init'', ''--privileged'', ''--rm'', ''-u'', ''root'', ''img'',
            wrappedCommand (''list yarn g++ || echo '' @ [squote] @ ''Some packages were not found.''
                              @ [squote])],
         Log ''(*) Gathering information about Linux package download URLs...'',
         Spawn ''docker''
           [''run'', ''--init'', ''--privileged'', ''--rm'', ''-u'', ''root'', ''img'',
            wrappedCommand (''uris yarn g++ || echo '' @ [squote] @ ''Some packages were not found.''
                              @ [squote])],
         Log ''(!) No URI found for yarn 1.22.5-1.''])
   \<and> fst (getLinuxPackageInfo linux_world ''img''
            [PackageSettings \<lparr> dep_name = ''yarn'', dep_annotation = None,
                                dep_cgIgnore = Some False, dep_markdownIgnore = None \<rparr>,
             PackageName ''g++'']
            [(''id'', ''debian'')] [])
     = Inl (Error ''(!) No pool URL found to register package!'')"
proof -
  have 1: "js_trim ''yarn 1.22.5-1'' \<noteq> []"
    by (simp add: js_trim_def js_whitespace_def)
  have 2: "regexp_exec linux_world (lineRegEx linux_params) [] (js_trim ''yarn 1.22.5-1'')
             = Inr (Some [Some ''yarn 1.22.5-1'', Some ''yarn'', Some ''1.22.5-1''])"
    by code_simp
  have 3: "group [Some ''yarn 1.22.5-1'', Some ''yarn'', Some ''1.22.5-1''] 1 = Some ''yarn''"
    by (simp add: group_def)
  have 4: "group [Some ''yarn 1.22.5-1'', Some ''yarn'', Some ''1.22.5-1''] 2 = Some ''1.22.5-1''"
    by (simp add: group_def)
  note inst = C7_no_pool_url [OF 1 2 3 4]
  have nouri: "regexp_exec linux_world (poolUriPattern linux_params ''yarn'' ''1.22.5-1'') ''m'' []
                 = Inr None \<and> \<not> truthy (getFallbackPoolUrl linux_world ''yarn'')"
    by code_simp
  note line = mp [OF inst [THEN conjunct1] nouri]
  have a: "linuxPackageVersionLine linux_world linux_params
     (linuxSettings
        [PackageSettings \<lparr> dep_name = ''yarn'', dep_annotation = None,
                            dep_cgIgnore = Some False, dep_markdownIgnore = None \<rparr>])
     [] ''yarn 1.22.5-1'' []
   = (Inl (Error ''(!) No pool URL found to register package!''),
      [Log ''(!) No URI found for yarn 1.22.5-1.''])"
    unfolding line by code_simp
  have b: "linuxPackageVersionLine linux_world linux_params (linuxSettings [PackageName ''yarn''])
       [] ''yarn 1.22.5-1'' []
     = (Inr (Some ((packageInfo ''yarn'' (JStr ''1.22.5-1'')) \<lparr> cgIgnore := Some True \<rparr>)),
        [Log ''(!) No URI found for yarn 1.22.5-1.''])"
    unfolding line by code_simp
  have template: "poolUriMatchRegEx linux_params = ''(.+)/pool/'' @ ''${PACKAGE}'' @ ''_'' @ ''${VERSION}'' @ []
          \<and> CHR ''$'' \<notin> set ''(.+)/pool/'' \<and> CHR ''$'' \<notin> set ''_''
          \<and> CHR ''$'' \<notin> set ''g++'' \<and> CHR ''$'' \<notin> set ''4:8.3.0-1''"
    by (simp add: linux_params_def)
  have 1: "js_trim ''g++ 4:8.3.0-1'' \<noteq> []"
    by (simp add: js_trim_def js_whitespace_def)
  have 2: "regexp_exec linux_world (lineRegEx linux_params) [] (js_trim ''g++ 4:8.3.0-1'')
             = Inr (Some [Some ''g++ 4:8.3.0-1'', Some ''g++'', Some ''4:8.3.0-1''])"
    by code_simp
  have 3: "group [Some ''g++ 4:8.3.0-1'', Some ''g++'', Some ''4:8.3.0-1''] 1 = Some ''g++''"
    by (simp add: group_def)
  have 4: "group [Some ''g++ 4:8.3.0-1'', Some ''g++'', Some ''4:8.3.0-1''] 2 = Some ''4:8.3.0-1''"
    by (simp add: group_def)
  note inst2 = C7_no_pool_url [OF 1 2 3 4]
  note pattern = mp [OF inst2 [THEN conjunct2, THEN conjunct2, THEN conjunct2, THEN conjunct2,
        THEN conjunct2, THEN conjunct1] template]
  have c: "poolUriPattern linux_params ''g++'' ''4:8.3.0-1''
     = ''(.+)/pool/g'' @ [backslash] @ ''+'' @ [backslash] @ ''+_4%3a8'' @ [backslash] @ ''.3''
         @ [backslash] @ ''.0-1''"
    unfolding pattern by code_simp
  have m1: "(case getDefaultDependencies_packages linux_world
                   (getLinuxPackageManagerForDistro linux_world (map_of [(''id'', ''debian'')] ''id'')) of
              None \<Rightarrow> [] | Some d \<Rightarrow> d) @ [PackageName ''yarn'', PackageName ''g++'']
            = [PackageName ''yarn'', PackageName ''g++'']
          \<and> [PackageName ''yarn'', PackageName ''g++''] \<noteq> []
          \<and> getPackageInfoExtractorParams linux_world
               (getLinuxPackageManagerForDistro linux_world (map_of [(''id'', ''debian'')] ''id''))
             = linux_params"
    by (simp add: linux_world_def quiet_world_def)
  note run1 = mp [OF inst [THEN conjunct2, THEN conjunct2, THEN conjunct2, THEN conjunct2,
        THEN conjunct2, THEN conjunct2, THEN conjunct1] m1]
  have d: "getLinuxPackageInfo linux_world ''img'' [PackageName ''yarn'', PackageName ''g++'']
       [(''id'', ''debian'')] []
     = (Inr [(packageInfo ''yarn'' (JStr ''1.22.5-1'')) \<lparr> cgIgnore := Some True \<rparr>,
             (packageInfo ''g++'' (JStr ''4:8.3.0-1''))
               \<lparr> poolUrl := Some ''http://deb.debian.org/debian'', cgIgnore := Some True \<rparr>],
        [Log ''(*) Gathering information about Linux package versions...'',
         Spawn ''docker''
           [''run'', ''--init'', ''--privileged'', ''--rm'', ''-u'', ''root'', ''img'',
            wrappedCommand (''list yarn g++ || echo '' @ [squote] @ ''Some packages were not found.''
                              @ [squote])],
         Log ''(*) Gathering information about Linux package download URLs...'',
         Spawn ''docker''
           [''run'', ''--init'', ''--privileged'', ''--rm'', ''-u'', ''root'', ''img'',
            wrappedCommand (''uris yarn g++ || echo '' @ [squote] @ ''Some packages were not found.''
                              @ [squote])],
         Log ''(!) No URI found for yarn 1.22.5-1.''])"
    unfolding run1 by code_simp
  have m2: "(case getDefaultDependencies_packages linux_world
                   (getLinuxPackageManagerForDistro linux_world (map_of [(''id'', ''debian'')] ''id'')) of
              None \<Rightarrow> [] | Some d \<Rightarrow> d)
            @ [PackageSettings \<lparr> dep_name = ''yarn'', dep_annotation = None,
                                  dep_cgIgnore = Some False, dep_markdownIgnore = None \<rparr>,
               PackageName ''g++'']
            = [PackageSettings \<lparr> dep_name = ''yarn'', dep_annotation = None,
                                  dep_cgIgnore = Some False, dep_markdownIgnore = None \<rparr>,
               PackageName ''g++'']
          \<and> [PackageSettings \<lparr> dep_name = ''yarn'', dep_annotation = None,
                                  dep_cgIgnore = Some False, dep_markdownIgnore = None \<rparr>,
               PackageName ''g++''] \<noteq> []
          \<and> getPackageInfoExtractorParams linux_world
               (getLinuxPackageManagerForDistro linux_world (map_of [(''id'', ''debian'')] ''id''))
             = linux_params"
    by (simp add: linux_world_def quiet_world_def)
  note run2 = mp [OF inst [THEN conjunct2, THEN conjunct2, THEN conjunct2, THEN conjunct2,
        THEN conjunct2, THEN conjunct2, THEN conjunct1] m2]
  have e: "fst (getLinuxPackageInfo linux_world ''img''
            [PackageSettings \<lparr> dep_name = ''yarn'', dep_annotation = None,
                                dep_cgIgnore = Some False, dep_markdownIgnore = None \<rparr>,
             PackageName ''g++'']
            [(''id'', ''debian'')] [])
     = Inl (Error ''(!) No pool URL found to register package!'')"
    unfolding run2 by code_simp
  show ?thesis using a b c d e by (simp only: simp_thms)
qed




text \<open>
  C5 (as the source has it). A go entry with a probe command that is not empty: the probe is
  run and its output, as the command runner returns it, is the version. A go entry without
  one: no command is run; the version is the first group of the pattern built from the
  name, matched against the installer log, and the string \<^verbatim>\<open>latest\<close> when the pattern does
  not match (a pattern the engine rejects is an error). A cargo entry, with or without a
  probe: the command is the probe when there is one and \<^verbatim>\<open><name> --version\<close> otherwise, and
  in both cases the version is the first semantic-version-shaped part of the output, a
  missing match being fatal. "First" is the leftmost: no semantic-version-shaped part of the
  output starts earlier, and the match is missing exactly when the output has no such part.
  The entries are those of the merged request, in the order of \<^verbatim>\<open>for ... in\<close>: the go
  extractor logs, reads the installer log with
  \<^verbatim>\<open>cat /usr/local/etc/vscode-dev-containers/go.log\<close> (a failure of that command ends the
  extraction) and handles each entry against the text that command returned; the cargo
  extractor logs and handles each entry. In both loops the first entry that throws ends
  the loop with its error, and otherwise the records are those of the entries, in order.
\<close>

theorem C5_versions:
  "(c \<noteq> [] \<longrightarrow>
      goPackage w t installLog (n, Some c) tr =
        (case getCommandOutputFromContainer w t c False tr of
           (Inl e, tr') \<Rightarrow> (Inl e, tr')
         | (Inr out, tr') \<Rightarrow> (Inr (packageInfo n (JStr out)), tr')))
   \<and> (\<not> truthy cmd \<longrightarrow>
        goPackage w t installLog (n, cmd) tr =
          (case regexp_exec w (goPattern n) [] installLog of
             Inl e \<Rightarrow> Inl e
           | Inr None \<Rightarrow> Inr (packageInfo n (JStr ''latest''))
           | Inr (Some groups) \<Rightarrow> Inr (packageInfo n (js_of_string_option (group groups 1))),
           tr))
   \<and> cargoCrate w t (n, cmd) tr =
        (case getCommandOutputFromContainer w t
                (case cmd of None \<Rightarrow> n @ '' --version''
                           | Some c \<Rightarrow> if c \<noteq> [] then c else n @ '' --version'')
                False (tr @ [Log (''(*) Getting version for '' @ n @ ''...'')]) of
           (Inl e, tr') \<Rightarrow> (Inl e, tr')
         | (Inr out, tr') \<Rightarrow>
             (case semverExec out of
                None \<Rightarrow> Inl (Error (''Could not extract information about crate '' @ n))
              | Some v \<Rightarrow> Inr (packageInfo n (JStr v)),
              tr'))
   \<and> (semverExec s = Some v \<longrightarrow>
        (\<exists>pre post. s = pre @ v @ post \<and> semver_shaped v
           \<and> (\<forall>pre' v' post'. s = pre' @ v' @ post' \<and> semver_shaped v' \<longrightarrow> length pre \<le> length pre')))
   \<and> (semverExec s = None \<longleftrightarrow> \<not> (\<exists>pre v post. s = pre @ v @ post \<and> semver_shaped v))
   \<and> getGoPackageInfo w t requested tr =
        (case getCommandOutputFromContainer w t
                ''cat /usr/local/etc/vscode-dev-containers/go.log'' False
                (tr @ [Log ''(*) Gathering information about go modules and packages...'']) of
           (Inl e, tr') \<Rightarrow> (Inl e, tr')
         | (Inr logText, tr') \<Rightarrow>
             io_map (goPackage w t logText)
               (for_in (mergeDefaults (getDefaultDependencies_lookup w ''go'') requested)) tr')
   \<and> getCargoPackageInfo w t requested tr =
        io_map (cargoCrate w t)
          (for_in (mergeDefaults (getDefaultDependencies_lookup w ''go'') requested))
          (tr @ [Log ''(*) Gathering information about cargo packages...''])
   \<and> io_map body [] tr = (Inr [], tr)
   \<and> io_map body (entry # entries) tr =
        (case body entry tr of
           (Inl e, tr1) \<Rightarrow> (Inl e, tr1)
         | (Inr r, tr1) \<Rightarrow>
             (case io_map body entries tr1 of
                (Inl e, tr2) \<Rightarrow> (Inl e, tr2)
              | (Inr rs, tr2) \<Rightarrow> (Inr (r # rs), tr2)))"
proof -
  have go: "getGoPackageInfo w t requested tr =
        (case getCommandOutputFromContainer w t
                ''cat /usr/local/etc/vscode-dev-containers/go.log'' False
                (tr @ [Log ''(*) Gathering information about go modules and packages...'']) of
           (Inl e, tr') \<Rightarrow> (Inl e, tr')
         | (Inr logText, tr') \<Rightarrow>
             io_map (goPackage w t logText)
               (for_in (mergeDefaults (getDefaultDependencies_lookup w ''go'') requested)) tr')"
    by (simp add: getGoPackageInfo_def io_bind_def console_log_def
        split: prod.splits sum.splits)
  have cargo: "getCargoPackageInfo w t requested tr =
        io_map (cargoCrate w t)
          (for_in (mergeDefaults (getDefaultDependencies_lookup w ''go'') requested))
          (tr @ [Log ''(*) Gathering information about cargo packages...''])"
    by (simp add: getCargoPackageInfo_def io_bind_def console_log_def)
  show ?thesis
    using goPackage_probe [of c w t installLog n tr] goPackage_no_probe [of cmd w t installLog n tr]
      cargoCrate_run [of w t n cmd tr] semverExec_first [of s v] semverExec_None_iff [of s]
      go cargo io_map_Nil [of body tr] io_map_Cons [of body entry entries tr]
    by blast
qed

theorem C5_versions_witness:
  "fst (goPackage (quiet_world (\<lambda>_ _ _. Inr ''~~~BEGIN~~~ v0.6.4 ~~~END~~~'')) ''img'' []
          (''gopls'', Some ''gopls version'') []) = Inr (packageInfo ''gopls'' (JStr ''v0.6.4''))
   \<and> goPackage (quiet_world (\<lambda>_ _ _. Inr [])) ''img'' ''downloading x v1.0.0''
        (''gopls'', None) [] = (Inr (packageInfo ''gopls'' (JStr ''latest'')), [])
   \<and> (\<exists>pre post. ''cargo 1.50.0 (f04e7fab7 2021-02-04)'' = pre @ ''1.50.0'' @ post
         \<and> semver_shaped ''1.50.0'')
   \<and> fst (getGoPackageInfo go_log_world ''img'' (Some [(''gofmt'', Some ''gofmt -V'')]) [])
       = Inr [packageInfo ''golang.org/x/tools/gopls'' (JStr ''0.6.4''),
              packageInfo ''gofmt'' (JStr ''1.4.17-stable'')]
   \<and> fst (getCargoPackageInfo go_log_world ''img'' (Some [(''rustfmt'', Some ''rustfmt -V'')]) [])
       = Inr [packageInfo ''golang.org/x/tools/gopls'' (JStr ''1.4.17''),
              packageInfo ''rustfmt'' (JStr ''1.4.17'')]"
proof -
  have 1: "fst (goPackage (quiet_world (\<lambda>_ _ _. Inr ''~~~BEGIN~~~ v0.6.4 ~~~END~~~'')) ''img'' []
          (''gopls'', Some ''gopls version'') []) = Inr (packageInfo ''gopls'' (JStr ''v0.6.4''))"
    using C5_versions [THEN conjunct1,
        of "''gopls version''" "quiet_world (\<lambda>_ _ _. Inr ''~~~BEGIN~~~ v0.6.4 ~~~END~~~'')"
        "''img''" "[]" "''gopls''" "[]"]
    by (simp add: getCommandOutputFromContainer_def io_bind_def io_return_def spawn_def
        quiet_world_def filteredResult_def js_substring_def js_trim_def js_whitespace_def)
  have 2: "goPackage (quiet_world (\<lambda>_ _ _. Inr [])) ''img'' ''downloading x v1.0.0''
        (''gopls'', None) [] = (Inr (packageInfo ''gopls'' (JStr ''latest'')), [])"
    using C5_versions [THEN conjunct2, THEN conjunct1,
        of None "quiet_world (\<lambda>_ _ _. Inr [])" "''img''" "''downloading x v1.0.0''" "''gopls''" "[]"]
    by (simp add: quiet_world_def)
  have e: "semverExec ''cargo 1.50.0 (f04e7fab7 2021-02-04)'' = Some ''1.50.0''"
    by (simp add: semverAt_def is_digit_def)
  have 3: "\<exists>pre post. ''cargo 1.50.0 (f04e7fab7 2021-02-04)'' = pre @ ''1.50.0'' @ post
         \<and> semver_shaped ''1.50.0''"
    using C5_versions [THEN conjunct2, THEN conjunct2, THEN conjunct2, THEN conjunct1,
        of "''cargo 1.50.0 (f04e7fab7 2021-02-04)''" "''1.50.0''"] e
    by blast
  have go: "getGoPackageInfo go_log_world ''img'' (Some [(''gofmt'', Some ''gofmt -V'')]) [] =
        (case getCommandOutputFromContainer go_log_world ''img''
                ''cat /usr/local/etc/vscode-dev-containers/go.log'' False
                ([] @ [Log ''(*) Gathering information about go modules and packages...'']) of
           (Inl e, tr') \<Rightarrow> (Inl e, tr')
         | (Inr logText, tr') \<Rightarrow>
             io_map (goPackage go_log_world ''img'' logText)
               (for_in (mergeDefaults (getDefaultDependencies_lookup go_log_world ''go'')
                          (Some [(''gofmt'', Some ''gofmt -V'')]))) tr')"
    by (rule C5_versions [THEN conjunct2, THEN conjunct2, THEN conjunct2, THEN conjunct2,
          THEN conjunct2, THEN conjunct1])
  have go_value: "fst (case getCommandOutputFromContainer go_log_world ''img''
                ''cat /usr/local/etc/vscode-dev-containers/go.log'' False
                ([] @ [Log ''(*) Gathering information about go modules and packages...'']) of
           (Inl e, tr') \<Rightarrow> (Inl e, tr')
         | (Inr logText, tr') \<Rightarrow>
             io_map (goPackage go_log_world ''img'' logText)
               (for_in (mergeDefaults (getDefaultDependencies_lookup go_log_world ''go'')
                          (Some [(''gofmt'', Some ''gofmt -V'')]))) tr')
       = Inr [packageInfo ''golang.org/x/tools/gopls'' (JStr ''0.6.4''),
              packageInfo ''gofmt'' (JStr ''1.4.17-stable'')]"
    by code_simp
  have 4: "fst (getGoPackageInfo go_log_world ''img'' (Some [(''gofmt'', Some ''gofmt -V'')]) [])
       = Inr [packageInfo ''golang.org/x/tools/gopls'' (JStr ''0.6.4''),
              packageInfo ''gofmt'' (JStr ''1.4.17-stable'')]"
    by (simp only: go go_value)
  have cargo: "getCargoPackageInfo go_log_world ''img'' (Some [(''rustfmt'', Some ''rustfmt -V'')]) [] =
        io_map (cargoCrate go_log_world ''img'')
          (for_in (mergeDefaults (getDefaultDependencies_lookup go_log_world ''go'')
                     (Some [(''rustfmt'', Some ''rustfmt -V'')])))
          ([] @ [Log ''(*) Gathering information about cargo packages...''])"
    by (rule C5_versions [THEN conjunct2, THEN conjunct2, THEN conjunct2, THEN conjunct2,
          THEN conjunct2, THEN conjunct2, THEN conjunct1])
  have cargo_value: "fst (io_map (cargoCrate go_log_world ''img'')
          (for_in (mergeDefaults (getDefaultDependencies_lookup go_log_world ''go'')
                     (Some [(''rustfmt'', Some ''rustfmt -V'')])))
          ([] @ [Log ''(*) Gathering information about cargo packages...'']))
       = Inr [packageInfo ''golang.org/x/tools/gopls'' (JStr ''1.4.17''),
              packageInfo ''rustfmt'' (JStr ''1.4.17'')]"
    by code_simp
  have 5: "fst (getCargoPackageInfo go_log_world ''img'' (Some [(''rustfmt'', Some ''rustfmt -V'')]) [])
       = Inr [packageInfo ''golang.org/x/tools/gopls'' (JStr ''1.4.17''),
              packageInfo ''rustfmt'' (JStr ''1.4.17'')]"
    by (simp only: cargo cargo_value)
  show ?thesis using 1 2 3 4 5 by blast
qed

text \<open>The claim as stated fails for cargo: the probe \<^verbatim>\<open>rustfmt --version\<close> prints
  \<^verbatim>\<open>rustfmt 1.4.17-stable\<close>, and the version recorded is \<^verbatim>\<open>1.4.17\<close>, not the output; a probe
  whose output has no such part is fatal.\<close>

theorem C5_cargo_probe_output_is_filtered:
  "fst (getCommandOutputFromContainer
          (quiet_world (\<lambda>_ _ _. Inr ''~~~BEGIN~~~ rustfmt 1.4.17-stable ~~~END~~~''))
          ''img'' ''rustfmt --version'' False []) = Inr ''rustfmt 1.4.17-stable''
   \<and> fst (cargoCrate (quiet_world (\<lambda>_ _ _. Inr ''~~~BEGIN~~~ rustfmt 1.4.17-stable ~~~END~~~''))
            ''img'' (''rustfmt'', Some ''rustfmt --version'') [])
       = Inr (packageInfo ''rustfmt'' (JStr ''1.4.17''))
   \<and> fst (cargoCrate (quiet_world (\<lambda>_ _ _. Inr ''~~~BEGIN~~~ stable ~~~END~~~''))
            ''img'' (''rustfmt'', Some ''echo stable'') [])
       = Inl (Error ''Could not extract information about crate rustfmt'')
   \<and> fst (getCargoPackageInfo
            (quiet_world (\<lambda>_ _ _. Inr ''~~~BEGIN~~~ rustfmt 1.4.17-stable ~~~END~~~''))
            ''img'' (Some [(''rustfmt'', Some ''rustfmt --version'')]) [])
       = Inr [packageInfo ''rustfmt'' (JStr ''1.4.17'')]"
  by code_simp

text \<open>
  C1 (as the source has it). In a run of \<^verbatim>\<open>getAllContentInfo\<close> whose helper container was
  started, the extraction itself never spawns the removal. When an extraction step throws,
  the removal is spawned exactly once, and the original error is rethrown if the removal
  succeeds (if the removal fails, its error is what the caller sees). When every extraction
  step succeeds, the removal is spawned once and the contents are returned if it succeeds;
  but that removal stands inside the \<^verbatim>\<open>try\<close> block, so if it fails the handler spawns the
  removal a second time, and the run ends with an error. The count is over the events of
  this run, those after the trace \<open>tr\<close> the run started from.
\<close>

theorem C1_cleanup:
  assumes started: "spawn_result w tr ''docker'' (startEvent w imageTag) = Inr out"
  shows
    "count_list
       (drop (length tr) (snd (getAllContentInfo w imageTag dependencies tr))) (removal w)
     = (case (fst (extractContents w (containerNameFor w) dependencies
                     (tr @ [Spawn ''docker'' (startEvent w imageTag)])),
              spawn_result w
                (snd (extractContents w (containerNameFor w) dependencies
                        (tr @ [Spawn ''docker'' (startEvent w imageTag)])))
                ''docker'' [''rm'', ''-f'', containerNameFor w]) of
          (Inr contents, Inl e) \<Rightarrow> 2
        | _ \<Rightarrow> 1)
     \<and> fst (getAllContentInfo w imageTag dependencies tr)
       = (case (fst (extractContents w (containerNameFor w) dependencies
                     (tr @ [Spawn ''docker'' (startEvent w imageTag)])),
              spawn_result w
                (snd (extractContents w (containerNameFor w) dependencies
                        (tr @ [Spawn ''docker'' (startEvent w imageTag)])))
                ''docker'' [''rm'', ''-f'', containerNameFor w]) of
          (Inl e, Inr _) \<Rightarrow> Inl e
        | (Inl e, Inl e') \<Rightarrow> Inl e'
        | (Inr contents, Inr _) \<Rightarrow> Inr contents
        | (Inr contents, Inl e1) \<Rightarrow>
            (case spawn_result w
                    (snd (extractContents w (containerNameFor w) dependencies
                            (tr @ [Spawn ''docker'' (startEvent w imageTag)]))
                       @ [removal w])
                    ''docker'' [''rm'', ''-f'', containerNameFor w] of
               Inl e2 \<Rightarrow> Inl e2
             | Inr _ \<Rightarrow> Inl e1))"
proof -
  let ?cn = "containerNameFor w"
  let ?tr1 = "tr @ [Spawn ''docker'' (startEvent w imageTag)]"
  obtain body tr2 where body: "extractContents w ?cn dependencies ?tr1 = (body, tr2)"
    by (cases "extractContents w ?cn dependencies ?tr1")
  from emits_extractContents [of ?cn w ?cn dependencies]
  obtain evs where evs: "tr2 = ?tr1 @ evs" "list_all (not_removal ?cn) evs"
    using body by (auto simp: emits_only_def dest: spec [of _ ?tr1])
  have zero: "count_list evs (removal w) = 0"
    using evs(2) by (intro count_list_zero) (simp add: removal_def not_removal_def [abs_def])
  have start_not: "Spawn ''docker'' (startEvent w imageTag) \<noteq> removal w"
    by (simp add: removal_def startEvent_def)
  have run: "getAllContentInfo w imageTag dependencies tr =
      (case body of
         Inl e \<Rightarrow>
           (case spawn_result w tr2 ''docker'' [''rm'', ''-f'', ?cn] of
              Inl e' \<Rightarrow> (Inl e', tr2 @ [removal w])
            | Inr _ \<Rightarrow> (Inl e, tr2 @ [removal w]))
       | Inr contents \<Rightarrow>
           (case spawn_result w tr2 ''docker'' [''rm'', ''-f'', ?cn] of
              Inr _ \<Rightarrow> (Inr contents, tr2 @ [removal w])
            | Inl e1 \<Rightarrow>
                (case spawn_result w (tr2 @ [removal w]) ''docker'' [''rm'', ''-f'', ?cn] of
                   Inl e2 \<Rightarrow> (Inl e2, tr2 @ [removal w, removal w])
                 | Inr _ \<Rightarrow> (Inl e1, tr2 @ [removal w, removal w]))))"
    using started body
    by (simp add: getAllContentInfo_def startContainerForProcessing_def startEvent_def
        removeProcessingContainer_def spawn_def io_bind_def io_try_catch_def io_return_def
        io_throw_def removal_def Let_def split: sum.splits)
  show ?thesis
    using zero start_not
    by (simp add: run body evs(1) count_list_append split: sum.splits)
qed

theorem C1_cleanup_witness:
  "count_list
     (snd (getAllContentInfo (quiet_world (\<lambda>_ _ _. Inr ''~~~BEGIN~~~ ~~~END~~~'')) ''debian''
             no_dependencies []))
     (Spawn ''docker'' [''rm'', ''-f'', ''vscdc--extract--0'']) = 1
   \<and> count_list (snd (getAllContentInfo (quiet_world exec_fails) ''debian'' no_dependencies []))
       (Spawn ''docker'' [''rm'', ''-f'', ''vscdc--extract--0'']) = 1
   \<and> fst (getAllContentInfo (quiet_world exec_fails) ''debian'' no_dependencies [])
       = Inl (SpawnError ''no such file'')"
proof -
  let ?ok = "quiet_world (\<lambda>_ _ _. Inr ''~~~BEGIN~~~ ~~~END~~~'')"
  let ?bad = "quiet_world exec_fails"
  have s1: "spawn_result ?ok [] ''docker'' (startEvent ?ok ''debian'') = Inr ''~~~BEGIN~~~ ~~~END~~~''"
    by (simp add: quiet_world_def)
  have s2: "spawn_result ?bad [] ''docker'' (startEvent ?bad ''debian'') = Inr ''~~~BEGIN~~~ ~~~END~~~''"
    by (simp add: quiet_world_def exec_fails_def startEvent_def)
  have r1: "removal ?ok = Spawn ''docker'' [''rm'', ''-f'', ''vscdc--extract--0'']"
    by code_simp
  have r2: "removal ?bad = Spawn ''docker'' [''rm'', ''-f'', ''vscdc--extract--0'']"
    by code_simp
  have e1: "(case (fst (extractContents ?ok (containerNameFor ?ok) no_dependencies
                     ([] @ [Spawn ''docker'' (startEvent ?ok ''debian'')])),
              spawn_result ?ok
                (snd (extractContents ?ok (containerNameFor ?ok) no_dependencies
                        ([] @ [Spawn ''docker'' (startEvent ?ok ''debian'')])))
                ''docker'' [''rm'', ''-f'', containerNameFor ?ok]) of
          (Inr contents, Inl e) \<Rightarrow> 2
        | _ \<Rightarrow> 1) = (1::nat)"
    by code_simp
  have e2: "(case (fst (extractContents ?bad (containerNameFor ?bad) no_dependencies
                     ([] @ [Spawn ''docker'' (startEvent ?bad ''debian'')])),
              spawn_result ?bad
                (snd (extractContents ?bad (containerNameFor ?bad) no_dependencies
                        ([] @ [Spawn ''docker'' (startEvent ?bad ''debian'')])))
                ''docker'' [''rm'', ''-f'', containerNameFor ?bad]) of
          (Inr contents, Inl e) \<Rightarrow> 2
        | _ \<Rightarrow> 1) = (1::nat)"
    by code_simp
  have e3: "(case (fst (extractContents ?bad (containerNameFor ?bad) no_dependencies
                     ([] @ [Spawn ''docker'' (startEvent ?bad ''debian'')])),
              spawn_result ?bad
                (snd (extractContents ?bad (containerNameFor ?bad) no_dependencies
                        ([] @ [Spawn ''docker'' (startEvent ?bad ''debian'')])))
                ''docker'' [''rm'', ''-f'', containerNameFor ?bad]) of
          (Inl e, Inr _) \<Rightarrow> Inl e
        | (Inl e, Inl e') \<Rightarrow> Inl e'
        | (Inr contents, Inr _) \<Rightarrow> Inr contents
        | (Inr contents, Inl e1) \<Rightarrow>
            (case spawn_result ?bad
                    (snd (extractContents ?bad (containerNameFor ?bad) no_dependencies
                            ([] @ [Spawn ''docker'' (startEvent ?bad ''debian'')]))
                       @ [removal ?bad])
                    ''docker'' [''rm'', ''-f'', containerNameFor ?bad] of
               Inl e2 \<Rightarrow> Inl e2
             | Inr _ \<Rightarrow> Inl e1)) = Inl (SpawnError ''no such file'')"
    by code_simp
  have a: "count_list (snd (getAllContentInfo ?ok ''debian'' no_dependencies []))
             (Spawn ''docker'' [''rm'', ''-f'', ''vscdc--extract--0'']) = 1"
    using C1_cleanup [OF s1, of no_dependencies, THEN conjunct1]
    by (simp only: e1 r1 list.size drop_0)
  have b: "count_list (snd (getAllContentInfo ?bad ''debian'' no_dependencies []))
             (Spawn ''docker'' [''rm'', ''-f'', ''vscdc--extract--0'']) = 1"
    using C1_cleanup [OF s2, of no_dependencies, THEN conjunct1]
    by (simp only: e2 r2 list.size drop_0)
  have c: "fst (getAllContentInfo ?bad ''debian'' no_dependencies [])
             = Inl (SpawnError ''no such file'')"
    using C1_cleanup [OF s2, of no_dependencies, THEN conjunct2]
    by (simp only: e3)
  show ?thesis
    by (intro conjI) (rule a, rule b, rule c)
qed

text \<open>The claim as stated fails when the removal itself is the step that throws: with every
  extraction step succeeding and \<^verbatim>\<open>docker rm\<close> failing, the removal is spawned twice.\<close>

theorem C1_removal_runs_twice:
  "count_list (snd (getAllContentInfo (quiet_world removal_fails) ''debian'' no_dependencies []))
     (Spawn ''docker'' [''rm'', ''-f'', ''vscdc--extract--0'']) = 2
   \<and> fst (getAllContentInfo (quiet_world removal_fails) ''debian'' no_dependencies [])
       = Inl (SpawnError [])"
  by code_simp

text \<open>
  C9 (as the source has it). The records that an extractor returns stand, in order, for the
  entries of its merged request (for the objects of cargo, go, git and the other
  components, in the order of \<^verbatim>\<open>for ... in\<close>; for git, only the entries that have a path),
  and each record carries the name of its entry; a record of the Linux extractor carries
  the name and the version that the line pattern captured from a line of the version list.
  No extractor looks at whether a name is empty, so a name is non-empty exactly when the
  requested name is. The version of a record is: for npm, a truthy value of the tree; for
  gem, the first group of the match of the pattern built from the name; for cargo, a
  semantic-version-shaped string; for go, the output of the probe, or the first group of
  the match against the installer log, or \<^verbatim>\<open>latest\<close>; for the other components, the output
  of the version command; for git, none (the record has a path, a URL and a commit
  instead). For pip and pipx, once the installed-package map has been read, every requested
  name gives a record and no error: its version is what the read of that name on the map
  gives, which is the entry when there is one and otherwise \<^verbatim>\<open>undefined\<close>, except for the
  names every object inherits (\<^verbatim>\<open>constructor\<close>, \<^verbatim>\<open>toString\<close> and the like), for which it is
  the inherited member. The map of pipx always has the prototype it was created with, and
  so has the map of pip unless \<^verbatim>\<open>pip list\<close> has an entry named \<^verbatim>\<open>__proto__\<close>. The statement
  about the other components leaves out a request that gives settings to the name
  \<^verbatim>\<open>__proto__\<close>.
\<close>

theorem C9_record_names:
  "(fst (getNpmGlobalPackageInfo w t l tr) = Inr rs \<longrightarrow>
      list_all2 (\<lambda>n r. name r = n \<and> js_truthy (version r))
        (merged_names (getDefaultDependencies_names w ''npm'') l) rs)
   \<and> (fst (getGemPackageInfo w t l tr) = Inr rs \<longrightarrow>
        (\<exists>gemListOutput.
           list_all2 (\<lambda>n r. name r = n \<and>
                        (\<exists>groups. regexp_exec w (gemPattern n) ''m'' gemListOutput = Inr (Some groups)
                                   \<and> version r = js_of_string_option (group groups 1)))
             (merged_names (getDefaultDependencies_names w ''gem'') l) rs))
   \<and> (fst (getPipPackageInfo w t l usePipx tr) = Inr rs \<longrightarrow>
        map name rs
          = merged_names (getDefaultDependencies_names w (if usePipx then ''pipx'' else ''pip'')) l)
   \<and> (merged_names (getDefaultDependencies_names w (if usePipx then ''pipx'' else ''pip'')) l \<noteq> [] \<longrightarrow>
      (if usePipx then getPipxVersionLookup w t else getPipVersionLookup w t)
         (tr @ [Log ''(*) Gathering information about pip packages...'']) = (Inr versionLookup, tr') \<longrightarrow>
        getPipPackageInfo w t l usePipx tr =
          (Inr (map (\<lambda>packageName. packageInfo packageName (js_object_get w versionLookup packageName))
                  (merged_names (getDefaultDependencies_names w (if usePipx then ''pipx'' else ''pip'')) l)),
           tr'))
   \<and> (map_of (own_properties versionLookup) packageName = Some found \<longrightarrow>
        js_object_get w versionLookup packageName = found)
   \<and> (map_of (own_properties versionLookup) packageName = None
        \<and> prototype_of versionLookup = ObjectPrototype
        \<and> packageName \<notin> set object_prototype_names \<longrightarrow>
        js_object_get w versionLookup packageName = JUndefined)
   \<and> (map_of (own_properties versionLookup) packageName = None
        \<and> prototype_of versionLookup = ObjectPrototype
        \<and> packageName \<in> set object_prototype_names \<longrightarrow>
        js_object_get w versionLookup packageName = JBuiltin packageName)
   \<and> (getPipxVersionLookup w t tr = (Inr versionLookup, tr') \<longrightarrow>
        prototype_of versionLookup = ObjectPrototype)
   \<and> (getPipVersionLookup w t tr = (Inr versionLookup, tr') \<longrightarrow>
        (\<exists>text entries. json_parse w text = Some (JArr entries)
           \<and> pipVersionEntries w empty_object entries = Inr versionLookup))
   \<and> (pipVersionEntries w empty_object entries = Inr versionLookup
        \<and> (\<forall>current \<in> set entries. \<forall>n. js_get w current ''name'' = Inr n \<longrightarrow>
              js_to_string w n \<noteq> Inr ''__proto__'') \<longrightarrow>
        prototype_of versionLookup = ObjectPrototype)
   \<and> (fst (getCargoPackageInfo w t m tr) = Inr rs \<longrightarrow>
        list_all2 (\<lambda>entry r. name r = fst entry \<and> (\<exists>v. version r = JStr v \<and> semver_shaped v))
          (for_in (mergeDefaults (getDefaultDependencies_lookup w ''go'') m)) rs)
   \<and> (fst (getGoPackageInfo w t m tr) = Inr rs \<longrightarrow>
        (\<exists>logText.
           list_all2 (\<lambda>entry r. name r = fst entry \<and>
                        (if truthy (snd entry) then (\<exists>probeOutput. version r = JStr probeOutput)
                         else (case regexp_exec w (goPattern (fst entry)) [] logText of
                                 Inl e \<Rightarrow> False
                               | Inr None \<Rightarrow> version r = JStr ''latest''
                               | Inr (Some groups) \<Rightarrow>
                                   version r = js_of_string_option (group groups 1))))
             (for_in (mergeDefaults (getDefaultDependencies_lookup w ''go'') m)) rs))
   \<and> (fst (getGitRepositoryInfo w t m tr) = Inr rs \<longrightarrow>
        list_all2 (\<lambda>entry r. name r = fst entry \<and> version r = JUndefined \<and> path r = snd entry
                      \<and> truthy (url r) \<and> truthy (commitHash r))
          (filter (\<lambda>entry. snd entry \<noteq> None)
             (for_in (mergeDefaults (getDefaultDependencies_lookup w ''git'') m))) rs)
   \<and> ((\<forall>given d. components = Some given \<longrightarrow> (''__proto__'', Some d) \<notin> set given)
        \<and> fst (getOtherDependencyInfo w t components otherType tr) = Inr rs \<longrightarrow>
        list_all2 (\<lambda>entry r. name r = fst entry \<and> (\<exists>commandOutput. version r = JStr commandOutput))
          (for_in (mergeDefaults (getDefaultDependencies_other w otherType) components)) rs)
   \<and> (fst (getLinuxPackageInfo w t packageList distroInfo tr) = Inr rs \<longrightarrow>
        (\<exists>versions.
           \<forall>r \<in> set rs. \<exists>line \<in> set (js_split newline versions). \<exists>groups v.
              regexp_exec w
                (lineRegEx (getPackageInfoExtractorParams w
                              (getLinuxPackageManagerForDistro w (map_of distroInfo ''id''))))
                [] (js_trim line) = Inr (Some groups)
              \<and> group groups 1 = Some (name r) \<and> group groups 2 = Some v \<and> version r = JStr v))"
proof (intro conjI impI)
  assume "fst (getNpmGlobalPackageInfo w t l tr) = Inr rs"
  then show "list_all2 (\<lambda>n r. name r = n \<and> js_truthy (version r))
        (merged_names (getDefaultDependencies_names w ''npm'') l) rs"
    by (rule npm_records)
next
  assume "fst (getGemPackageInfo w t l tr) = Inr rs"
  then show "\<exists>gemListOutput.
           list_all2 (\<lambda>n r. name r = n \<and>
                        (\<exists>groups. regexp_exec w (gemPattern n) ''m'' gemListOutput = Inr (Some groups)
                                   \<and> version r = js_of_string_option (group groups 1)))
             (merged_names (getDefaultDependencies_names w ''gem'') l) rs"
    by (rule gem_records)
next
  assume "fst (getPipPackageInfo w t l usePipx tr) = Inr rs"
  then show "map name rs
          = merged_names (getDefaultDependencies_names w (if usePipx then ''pipx'' else ''pip'')) l"
    by (rule pip_names)
next
  assume "merged_names (getDefaultDependencies_names w (if usePipx then ''pipx'' else ''pip'')) l \<noteq> []"
    and "(if usePipx then getPipxVersionLookup w t else getPipVersionLookup w t)
         (tr @ [Log ''(*) Gathering information about pip packages...'']) = (Inr versionLookup, tr')"
  then show "getPipPackageInfo w t l usePipx tr =
          (Inr (map (\<lambda>packageName. packageInfo packageName (js_object_get w versionLookup packageName))
                  (merged_names (getDefaultDependencies_names w (if usePipx then ''pipx'' else ''pip'')) l)),
           tr')"
    by (rule pip_result)
next
  assume "map_of (own_properties versionLookup) packageName = Some found"
  then show "js_object_get w versionLookup packageName = found"
    by (simp add: js_object_get_def)
next
  assume "map_of (own_properties versionLookup) packageName = None
        \<and> prototype_of versionLookup = ObjectPrototype
        \<and> packageName \<notin> set object_prototype_names"
  then show "js_object_get w versionLookup packageName = JUndefined"
    by (simp add: js_object_get_def)
next
  assume "map_of (own_properties versionLookup) packageName = None
        \<and> prototype_of versionLookup = ObjectPrototype
        \<and> packageName \<in> set object_prototype_names"
  then show "js_object_get w versionLookup packageName = JBuiltin packageName"
    by (simp add: js_object_get_def)
next
  assume "getPipxVersionLookup w t tr = (Inr versionLookup, tr')"
  then show "prototype_of versionLookup = ObjectPrototype"
    by (rule pipx_prototype)
next
  assume "getPipVersionLookup w t tr = (Inr versionLookup, tr')"
  then show "\<exists>text entries. json_parse w text = Some (JArr entries)
           \<and> pipVersionEntries w empty_object entries = Inr versionLookup"
    by (rule pip_lookup_entries)
next
  assume a: "pipVersionEntries w empty_object entries = Inr versionLookup
        \<and> (\<forall>current \<in> set entries. \<forall>n. js_get w current ''name'' = Inr n \<longrightarrow>
              js_to_string w n \<noteq> Inr ''__proto__'')"
  show "prototype_of versionLookup = ObjectPrototype"
    by (rule pip_lookup_prototype [OF a [THEN conjunct1] a [THEN conjunct2]])
next
  assume "fst (getCargoPackageInfo w t m tr) = Inr rs"
  then show "list_all2 (\<lambda>entry r. name r = fst entry \<and> (\<exists>v. version r = JStr v \<and> semver_shaped v))
          (for_in (mergeDefaults (getDefaultDependencies_lookup w ''go'') m)) rs"
    by (rule cargo_records)
next
  assume "fst (getGoPackageInfo w t m tr) = Inr rs"
  then show "\<exists>logText.
           list_all2 (\<lambda>entry r. name r = fst entry \<and>
                        (if truthy (snd entry) then (\<exists>probeOutput. version r = JStr probeOutput)
                         else (case regexp_exec w (goPattern (fst entry)) [] logText of
                                 Inl e \<Rightarrow> False
                               | Inr None \<Rightarrow> version r = JStr ''latest''
                               | Inr (Some groups) \<Rightarrow>
                                   version r = js_of_string_option (group groups 1))))
             (for_in (mergeDefaults (getDefaultDependencies_lookup w ''go'') m)) rs"
    by (rule go_records)
next
  assume "fst (getGitRepositoryInfo w t m tr) = Inr rs"
  then show "list_all2 (\<lambda>entry r. name r = fst entry \<and> version r = JUndefined \<and> path r = snd entry
                      \<and> truthy (url r) \<and> truthy (commitHash r))
          (filter (\<lambda>entry. snd entry \<noteq> None)
             (for_in (mergeDefaults (getDefaultDependencies_lookup w ''git'') m))) rs"
    by (rule git_records)
next
  assume a: "(\<forall>given d. components = Some given \<longrightarrow> (''__proto__'', Some d) \<notin> set given)
        \<and> fst (getOtherDependencyInfo w t components otherType tr) = Inr rs"
  show "list_all2 (\<lambda>entry r. name r = fst entry \<and> (\<exists>commandOutput. version r = JStr commandOutput))
          (for_in (mergeDefaults (getDefaultDependencies_other w otherType) components)) rs"
    by (rule other_records [OF a [THEN conjunct2]])
next
  assume "fst (getLinuxPackageInfo w t packageList distroInfo tr) = Inr rs"
  then show "\<exists>versions.
           \<forall>r \<in> set rs. \<exists>line \<in> set (js_split newline versions). \<exists>groups v.
              regexp_exec w
                (lineRegEx (getPackageInfoExtractorParams w
                              (getLinuxPackageManagerForDistro w (map_of distroInfo ''id''))))
                [] (js_trim line) = Inr (Some groups)
              \<and> group groups 1 = Some (name r) \<and> group groups 2 = Some v \<and> version r = JStr v"
    by (rule linux_records)
qed

theorem C9_record_names_witness:
  "(list_all2 (\<lambda>n r. name r = n \<and> js_truthy (version r))
        (merged_names (getDefaultDependencies_names sample_world ''npm'') (Some [''a'']))
        [packageInfo ''a'' (JStr ''1.0.0'')])
   \<and> (\<exists>gemListOutput.
           list_all2 (\<lambda>n r. name r = n \<and>
                        (\<exists>groups. regexp_exec sample_world (gemPattern n) ''m'' gemListOutput = Inr (Some groups)
                                   \<and> version r = js_of_string_option (group groups 1)))
             (merged_names (getDefaultDependencies_names sample_world ''gem'') (Some [''rake'']))
             [packageInfo ''rake'' (JStr ''13.0.1'')])
   \<and> (getPipPackageInfo sample_world ''img'' (Some [''yarn'', ''pylint'', ''constructor'']) True [] =
          (Inr (map (\<lambda>packageName. packageInfo packageName
                       (js_object_get sample_world \<lparr> own_properties = [(''yarn'', JStr ''1.22.5'')], prototype_of = ObjectPrototype \<rparr> packageName))
                  (merged_names (getDefaultDependencies_names sample_world (if True then ''pipx'' else ''pip''))
                     (Some [''yarn'', ''pylint'', ''constructor'']))),
           [Log ''(*) Gathering information about pip packages...'',
            Spawn ''docker'' [''run'', ''--init'', ''--privileged'', ''--rm'', ''img'',
                              wrappedCommand ''pipx list'']]))
   \<and> (js_object_get sample_world \<lparr> own_properties = [(''yarn'', JStr ''1.22.5'')], prototype_of = ObjectPrototype \<rparr> ''yarn'' = JStr ''1.22.5'')
   \<and> (js_object_get sample_world \<lparr> own_properties = [(''yarn'', JStr ''1.22.5'')], prototype_of = ObjectPrototype \<rparr> ''pylint'' = JUndefined)
   \<and> (js_object_get sample_world \<lparr> own_properties = [(''yarn'', JStr ''1.22.5'')], prototype_of = ObjectPrototype \<rparr> ''constructor'' = JBuiltin ''constructor'')
   \<and> (prototype_of \<lparr> own_properties = [(''yarn'', JStr ''1.22.5'')], prototype_of = ObjectPrototype \<rparr> = ObjectPrototype)
   \<and> (\<exists>text entries. json_parse pip_world text = Some (JArr entries)
           \<and> pipVersionEntries pip_world empty_object entries = Inr \<lparr> own_properties = [(''pylint'', JStr ''2.6.0'')], prototype_of = ObjectPrototype \<rparr>)
   \<and> (prototype_of \<lparr> own_properties = [(''pylint'', JStr ''2.6.0'')], prototype_of = ObjectPrototype \<rparr> = ObjectPrototype)
   \<and> (list_all2 (\<lambda>entry r. name r = fst entry \<and> (\<exists>v. version r = JStr v \<and> semver_shaped v))
          (for_in (mergeDefaults (getDefaultDependencies_lookup sample_world ''go'')
                     (Some [(''rustfmt'', None)])))
          [packageInfo ''rustfmt'' (JStr ''1.2.3'')])
   \<and> (\<exists>logText.
           list_all2 (\<lambda>entry r. name r = fst entry \<and>
                        (if truthy (snd entry) then (\<exists>probeOutput. version r = JStr probeOutput)
                         else (case regexp_exec go_log_world (goPattern (fst entry)) [] logText of
                                 Inl e \<Rightarrow> False
                               | Inr None \<Rightarrow> version r = JStr ''latest''
                               | Inr (Some groups) \<Rightarrow>
                                   version r = js_of_string_option (group groups 1))))
             (for_in (mergeDefaults (getDefaultDependencies_lookup go_log_world ''go'')
                        (Some [(''gofmt'', Some ''gofmt -V'')])))
             [packageInfo ''golang.org/x/tools/gopls'' (JStr ''0.6.4''),
              packageInfo ''gofmt'' (JStr ''1.4.17-stable'')])
   \<and> (list_all2 (\<lambda>entry r. name r = fst entry \<and> version r = JUndefined \<and> path r = snd entry
                      \<and> truthy (url r) \<and> truthy (commitHash r))
          (filter (\<lambda>entry. snd entry \<noteq> None)
             (for_in (mergeDefaults (getDefaultDependencies_lookup sample_world ''git'')
                        (Some [(''omz'', Some ''/x''), (''skipped'', None)]))))
          [(packageInfo ''omz'' JUndefined)
              \<lparr> path := Some ''/x'', url := Some ''1.2.3'', commitHash := Some ''abc'' \<rparr>])
   \<and> (list_all2 (\<lambda>entry r. name r = fst entry \<and> (\<exists>commandOutput. version r = JStr commandOutput))
          (for_in (mergeDefaults (getDefaultDependencies_other sample_world ''other'')
                     (Some [(''xdebug'',
                           Some \<lparr> versionCommand = Some ''php -v'', downloadUrl = None,
                                  other_path = None, other_annotation = None,
                                  other_cgIgnore = None, other_markdownIgnore = None \<rparr>)])))
          [packageInfo ''xdebug'' (JStr (''1.2.3'' @ [newline] @ ''abc''))])
   \<and> (\<exists>versions.
           \<forall>r \<in> set [(packageInfo ''yarn'' (JStr ''1.22.5-1'')) \<lparr> cgIgnore := Some True \<rparr>,
             (packageInfo ''g++'' (JStr ''4:8.3.0-1''))
               \<lparr> poolUrl := Some ''http://deb.debian.org/debian'', cgIgnore := Some True \<rparr>].
             \<exists>line \<in> set (js_split newline versions). \<exists>groups v.
              regexp_exec linux_world
                (lineRegEx (getPackageInfoExtractorParams linux_world
                              (getLinuxPackageManagerForDistro linux_world (map_of [(''id'', ''debian'')] ''id''))))
                [] (js_trim line) = Inr (Some groups)
              \<and> group groups 1 = Some (name r) \<and> group groups 2 = Some v \<and> version r = JStr v)"
proof -
  have npm_run: "fst (getNpmGlobalPackageInfo sample_world ''img'' (Some [''a'']) []) = Inr [packageInfo ''a'' (JStr ''1.0.0'')]"
    by code_simp
  have gem_run: "fst (getGemPackageInfo sample_world ''img'' (Some [''rake'']) []) = Inr [packageInfo ''rake'' (JStr ''13.0.1'')]"
    by code_simp
  have cargo_run: "fst (getCargoPackageInfo sample_world ''img'' (Some [(''rustfmt'', None)]) []) = Inr [packageInfo ''rustfmt'' (JStr ''1.2.3'')]"
    by code_simp
  have go_run: "fst (getGoPackageInfo go_log_world ''img'' (Some [(''gofmt'', Some ''gofmt -V'')]) []) = Inr [packageInfo ''golang.org/x/tools/gopls'' (JStr ''0.6.4''),
              packageInfo ''gofmt'' (JStr ''1.4.17-stable'')]"
    by code_simp
  have git_run: "fst (getGitRepositoryInfo sample_world ''img'' (Some [(''omz'', Some ''/x''), (''skipped'', None)]) []) = Inr [(packageInfo ''omz'' JUndefined)
              \<lparr> path := Some ''/x'', url := Some ''1.2.3'', commitHash := Some ''abc'' \<rparr>]"
    by code_simp
  have other_run: "(\<forall>given d. (Some [(''xdebug'',
                           Some \<lparr> versionCommand = Some ''php -v'', downloadUrl = None,
                                  other_path = None, other_annotation = None,
                                  other_cgIgnore = None, other_markdownIgnore = None \<rparr>)]) = Some given \<longrightarrow> (''__proto__'', Some d) \<notin> set given)
        \<and> fst (getOtherDependencyInfo sample_world ''img''
                   (Some [(''xdebug'',
                           Some \<lparr> versionCommand = Some ''php -v'', downloadUrl = None,
                                  other_path = None, other_annotation = None,
                                  other_cgIgnore = None, other_markdownIgnore = None \<rparr>)]) ''other'' []) = Inr [packageInfo ''xdebug'' (JStr (''1.2.3'' @ [newline] @ ''abc''))]"
    by (rule conjI) (simp, code_simp)
  have linux_run: "fst (getLinuxPackageInfo linux_world ''img'' [PackageName ''yarn'', PackageName ''g++'']
            [(''id'', ''debian'')] []) = Inr [(packageInfo ''yarn'' (JStr ''1.22.5-1'')) \<lparr> cgIgnore := Some True \<rparr>,
             (packageInfo ''g++'' (JStr ''4:8.3.0-1''))
               \<lparr> poolUrl := Some ''http://deb.debian.org/debian'', cgIgnore := Some True \<rparr>]"
    by code_simp
  have pipx_names: "merged_names (getDefaultDependencies_names sample_world (if True then ''pipx'' else ''pip''))
            (Some [''yarn'', ''pylint'', ''constructor'']) \<noteq> []"
    by (simp add: merged_names_def)
  have pipx_run: "(if True then getPipxVersionLookup sample_world ''img'' else getPipVersionLookup sample_world ''img'')
          ([] @ [Log ''(*) Gathering information about pip packages...''])
        = (Inr \<lparr> own_properties = [(''yarn'', JStr ''1.22.5'')], prototype_of = ObjectPrototype \<rparr>,
           [Log ''(*) Gathering information about pip packages...'',
            Spawn ''docker'' [''run'', ''--init'', ''--privileged'', ''--rm'', ''img'',
                              wrappedCommand ''pipx list'']])"
    by code_simp
  have pipx_run2: "getPipxVersionLookup sample_world ''img'' [Log ''(*) Gathering information about pip packages...'']
        = (Inr \<lparr> own_properties = [(''yarn'', JStr ''1.22.5'')], prototype_of = ObjectPrototype \<rparr>,
           [Log ''(*) Gathering information about pip packages...'',
            Spawn ''docker'' [''run'', ''--init'', ''--privileged'', ''--rm'', ''img'',
                              wrappedCommand ''pipx list'']])"
    by code_simp
  have own_pre: "map_of (own_properties \<lparr> own_properties = [(''yarn'', JStr ''1.22.5'')], prototype_of = ObjectPrototype \<rparr>) ''yarn'' = Some (JStr ''1.22.5'')"
    by simp
  have absent_pre: "map_of (own_properties \<lparr> own_properties = [(''yarn'', JStr ''1.22.5'')], prototype_of = ObjectPrototype \<rparr>) ''pylint'' = None
        \<and> prototype_of \<lparr> own_properties = [(''yarn'', JStr ''1.22.5'')], prototype_of = ObjectPrototype \<rparr> = ObjectPrototype
        \<and> ''pylint'' \<notin> set object_prototype_names"
    by (simp add: object_prototype_names_def)
  have inherited_pre: "map_of (own_properties \<lparr> own_properties = [(''yarn'', JStr ''1.22.5'')], prototype_of = ObjectPrototype \<rparr>) ''constructor'' = None
        \<and> prototype_of \<lparr> own_properties = [(''yarn'', JStr ''1.22.5'')], prototype_of = ObjectPrototype \<rparr> = ObjectPrototype
        \<and> ''constructor'' \<in> set object_prototype_names"
    by (simp add: object_prototype_names_def)
  have pip_run: "getPipVersionLookup pip_world ''img'' [] = (Inr \<lparr> own_properties = [(''pylint'', JStr ''2.6.0'')], prototype_of = ObjectPrototype \<rparr>,
           [Spawn ''docker'' [''run'', ''--init'', ''--privileged'', ''--rm'', ''img'',
                              wrappedCommand ''pip list --format json'']])"
    by code_simp
  have pip_entries: "pipVersionEntries pip_world empty_object [JObj [(''name'', JStr ''pylint''), (''version'', JStr ''2.6.0'')]] = Inr \<lparr> own_properties = [(''pylint'', JStr ''2.6.0'')], prototype_of = ObjectPrototype \<rparr>
        \<and> (\<forall>current \<in> set [JObj [(''name'', JStr ''pylint''), (''version'', JStr ''2.6.0'')]]. \<forall>n. js_get pip_world current ''name'' = Inr n \<longrightarrow>
              js_to_string pip_world n \<noteq> Inr ''__proto__'')"
    by (simp add: pipVersionEntry_def js_get_def js_object_set_def empty_object_def
        object_prototype_names_def)
  have npm: "list_all2 (\<lambda>n r. name r = n \<and> js_truthy (version r))
        (merged_names (getDefaultDependencies_names sample_world ''npm'') (Some [''a'']))
        [packageInfo ''a'' (JStr ''1.0.0'')]"
    by (rule mp [OF C9_record_names [THEN conjunct1] npm_run])
  have gem: "\<exists>gemListOutput.
           list_all2 (\<lambda>n r. name r = n \<and>
                        (\<exists>groups. regexp_exec sample_world (gemPattern n) ''m'' gemListOutput = Inr (Some groups)
                                   \<and> version r = js_of_string_option (group groups 1)))
             (merged_names (getDefaultDependencies_names sample_world ''gem'') (Some [''rake'']))
             [packageInfo ''rake'' (JStr ''13.0.1'')]"
    by (rule mp [OF C9_record_names [THEN conjunct2, THEN conjunct1] gem_run])
  have pipx: "getPipPackageInfo sample_world ''img'' (Some [''yarn'', ''pylint'', ''constructor'']) True [] =
          (Inr (map (\<lambda>packageName. packageInfo packageName
                       (js_object_get sample_world \<lparr> own_properties = [(''yarn'', JStr ''1.22.5'')], prototype_of = ObjectPrototype \<rparr> packageName))
                  (merged_names (getDefaultDependencies_names sample_world (if True then ''pipx'' else ''pip''))
                     (Some [''yarn'', ''pylint'', ''constructor'']))),
           [Log ''(*) Gathering information about pip packages...'',
            Spawn ''docker'' [''run'', ''--init'', ''--privileged'', ''--rm'', ''img'',
                              wrappedCommand ''pipx list'']])"
    by (rule mp [OF mp [OF C9_record_names [THEN conjunct2, THEN conjunct2, THEN conjunct2, THEN conjunct1] pipx_names] pipx_run])
  have own: "js_object_get sample_world \<lparr> own_properties = [(''yarn'', JStr ''1.22.5'')], prototype_of = ObjectPrototype \<rparr> ''yarn'' = JStr ''1.22.5''"
    by (rule mp [OF C9_record_names [THEN conjunct2, THEN conjunct2, THEN conjunct2, THEN conjunct2, THEN conjunct1] own_pre])
  have absent: "js_object_get sample_world \<lparr> own_properties = [(''yarn'', JStr ''1.22.5'')], prototype_of = ObjectPrototype \<rparr> ''pylint'' = JUndefined"
    by (rule mp [OF C9_record_names [THEN conjunct2, THEN conjunct2, THEN conjunct2, THEN conjunct2, THEN conjunct2, THEN conjunct1] absent_pre])
  have inherited: "js_object_get sample_world \<lparr> own_properties = [(''yarn'', JStr ''1.22.5'')], prototype_of = ObjectPrototype \<rparr> ''constructor'' = JBuiltin ''constructor''"
    by (rule mp [OF C9_record_names [THEN conjunct2, THEN conjunct2, THEN conjunct2, THEN conjunct2, THEN conjunct2, THEN conjunct2, THEN conjunct1] inherited_pre])
  have pipxproto: "prototype_of \<lparr> own_properties = [(''yarn'', JStr ''1.22.5'')], prototype_of = ObjectPrototype \<rparr> = ObjectPrototype"
    by (rule mp [OF C9_record_names [THEN conjunct2, THEN conjunct2, THEN conjunct2, THEN conjunct2, THEN conjunct2, THEN conjunct2, THEN conjunct2, THEN conjunct1] pipx_run2])
  have piplookup: "\<exists>text entries. json_parse pip_world text = Some (JArr entries)
           \<and> pipVersionEntries pip_world empty_object entries = Inr \<lparr> own_properties = [(''pylint'', JStr ''2.6.0'')], prototype_of = ObjectPrototype \<rparr>"
    by (rule mp [OF C9_record_names [THEN conjunct2, THEN conjunct2, THEN conjunct2, THEN conjunct2, THEN conjunct2, THEN conjunct2, THEN conjunct2, THEN conjunct2, THEN conjunct1] pip_run])
  have pipproto: "prototype_of \<lparr> own_properties = [(''pylint'', JStr ''2.6.0'')], prototype_of = ObjectPrototype \<rparr> = ObjectPrototype"
    by (rule mp [OF C9_record_names [THEN conjunct2, THEN conjunct2, THEN conjunct2, THEN conjunct2, THEN conjunct2, THEN conjunct2, THEN conjunct2, THEN conjunct2, THEN conjunct2, THEN conjunct1] pip_entries])
  have cargo: "list_all2 (\<lambda>entry r. name r = fst entry \<and> (\<exists>v. version r = JStr v \<and> semver_shaped v))
          (for_in (mergeDefaults (getDefaultDependencies_lookup sample_world ''go'')
                     (Some [(''rustfmt'', None)])))
          [packageInfo ''rustfmt'' (JStr ''1.2.3'')]"
    by (rule mp [OF C9_record_names [THEN conjunct2, THEN conjunct2, THEN conjunct2, THEN conjunct2, THEN conjunct2, THEN conjunct2, THEN conjunct2, THEN conjunct2, THEN conjunct2, THEN conjunct2, THEN conjunct1] cargo_run])
  have go: "\<exists>logText.
           list_all2 (\<lambda>entry r. name r = fst entry \<and>
                        (if truthy (snd entry) then (\<exists>probeOutput. version r = JStr probeOutput)
                         else (case regexp_exec go_log_world (goPattern (fst entry)) [] logText of
                                 Inl e \<Rightarrow> False
                               | Inr None \<Rightarrow> version r = JStr ''latest''
                               | Inr (Some groups) \<Rightarrow>
                                   version r = js_of_string_option (group groups 1))))
             (for_in (mergeDefaults (getDefaultDependencies_lookup go_log_world ''go'')
                        (Some [(''gofmt'', Some ''gofmt -V'')])))
             [packageInfo ''golang.org/x/tools/gopls'' (JStr ''0.6.4''),
              packageInfo ''gofmt'' (JStr ''1.4.17-stable'')]"
    by (rule mp [OF C9_record_names [THEN conjunct2, THEN conjunct2, THEN conjunct2, THEN conjunct2, THEN conjunct2, THEN conjunct2, THEN conjunct2, THEN conjunct2, THEN conjunct2, THEN conjunct2, THEN conjunct2, THEN conjunct1] go_run])
  have git: "list_all2 (\<lambda>entry r. name r = fst entry \<and> version r = JUndefined \<and> path r = snd entry
                      \<and> truthy (url r) \<and> truthy (commitHash r))
          (filter (\<lambda>entry. snd entry \<noteq> None)
             (for_in (mergeDefaults (getDefaultDependencies_lookup sample_world ''git'')
                        (Some [(''omz'', Some ''/x''), (''skipped'', None)]))))
          [(packageInfo ''omz'' JUndefined)
              \<lparr> path := Some ''/x'', url := Some ''1.2.3'', commitHash := Some ''abc'' \<rparr>]"
    by (rule mp [OF C9_record_names [THEN conjunct2, THEN conjunct2, THEN conjunct2, THEN conjunct2, THEN conjunct2, THEN conjunct2, THEN conjunct2, THEN conjunct2, THEN conjunct2, THEN conjunct2, THEN conjunct2, THEN conjunct2, THEN conjunct1] git_run])
  have other: "list_all2 (\<lambda>entry r. name r = fst entry \<and> (\<exists>commandOutput. version r = JStr commandOutput))
          (for_in (mergeDefaults (getDefaultDependencies_other sample_world ''other'')
                     (Some [(''xdebug'',
                           Some \<lparr> versionCommand = Some ''php -v'', downloadUrl = None,
                                  other_path = None, other_annotation = None,
                                  other_cgIgnore = None, other_markdownIgnore = None \<rparr>)])))
          [packageInfo ''xdebug'' (JStr (''1.2.3'' @ [newline] @ ''abc''))]"
    by (rule mp [OF C9_record_names [THEN conjunct2, THEN conjunct2, THEN conjunct2, THEN conjunct2, THEN conjunct2, THEN conjunct2, THEN conjunct2, THEN conjunct2, THEN conjunct2, THEN conjunct2, THEN conjunct2, THEN conjunct2, THEN conjunct2, THEN conjunct1] other_run])
  have linux: "\<exists>versions.
           \<forall>r \<in> set [(packageInfo ''yarn'' (JStr ''1.22.5-1'')) \<lparr> cgIgnore := Some True \<rparr>,
             (packageInfo ''g++'' (JStr ''4:8.3.0-1''))
               \<lparr> poolUrl := Some ''http://deb.debian.org/debian'', cgIgnore := Some True \<rparr>].
             \<exists>line \<in> set (js_split newline versions). \<exists>groups v.
              regexp_exec linux_world
                (lineRegEx (getPackageInfoExtractorParams linux_world
                              (getLinuxPackageManagerForDistro linux_world (map_of [(''id'', ''debian'')] ''id''))))
                [] (js_trim line) = Inr (Some groups)
              \<and> group groups 1 = Some (name r) \<and> group groups 2 = Some v \<and> version r = JStr v"
    by (rule mp [OF C9_record_names [THEN conjunct2, THEN conjunct2, THEN conjunct2, THEN conjunct2, THEN conjunct2, THEN conjunct2, THEN conjunct2, THEN conjunct2, THEN conjunct2, THEN conjunct2, THEN conjunct2, THEN conjunct2, THEN conjunct2, THEN conjunct2] linux_run])
  show ?thesis
    using npm gem pipx own absent inherited pipxproto piplookup pipproto cargo go git other linux
    by (simp only: simp_thms)
qed

text \<open>The claim as stated fails: a request for the empty name is carried out like any other
  and gives a record whose name is empty.\<close>

theorem C9_empty_name_is_kept:
  "fst (getPipPackageInfo (quiet_world (\<lambda>_ _ _. Inr ''~~~BEGIN~~~ ~~~END~~~'')) ''img''
          (Some [[]]) True [])
     = Inr [packageInfo [] JUndefined]
   \<and> name (packageInfo [] JUndefined) = []"
  by code_simp

text \<open>
  C3 at the failing input. With no defaults and no caller entries the merged go request is
  the empty object, which is truthy, so the test \<^verbatim>\<open>if (!goPackages)\<close> under the comment
  "Return empty array if no components" does not fire: the go extractor reads the installer
  log through the command runner, and fails when that command fails. The cargo extractor,
  written the same way but with its commands inside the loop, returns the empty list and
  spawns nothing.
\<close>

theorem C3_go_reads_log_on_empty_request:
  "mergeDefaults (getDefaultDependencies_lookup (quiet_world exec_fails) ''go'') None = []
   \<and> getGoPackageInfo (quiet_world exec_fails) ''vscdc--extract--0'' None []
       = (Inl (SpawnError ''no such file''),
          [Log ''(*) Gathering information about go modules and packages...'',
           Spawn ''docker''
             [''exec'', ''vscdc--extract--0'',
              wrappedCommand ''cat /usr/local/etc/vscode-dev-containers/go.log'']])
   \<and> getCargoPackageInfo (quiet_world exec_fails) ''vscdc--extract--0'' None []
       = (Inr [], [Log ''(*) Gathering information about cargo packages...''])"
  by code_simp

text \<open>
  C4 at the failing input. With the default \<^verbatim>\<open>rustfmt\<close> for cargo and the default \<^verbatim>\<open>gopls\<close>
  for go, the cargo extractor asks \<^verbatim>\<open>getDefaultDependencies\<close> for the key \<^verbatim>\<open>go\<close>: it runs
  \<^verbatim>\<open>gopls --version\<close> and returns a record for \<^verbatim>\<open>gopls\<close>. The defaults of cargo are never
  read: changing them changes nothing.
\<close>

theorem C4_cargo_merges_go_defaults:
  "getCargoPackageInfo cargo_and_go_defaults ''img'' None []
     = (Inr [packageInfo ''gopls'' (JStr ''1.2.3'')],
        [Log ''(*) Gathering information about cargo packages...'',
         Log ''(*) Getting version for gopls...'',
         Spawn ''docker''
           [''run'', ''--init'', ''--privileged'', ''--rm'', ''img'',
            wrappedCommand ''gopls --version'']])
   \<and> getCargoPackageInfo
         (w\<lparr>getDefaultDependencies_lookup := (getDefaultDependencies_lookup w)(''cargo'' := d)\<rparr>)
         t l tr
       = getCargoPackageInfo w t l tr"
proof
  show "getCargoPackageInfo cargo_and_go_defaults ''img'' None []
     = (Inr [packageInfo ''gopls'' (JStr ''1.2.3'')],
        [Log ''(*) Gathering information about cargo packages...'',
         Log ''(*) Getting version for gopls...'',
         Spawn ''docker''
           [''run'', ''--init'', ''--privileged'', ''--rm'', ''img'',
            wrappedCommand ''gopls --version'']])"
    by code_simp
  show "getCargoPackageInfo
         (w\<lparr>getDefaultDependencies_lookup := (getDefaultDependencies_lookup w)(''cargo'' := d)\<rparr>)
         t l tr
       = getCargoPackageInfo w t l tr"
    by (simp add: getCargoPackageInfo_def cargoCrate_defaults_irrelevant)
qed


end
